theory Spec2Isabelle
  imports Complex_Main "HOL-Library.AList"
begin

section \<open>JavaScript values used by the leave-request script\<close>

text \<open>
  A JavaScript string is a sequence of UTF-16 code units, here natural numbers. The
  script compares strings with \<^verbatim>\<open>===\<close>, which is equality of these sequences.
  ASCII literals of the source are written \<open>str ''...''\<close>; the Khmer literals are
  given by their code units.
\<close>

type_synonym jsstring = "nat list"

definition str :: "string \<Rightarrow> jsstring" where
  "str s = map of_char s"

text \<open>
  A JavaScript number. Finite values are kept as exact rationals: the rounding of
  binary64 is not modelled, so the model is exact on the values the script works with
  (durations in halves of a day, counters) and idealised elsewhere.
\<close>

datatype jsnum = Fin rat | PosInf | NegInf | NaN

text \<open>
  The values that reach the duration parser and the cells: strings, numbers,
  \<^verbatim>\<open>undefined\<close>, and \<open>Obj k\<close>, the built-in object that is the member \<open>k\<close> of
  \<^verbatim>\<open>Object.prototype\<close> (a function, or the prototype itself for \<^verbatim>\<open>__proto__\<close>).
\<close>

datatype jsval = Str jsstring | Num jsnum | Obj jsstring | Undefined

fun truthy :: "jsval \<Rightarrow> bool" where
  "truthy (Str s) = (s \<noteq> [])"
| "truthy (Num (Fin q)) = (q \<noteq> 0)"
| "truthy (Num NaN) = False"
| "truthy (Num PosInf) = True"
| "truthy (Num NegInf) = True"
| "truthy (Obj k) = True"
| "truthy Undefined = False"

text \<open>White space and line terminators, as \<^verbatim>\<open>String.prototype.trim\<close> and
  \<^verbatim>\<open>parseFloat\<close> strip them.\<close>

definition isWhiteSpace :: "nat \<Rightarrow> bool" where
  "isWhiteSpace c =
     (c \<in> {9, 10, 11, 12, 13, 32, 160, 5760, 8232, 8233, 8239, 8287, 12288, 65279}
      \<or> (8192 \<le> c \<and> c \<le> 8202))"

definition trim :: "jsstring \<Rightarrow> jsstring" where
  "trim s = rev (dropWhile isWhiteSpace (rev (dropWhile isWhiteSpace s)))"

definition startsWith :: "jsstring \<Rightarrow> jsstring \<Rightarrow> bool" where
  "startsWith s p = (take (length p) s = p)"

subsection \<open>parseFloat\<close>

definition isDigit :: "nat \<Rightarrow> bool" where
  "isDigit c = (48 \<le> c \<and> c \<le> 57)"

definition decimal :: "jsstring \<Rightarrow> nat" where
  "decimal ds = foldl (\<lambda>a d. 10 * a + (d - 48)) 0 ds"

text \<open>An optional sign: whether it is a minus, and the rest of the string.\<close>

fun signOf :: "jsstring \<Rightarrow> bool \<times> jsstring" where
  "signOf [] = (False, [])"
| "signOf (c # r) =
     (if c = 45 then (True, r) else if c = 43 then (False, r) else (False, c # r))"

text \<open>The exponent part \<^verbatim>\<open>e[+-]digits\<close>, or 0 when there is none.\<close>

fun exponentPart :: "jsstring \<Rightarrow> int" where
  "exponentPart [] = 0"
| "exponentPart (c # r) =
     (if c = 101 \<or> c = 69 then
        (let ds = takeWhile isDigit (snd (signOf r))
         in if ds = [] then 0
            else if fst (signOf r) then - int (decimal ds) else int (decimal ds))
      else 0)"

definition scale10 :: "rat \<Rightarrow> int \<Rightarrow> rat" where
  "scale10 m e = (if 0 \<le> e then m * 10 ^ nat e else m / 10 ^ nat (- e))"

text \<open>
  \<^verbatim>\<open>parseFloat\<close> of a string: leading white space is skipped, then the longest
  prefix that is a decimal literal (or \<^verbatim>\<open>Infinity\<close>) is read; there is none
  exactly when the result is \<^verbatim>\<open>NaN\<close>.
\<close>

definition parseFloatStr :: "jsstring \<Rightarrow> jsnum" where
  "parseFloatStr s =
     (let t = dropWhile isWhiteSpace s;
          neg = fst (signOf t);
          u = snd (signOf t)
      in if startsWith u (str ''Infinity'') then (if neg then NegInf else PosInf)
         else
           (let ip = takeWhile isDigit u;
                r1 = dropWhile isDigit u;
                hasDot = (r1 \<noteq> [] \<and> hd r1 = 46);
                fp = (if hasDot then takeWhile isDigit (tl r1) else []);
                r2 = (if hasDot then dropWhile isDigit (tl r1) else r1)
            in if ip = [] \<and> fp = [] then NaN
               else
                 (let m = of_nat (decimal ip) + of_nat (decimal fp) / 10 ^ length fp;
                      v = scale10 m (exponentPart r2)
                  in Fin (if neg then - v else v))))"

text \<open>
  \<^verbatim>\<open>parseFloat\<close> converts its argument to a string first. A number prints and
  parses back to itself; \<^verbatim>\<open>undefined\<close> and the built-in objects print as text that
  starts with no digit.
\<close>

fun parseFloat :: "jsval \<Rightarrow> jsnum" where
  "parseFloat (Str s) = parseFloatStr s"
| "parseFloat (Num n) = n"
| "parseFloat (Obj k) = NaN"
| "parseFloat Undefined = NaN"

definition isNaN :: "jsnum \<Rightarrow> bool" where
  "isNaN n = (n = NaN)"

section \<open>Duration parser\<close>

text \<open>
  \<^verbatim>\<open>const dayValueMap = { <morning>: 0.5, <afternoon>: 0.5, <night>: 0.5 }\<close>:
  a plain object literal, whose three own keys are Khmer words.
\<close>

definition TOKEN_MORNING :: jsstring where
  "TOKEN_MORNING = [6040, 6077, 6041, 6038, 6098, 6042, 6073, 6016]"

definition TOKEN_AFTERNOON :: jsstring where
  "TOKEN_AFTERNOON = [6040, 6077, 6041, 6042, 6047, 6080, 6043]"

definition TOKEN_NIGHT :: jsstring where
  "TOKEN_NIGHT = [6038, 6081, 6043, 6041, 6036, 6091]"

definition dayValueMap :: "(jsstring \<times> jsnum) list" where
  "dayValueMap =
     [(TOKEN_MORNING, Fin (1 / 2)), (TOKEN_AFTERNOON, Fin (1 / 2)), (TOKEN_NIGHT, Fin (1 / 2))]"

text \<open>The property names every plain object inherits from \<^verbatim>\<open>Object.prototype\<close>.\<close>

definition objectPrototypeKeys :: "jsstring list" where
  "objectPrototypeKeys =
     [str ''constructor'', str ''hasOwnProperty'', str ''isPrototypeOf'',
      str ''propertyIsEnumerable'', str ''toLocaleString'', str ''toString'',
      str ''valueOf'', str ''__proto__'', str ''__defineGetter__'',
      str ''__defineSetter__'', str ''__lookupGetter__'', str ''__lookupSetter__'']"

text \<open>
  \<^verbatim>\<open>obj[key]\<close> on a plain object: the own property if there is one, else the
  inherited member, else \<^verbatim>\<open>undefined\<close>. The key of a non-string value is its
  printed form, which is neither a Khmer word nor an inherited name.
\<close>

fun getProperty :: "(jsstring \<times> jsnum) list \<Rightarrow> jsval \<Rightarrow> jsval" where
  "getProperty obj (Str k) =
     (case map_of obj k of
        Some v \<Rightarrow> Num v
      | None \<Rightarrow> if k \<in> set objectPrototypeKeys then Obj k else Undefined)"
| "getProperty obj v = Undefined"

text \<open>
  \<^verbatim>\<open>
  function getNumericDayValue(dayValue) {
    if (dayValueMap[dayValue]) { return dayValueMap[dayValue]; }
    const numericValue = parseFloat(dayValue);
    return isNaN(numericValue) ? 0 : numericValue;
  }
  \<close>
\<close>

definition getNumericDayValue :: "jsval \<Rightarrow> jsval" where
  "getNumericDayValue dayValue =
     (if truthy (getProperty dayValueMap dayValue) then getProperty dayValueMap dayValue
      else (let numericValue = parseFloat dayValue
            in if isNaN numericValue then Num (Fin 0) else Num numericValue))"

section \<open>Dates\<close>

text \<open>
  A \<^verbatim>\<open>Date\<close> is its time value: \<open>None\<close> is an invalid date (whose time value is
  \<^verbatim>\<open>NaN\<close>), \<open>Some t\<close> is \<open>t\<close> milliseconds of local wall-clock time since
  1970-01-01 00:00 local. The script runs in one time zone with a fixed offset and no
  daylight saving (Phnom Penh), so local midnight is a multiple of a day.
\<close>

type_synonym jsdate = "int option"

definition msPerDay :: int where
  "msPerDay = 86400000"

text \<open>The time \<open>h:m\<close> on the local day that holds the time \<open>t\<close>.\<close>

definition clock :: "int \<Rightarrow> int \<Rightarrow> int \<Rightarrow> int" where
  "clock t h m = t - t mod msPerDay + h * 3600000 + m * 60000"

text \<open>\<^verbatim>\<open>d.setHours(h, m, 0, 0)\<close>: the same local day, at \<open>h:m\<close>.\<close>

definition setHours :: "int \<Rightarrow> int \<Rightarrow> jsdate \<Rightarrow> jsdate" where
  "setHours h m d = map_option (\<lambda>t. clock t h m) d"

text \<open>\<^verbatim>\<open>d.setDate(d.getDate() + 1)\<close>: the same time on the next day.\<close>

definition addDay :: "jsdate \<Rightarrow> jsdate" where
  "addDay d = map_option (\<lambda>t. t + msPerDay) d"

text \<open>\<^verbatim>\<open>a.getTime() === b.getTime()\<close>; \<^verbatim>\<open>NaN\<close> equals nothing.\<close>

fun sameTime :: "jsdate \<Rightarrow> jsdate \<Rightarrow> bool" where
  "sameTime (Some a) (Some b) = (a = b)"
| "sameTime a b = False"

text \<open>\<^verbatim>\<open>a < b\<close> on dates compares the time values; it is false when one is invalid.\<close>

fun dateLess :: "jsdate \<Rightarrow> jsdate \<Rightarrow> bool" where
  "dateLess (Some a) (Some b) = (a < b)"
| "dateLess a b = False"

text \<open>
  Year and month (0 for January) of a day number counted from 1970-01-01, in the
  proleptic Gregorian calendar, as \<^verbatim>\<open>getFullYear\<close> and \<^verbatim>\<open>getMonth\<close> compute them.
\<close>

definition civil :: "int \<Rightarrow> int \<times> int" where
  "civil z =
     (let z1 = z + 719468;
          era = z1 div 146097;
          doe = z1 mod 146097;
          yoe = (doe - doe div 1460 + doe div 36524 - doe div 146096) div 365;
          doy = doe - (365 * yoe + yoe div 4 - yoe div 100);
          mp = (5 * doy + 2) div 153;
          m = (if mp < 10 then mp + 3 else mp - 9);
          y = yoe + era * 400 + (if m \<le> 2 then 1 else 0)
      in (y, m - 1))"

definition getFullYear :: "jsdate \<Rightarrow> int option" where
  "getFullYear d = map_option (\<lambda>t. fst (civil (t div msPerDay))) d"

definition getMonth :: "jsdate \<Rightarrow> int option" where
  "getMonth d = map_option (\<lambda>t. snd (civil (t div msPerDay))) d"

section \<open>The request ledger\<close>

text \<open>
  One row of a leave sheet, columns 1 to 21 in the order of the constants
  \<^verbatim>\<open>TIMESTAMP_COL\<close> ... \<^verbatim>\<open>ADMIN_CHECKIN_NOTE_COL\<close>. A text column holds the cell's
  text (empty for an empty cell); \<open>employeeId\<close> holds what \<^verbatim>\<open>toString()\<close> gives on the
  cell (and is empty for a cell that is falsy). \<open>days\<close> holds the cell as it is, a
  string or a number. \<open>startDate\<close> and \<open>endDate\<close> hold \<^verbatim>\<open>new Date(cell)\<close>. A time-stamp column is
  \<open>None\<close> when the cell is empty and \<open>Some t\<close> when it holds a date. A picture
  column holds a URL, or \<open>None\<close> for the \<^verbatim>\<open>null\<close> that a failed upload returns.
\<close>

record request =
  timestamp :: "int option"
  requestId :: jsstring
  employeeId :: jsstring
  employeeName :: jsstring
  leaveType :: jsstring
  startDate :: jsdate
  endDate :: jsdate
  days :: jsval
  reason :: jsstring
  status :: jsstring
  approver :: jsstring
  selfiePhoto :: "jsstring option"
  approvalTimestamp :: "int option"
  docPhoto :: jsstring
  locationLink :: jsstring
  checkInTimestamp :: "int option"
  checkInPhoto :: "jsstring option"
  checkInLocationLink :: jsstring
  notificationSent :: jsstring
  paymentReceipt :: "jsstring option"
  adminCheckinNote :: jsstring

text \<open>
  The spreadsheet: its sheets by name, in order. A sheet is the list of its rows from
  row 2 on (row 1 is the header line, which the script never reads); the row of index
  \<open>i\<close> is the script's row \<open>i + 2\<close>. \<^verbatim>\<open>sheet.getLastRow() > 1\<close> says that this list is
  not empty.
\<close>

type_synonym sheet = "request list"

type_synonym spreadsheet = "(jsstring \<times> sheet) list"

definition getSheetByName :: "spreadsheet \<Rightarrow> jsstring \<Rightarrow> sheet option" where
  "getSheetByName ss name = map_of ss name"

definition PERMISSION_SHEET_NAME :: jsstring where
  "PERMISSION_SHEET_NAME =
     [6021, 6098, 6036, 6070, 6036, 6091, 6021, 6081, 6025, 6016, 6098, 6042, 6085]"

definition LEAVE_SHEET_NAME :: jsstring where
  "LEAVE_SHEET_NAME =
     [6021, 6098, 6036, 6070, 6036, 6091, 6024, 6036, 6091, 6047, 6040, 6098, 6042, 6070, 6016]"

definition HOME_LEAVE_SHEET_NAME :: jsstring where
  "HOME_LEAVE_SHEET_NAME =
     [6021, 6098, 6036, 6070, 6036, 6091, 6033, 6085, 6037, 6098, 6033, 6087]"

definition ALL_LEAVE_SHEETS :: "jsstring list" where
  "ALL_LEAVE_SHEETS = [PERMISSION_SHEET_NAME, LEAVE_SHEET_NAME, HOME_LEAVE_SHEET_NAME]"

definition DEFAULT_ADMIN_NAME :: jsstring where
  "DEFAULT_ADMIN_NAME = str ''Admin''"

text \<open>\<^verbatim>\<open>Array.prototype.findIndex\<close>, with \<open>None\<close> for \<open>-1\<close>.\<close>

fun findIndex :: "('a \<Rightarrow> bool) \<Rightarrow> 'a list \<Rightarrow> nat option" where
  "findIndex p [] = None"
| "findIndex p (x # xs) = (if p x then Some 0 else map_option Suc (findIndex p xs))"

text \<open>
  \<^verbatim>\<open>
  function findRequestRow(ss, requestId) {
    for (const sheetName of ALL_LEAVE_SHEETS) {
      const sheet = ss.getSheetByName(sheetName);
      if (sheet && sheet.getLastRow() > 1) {
        const requestIds = sheet.getRange(2, REQUEST_ID_COL, sheet.getLastRow() - 1, 1).getValues();
        const rowIndex = requestIds.findIndex((row) => row[0] === requestId);
        if (rowIndex !== -1) { return { sheet: sheet, row: rowIndex + 2 }; }
      }
    }
    return null;
  }
  \<close>
  The result names the sheet and gives \<open>rowIndex\<close>. A sheet with no rows below the
  header has no match, so the test on \<^verbatim>\<open>getLastRow\<close> needs no case of its own.
\<close>

fun findRequestRowIn :: "jsstring list \<Rightarrow> spreadsheet \<Rightarrow> jsstring \<Rightarrow> (jsstring \<times> nat) option" where
  "findRequestRowIn [] ss rid = None"
| "findRequestRowIn (sheetName # rest) ss rid =
     (case getSheetByName ss sheetName of
        None \<Rightarrow> findRequestRowIn rest ss rid
      | Some rows \<Rightarrow>
          (case findIndex (\<lambda>row. requestId row = rid) rows of
             Some rowIndex \<Rightarrow> Some (sheetName, rowIndex)
           | None \<Rightarrow> findRequestRowIn rest ss rid))"

definition findRequestRow :: "spreadsheet \<Rightarrow> jsstring \<Rightarrow> (jsstring \<times> nat) option" where
  "findRequestRow ss rid = findRequestRowIn ALL_LEAVE_SHEETS ss rid"

text \<open>The row a search result points to, and a write to cells of that row.\<close>

definition getRow :: "spreadsheet \<Rightarrow> jsstring \<times> nat \<Rightarrow> request" where
  "getRow ss found = the (getSheetByName ss (fst found)) ! snd found"

definition setRow :: "spreadsheet \<Rightarrow> jsstring \<times> nat \<Rightarrow> (request \<Rightarrow> request) \<Rightarrow> spreadsheet" where
  "setRow ss found f =
     (case getSheetByName ss (fst found) of
        None \<Rightarrow> ss
      | Some rows \<Rightarrow> AList.update (fst found) (rows[snd found := f (rows ! snd found)]) ss)"

text \<open>\<^verbatim>\<open>sheet.deleteRow(row)\<close>: the rows below move up.\<close>

definition deleteRow :: "spreadsheet \<Rightarrow> jsstring \<times> nat \<Rightarrow> spreadsheet" where
  "deleteRow ss found =
     (case getSheetByName ss (fst found) of
        None \<Rightarrow> ss
      | Some rows \<Rightarrow> AList.update (fst found) (take (snd found) rows @ drop (Suc (snd found)) rows) ss)"

text \<open>
  What the entry points answer: \<^verbatim>\<open>{status: "success", ...}\<close>, or
  \<^verbatim>\<open>{status: "error", message: ...}\<close> with one of the script's messages.
\<close>

datatype error =
    Required
  | NotFound
  | AlreadyProcessed
  | InvalidCheckIn
  | LocationMissing
  | TooFar
  | InvalidDetails

datatype response = Success | Failure error

section \<open>Lifecycle engine\<close>

text \<open>
  \<^verbatim>\<open>updateRequestStatus(requestId, newStatus, approverRole, rejectionReason = "")\<close>.
  An argument that is \<^verbatim>\<open>undefined\<close> or \<^verbatim>\<open>""\<close> is the empty string here. \<open>now\<close> is
  the clock reading of \<^verbatim>\<open>new Date()\<close>. The guard on the arguments comes first, then
  the search, then the test of the stored status, then the writes to the cells of
  the row found.
\<close>

definition updateRequestStatus ::
  "int \<Rightarrow> spreadsheet \<Rightarrow> jsstring \<Rightarrow> jsstring \<Rightarrow> jsstring \<Rightarrow> jsstring \<Rightarrow> response \<times> spreadsheet" where
  "updateRequestStatus now ss rid newStatus approverRole rejectionReason =
     (if rid = [] \<or> newStatus = [] then (Failure Required, ss)
      else case findRequestRow ss rid of
        None \<Rightarrow> (Failure NotFound, ss)
      | Some found \<Rightarrow>
          if status (getRow ss found) \<noteq> str ''Pending'' then (Failure AlreadyProcessed, ss)
          else
            (let approverDisplayName =
                   (if approverRole \<noteq> [] then approverRole else DEFAULT_ADMIN_NAME);
                 ss1 = setRow ss found (\<lambda>r. r\<lparr>status := newStatus,
                                               approver := approverDisplayName,
                                               approvalTimestamp := Some now\<rparr>);
                 ss2 = (if newStatus = str ''Rejected'' \<and> rejectionReason \<noteq> []
                        then setRow ss1 found (\<lambda>r. r\<lparr>adminCheckinNote := rejectionReason\<rparr>)
                        else ss1)
             in (Success, ss2)))"

text \<open>\<^verbatim>\<open>deleteLeaveRequest(requestId)\<close>.\<close>

definition deleteLeaveRequest :: "spreadsheet \<Rightarrow> jsstring \<Rightarrow> response \<times> spreadsheet" where
  "deleteLeaveRequest ss rid =
     (if rid = [] then (Failure Required, ss)
      else case findRequestRow ss rid of
        Some found \<Rightarrow> (Success, deleteRow ss found)
      | None \<Rightarrow> (Failure NotFound, ss))"

text \<open>
  The payload of a submission or of an edit. \<open>d_startDate\<close> and \<open>d_endDate\<close> are
  \<^verbatim>\<open>new Date(details.startDate)\<close> and \<^verbatim>\<open>new Date(details.endDate)\<close>; a missing
  text field is the empty string.
\<close>

record leaveDetails =
  d_requestId :: jsstring
  d_employeeId :: jsstring
  d_employeeName :: jsstring
  d_leaveType :: jsstring
  d_startDate :: jsdate
  d_endDate :: jsdate
  d_numberOfDays :: jsval
  d_reason :: jsstring
  d_selfieImageData :: jsstring
  d_documentImageData :: jsstring
  d_paymentReceiptImageData :: jsstring
  d_latitude :: jsval
  d_longitude :: jsval

text \<open>
  The file store and the JSON encoding are collaborators of the script; what they
  return is an input here. \<open>savedSelfie\<close> is the result of \<^verbatim>\<open>saveImageToDrive\<close> for
  the selfie (\<open>None\<close> for \<^verbatim>\<open>null\<close>), \<open>savedDocuments\<close> the JSON text of the document
  URLs (\<^verbatim>\<open>JSON.stringify([newUrl])\<close> or the result of
  \<^verbatim>\<open>saveMultipleImagesToDrive\<close>), \<open>savedReceipt\<close> the result of
  \<^verbatim>\<open>saveImageToDrive\<close> for the payment receipt.
\<close>

record uploads =
  savedSelfie :: "jsstring option"
  savedDocuments :: jsstring
  savedReceipt :: "jsstring option"

definition isBase64Image :: "jsstring \<Rightarrow> bool" where
  "isBase64Image s = startsWith s (str ''data:image'')"

text \<open>
  \<^verbatim>\<open>updateLeaveRequest(details)\<close>: the edit-and-resubmit. The row keeps its sheet and
  its request id.
\<close>

definition updateLeaveRequest :: "uploads \<Rightarrow> spreadsheet \<Rightarrow> leaveDetails \<Rightarrow> response \<times> spreadsheet" where
  "updateLeaveRequest up ss details =
     (if d_requestId details = [] then (Failure Required, ss)
      else case findRequestRow ss (d_requestId details) of
        None \<Rightarrow> (Failure NotFound, ss)
      | Some found \<Rightarrow>
          (let selfieUrl =
                 (if isBase64Image (d_selfieImageData details) then savedSelfie up
                  else Some (d_selfieImageData details));
               documentUrlsJson =
                 (if isBase64Image (d_documentImageData details) then savedDocuments up
                  else if d_documentImageData details \<noteq> []
                          \<and> startsWith (d_documentImageData details) (str ''['')
                       then savedDocuments up
                  else d_documentImageData details)
           in (Success,
               setRow ss found (\<lambda>r. r\<lparr>leaveType := d_leaveType details,
                                         startDate := d_startDate details,
                                         endDate := d_endDate details,
                                         days := d_numberOfDays details,
                                         reason := d_reason details,
                                         selfiePhoto := selfieUrl,
                                         docPhoto := documentUrlsJson,
                                         status := str ''Pending'',
                                         approver := [],
                                         approvalTimestamp := None,
                                         adminCheckinNote := []\<rparr>))))"

text \<open>
  \<^verbatim>\<open>submitLeaveRequest(leaveDetails)\<close>, as far as the ledger goes. \<open>newId\<close> is the text
  \<^verbatim>\<open>REQ-<time value of the clock>\<close>; \<open>toStr\<close> prints a value inside a template
  string. A sheet that is missing is inserted, and \<^verbatim>\<open>appendRow\<close> then writes
  its row 1, which lies above the rows the script reads.
\<close>

definition submitLeaveRequest ::
  "(jsval \<Rightarrow> jsstring) \<Rightarrow> uploads \<Rightarrow> int \<Rightarrow> jsstring \<Rightarrow> spreadsheet \<Rightarrow> leaveDetails
     \<Rightarrow> response \<times> spreadsheet" where
  "submitLeaveRequest toStr up now newId ss d =
     (if d_leaveType d = [] \<or> d_employeeId d = [] then (Failure InvalidDetails, ss)
      else
        (let locationLink =
               (if truthy (d_latitude d) \<and> truthy (d_longitude d)
                then str ''http://maps.google.com/maps?q='' @ toStr (d_latitude d)
                       @ str '','' @ toStr (d_longitude d)
                else []);
             selfieUrl =
               (if d_selfieImageData d \<noteq> [] \<and> isBase64Image (d_selfieImageData d)
                then savedSelfie up else Some []);
             documentUrlsJson =
               (if d_documentImageData d \<noteq> [] then savedDocuments up else []);
             paymentReceiptUrl =
               (if d_paymentReceiptImageData d \<noteq> [] then savedReceipt up else Some []);
             row = \<lparr>timestamp = Some now, requestId = newId, employeeId = d_employeeId d,
                    employeeName = d_employeeName d, leaveType = d_leaveType d,
                    startDate = d_startDate d, endDate = d_endDate d,
                    days = d_numberOfDays d, reason = d_reason d,
                    status = str ''Pending'', approver = [], selfiePhoto = selfieUrl,
                    approvalTimestamp = None, docPhoto = documentUrlsJson,
                    locationLink = locationLink, checkInTimestamp = None,
                    checkInPhoto = Some [], checkInLocationLink = [],
                    notificationSent = [], paymentReceipt = paymentReceiptUrl,
                    adminCheckinNote = []\<rparr>
         in case getSheetByName ss (d_leaveType d) of
              Some rows \<Rightarrow> (Success, AList.update (d_leaveType d) (rows @ [row]) ss)
            | None \<Rightarrow> (Success, ss @ [(d_leaveType d, [])])))"

subsection \<open>Check-in\<close>

record checkInData =
  c_requestId :: jsstring
  c_selfieData :: jsstring
  c_latitude :: jsval
  c_longitude :: jsval

definition CHECKIN_TARGET_LATITUDE :: rat where
  "CHECKIN_TARGET_LATITUDE = 11414483377915474 / 1000000000000000"

definition CHECKIN_TARGET_LONGITUDE :: rat where
  "CHECKIN_TARGET_LONGITUDE = 104763828818174 / 1000000000000"

definition CHECKIN_ALLOWED_RADIUS_METERS :: rat where
  "CHECKIN_ALLOWED_RADIUS_METERS = 85"

text \<open>\<^verbatim>\<open>x > r\<close> for a number \<open>x\<close> and a finite \<open>r\<close>.\<close>

fun numGreater :: "jsnum \<Rightarrow> rat \<Rightarrow> bool" where
  "numGreater (Fin q) r = (q > r)"
| "numGreater PosInf r = True"
| "numGreater NegInf r = False"
| "numGreater NaN r = False"

text \<open>
  \<^verbatim>\<open>submitCheckIn(checkInData)\<close>. \<open>distance\<close> is what \<^verbatim>\<open>calculateDistance\<close> returns for
  the coordinates (floating-point trigonometry, not modelled) and \<open>photoUrl\<close> what
  \<^verbatim>\<open>saveImageToDrive\<close> returns for the selfie. The two \<^verbatim>\<open>throw\<close>s are caught by the
  function's own handler and answered as errors.
\<close>

definition submitCheckIn ::
  "(jsval \<Rightarrow> jsstring) \<Rightarrow> jsnum \<Rightarrow> jsstring option \<Rightarrow> int \<Rightarrow> spreadsheet \<Rightarrow> checkInData
     \<Rightarrow> response \<times> spreadsheet" where
  "submitCheckIn toStr distance photoUrl now ss cd =
     (if c_requestId cd = [] \<or> c_selfieData cd = [] then (Failure InvalidCheckIn, ss)
      else if \<not> (truthy (c_latitude cd) \<and> truthy (c_longitude cd))
           then (Failure LocationMissing, ss)
      else if numGreater distance CHECKIN_ALLOWED_RADIUS_METERS then (Failure TooFar, ss)
      else
        (let locationLink = str ''https://maps.google.com/?q='' @ toStr (c_latitude cd)
                              @ str '','' @ toStr (c_longitude cd)
         in case findRequestRow ss (c_requestId cd) of
              Some found \<Rightarrow>
                (Success,
                 setRow ss found (\<lambda>r. r\<lparr>checkInTimestamp := Some now,
                                           checkInPhoto := photoUrl,
                                           checkInLocationLink := locationLink\<rparr>))
            | None \<Rightarrow> (Failure NotFound, ss)))"

text \<open>\<^verbatim>\<open>adminSubmitCheckIn(requestId, adminRole)\<close>.\<close>

definition adminSubmitCheckIn ::
  "int \<Rightarrow> spreadsheet \<Rightarrow> jsstring \<Rightarrow> jsstring \<Rightarrow> response \<times> spreadsheet" where
  "adminSubmitCheckIn now ss rid adminRole =
     (if rid = [] \<or> adminRole = [] then (Failure Required, ss)
      else case findRequestRow ss rid of
        Some found \<Rightarrow>
          (Success,
           setRow ss found (\<lambda>r. r\<lparr>checkInTimestamp := Some now,
                                     adminCheckinNote := str ''Checked in by: '' @ adminRole,
                                     checkInLocationLink := str ''N/A (Admin)''\<rparr>))
      | None \<Rightarrow> (Failure NotFound, ss))"

section \<open>Duplicate guard\<close>

text \<open>
  The loop of \<^verbatim>\<open>checkForDuplicateRequests\<close> over the rows of the sheet:
  \<^verbatim>\<open>
  for (const row of data) {
    const existingRequestId = row[0];
    const existingEmployeeId = row[1] ? row[1].toString().trim() : "";
    if (existingEmployeeId === employeeId) {
      const existingDate = new Date(row[4]); existingDate.setHours(0, 0, 0, 0);
      if (existingDate.getTime() === requestDate.getTime()) {
        if (currentRequestId && existingRequestId === currentRequestId) { continue; }
        return { isDuplicate: true, ... };
      }
    }
  }
  return { isDuplicate: false };
  \<close>
\<close>

fun duplicateIn :: "jsstring \<Rightarrow> jsdate \<Rightarrow> jsstring \<Rightarrow> request list \<Rightarrow> bool" where
  "duplicateIn eid requestDate currentRequestId [] = False"
| "duplicateIn eid requestDate currentRequestId (row # rest) =
     (let existingRequestId = requestId row;
          existingEmployeeId = (if employeeId row \<noteq> [] then trim (employeeId row) else [])
      in if existingEmployeeId = eid then
           (let existingDate = setHours 0 0 (startDate row)
            in if sameTime existingDate requestDate then
                 (if currentRequestId \<noteq> [] \<and> existingRequestId = currentRequestId
                  then duplicateIn eid requestDate currentRequestId rest
                  else True)
               else duplicateIn eid requestDate currentRequestId rest)
         else duplicateIn eid requestDate currentRequestId rest)"

text \<open>
  \<^verbatim>\<open>checkForDuplicateRequests({employeeId, startDate, leaveType, requestId})\<close>, its
  \<^verbatim>\<open>isDuplicate\<close>. \<open>startDate'\<close> is \<^verbatim>\<open>new Date(startDate)\<close>. The Node port of the
  script runs the same loop.
\<close>

definition checkForDuplicateRequests ::
  "spreadsheet \<Rightarrow> jsstring \<Rightarrow> jsdate \<Rightarrow> jsstring \<Rightarrow> jsstring \<Rightarrow> bool" where
  "checkForDuplicateRequests ss eid startDate' leaveType' currentRequestId =
     (case getSheetByName ss leaveType' of
        None \<Rightarrow> False
      | Some rows \<Rightarrow>
          if rows = [] then False
          else duplicateIn eid (setHours 0 0 startDate') currentRequestId rows)"

section \<open>Stats aggregator\<close>

text \<open>\<^verbatim>\<open>a + b\<close> on numbers.\<close>

fun numAdd :: "jsnum \<Rightarrow> jsnum \<Rightarrow> jsnum" where
  "numAdd (Fin a) (Fin b) = Fin (a + b)"
| "numAdd NaN b = NaN"
| "numAdd a NaN = NaN"
| "numAdd PosInf NegInf = NaN"
| "numAdd NegInf PosInf = NaN"
| "numAdd PosInf b = PosInf"
| "numAdd NegInf b = NegInf"
| "numAdd a PosInf = PosInf"
| "numAdd a NegInf = NegInf"

text \<open>
  The running \<^verbatim>\<open>totalDays\<close>: a number, or, once \<^verbatim>\<open>+=\<close> has met a value that is
  not a number, the string that JavaScript's \<^verbatim>\<open>+\<close> concatenates (its text is not
  modelled). Adding \<^verbatim>\<open>undefined\<close> to a number gives \<^verbatim>\<open>NaN\<close>.
\<close>

datatype total = Number jsnum | Concatenated

fun addDays :: "total \<Rightarrow> jsval \<Rightarrow> total" where
  "addDays (Number a) (Num b) = Number (numAdd a b)"
| "addDays (Number a) Undefined = Number NaN"
| "addDays (Number a) (Str s) = Concatenated"
| "addDays (Number a) (Obj k) = Concatenated"
| "addDays Concatenated v = Concatenated"

record stats =
  totalRequests :: nat
  totalDays :: total
  permissionCount :: nat
  leaveCount :: nat

text \<open>The test that \<^verbatim>\<open>getMonthlyLeaveStats\<close> makes on a row, and the body of its loop.\<close>

definition countsInMonth :: "int \<Rightarrow> jsstring \<Rightarrow> request \<Rightarrow> bool" where
  "countsInMonth now eid row =
     (let rowEmployeeId = (if employeeId row \<noteq> [] then trim (employeeId row) else [])
      in rowEmployeeId = eid
         \<and> getMonth (startDate row) = getMonth (Some now)
         \<and> getFullYear (startDate row) = getFullYear (Some now)
         \<and> status row = str ''Approved'')"

definition countRow :: "int \<Rightarrow> jsstring \<Rightarrow> stats \<Rightarrow> request \<Rightarrow> stats" where
  "countRow now eid st row =
     (if countsInMonth now eid row then
        (let days' = getNumericDayValue (days row);
             st1 = st\<lparr>totalRequests := totalRequests st + 1,
                      totalDays := addDays (totalDays st) days'\<rparr>
         in if leaveType row = PERMISSION_SHEET_NAME
              then st1\<lparr>permissionCount := permissionCount st1 + 1\<rparr>
            else if leaveType row = LEAVE_SHEET_NAME
              then st1\<lparr>leaveCount := leaveCount st1 + 1\<rparr>
            else st1)
      else st)"

fun countSheets :: "int \<Rightarrow> jsstring \<Rightarrow> spreadsheet \<Rightarrow> stats \<Rightarrow> jsstring list \<Rightarrow> stats" where
  "countSheets now eid ss st [] = st"
| "countSheets now eid ss st (sheetName # rest) =
     (case getSheetByName ss sheetName of
        None \<Rightarrow> countSheets now eid ss st rest
      | Some rows \<Rightarrow> countSheets now eid ss (foldl (countRow now eid) st rows) rest)"

text \<open>\<^verbatim>\<open>getMonthlyLeaveStats(employeeId)\<close>, with the clock reading \<open>now\<close>.\<close>

definition getMonthlyLeaveStats :: "int \<Rightarrow> spreadsheet \<Rightarrow> jsstring \<Rightarrow> stats" where
  "getMonthlyLeaveStats now ss eid =
     countSheets now eid ss
       \<lparr>totalRequests = 0, totalDays = Number (Fin 0), permissionCount = 0, leaveCount = 0\<rparr>
       ALL_LEAVE_SHEETS"

section \<open>Escalation scanner\<close>

datatype tier = OverdueHalfDay_1 | OverdueHalfDay_2 | OverdueTime | OverdueDay

text \<open>The text that the scanner writes to the notification column for a tier.\<close>

fun tierMark :: "tier \<Rightarrow> jsstring" where
  "tierMark OverdueHalfDay_1 = str ''OverdueHalfDay_1''"
| "tierMark OverdueHalfDay_2 = str ''OverdueHalfDay_2''"
| "tierMark OverdueTime = str ''OverdueTime''"
| "tierMark OverdueDay = str ''OverdueDay''"

text \<open>
  \<^verbatim>\<open>numericDays == 0.5\<close>. \<^verbatim>\<open>getNumericDayValue\<close> returns a number or a built-in
  object; an object converts to \<^verbatim>\<open>NaN\<close>, which equals nothing.
\<close>

fun isHalfDay :: "jsval \<Rightarrow> bool" where
  "isHalfDay (Num (Fin q)) = (q = 1 / 2)"
| "isHalfDay v = False"

text \<open>
  The decision of \<^verbatim>\<open>checkForOverdueCheckIns\<close> for one row that is approved and not
  checked in: the value of \<^verbatim>\<open>newNotificationStatus\<close> after the half-day or the
  full-day branch (\<open>None\<close> for \<^verbatim>\<open>null\<close>).
\<close>

definition newNotificationStatus :: "int \<Rightarrow> request \<Rightarrow> tier option" where
  "newNotificationStatus now row =
     (let numericDays = getNumericDayValue (days row);
          startDate' = setHours 0 0 (startDate row);
          approvalTimestamp' = approvalTimestamp row;
          notificationSent' = notificationSent row
      in if isHalfDay numericDays then
           (let morningApprovalDeadline = setHours 8 31 startDate';
                checkinDeadline1130 = setHours 11 30 startDate';
                checkinDeadline1430 = setHours 14 30 startDate'
            in if approvalTimestamp' \<noteq> None
                    \<and> dateLess approvalTimestamp' morningApprovalDeadline then
                 (if dateLess checkinDeadline1430 (Some now)
                       \<and> notificationSent' = str ''OverdueHalfDay_1''
                    then Some OverdueHalfDay_2
                  else if dateLess checkinDeadline1130 (Some now) \<and> notificationSent' = []
                    then Some OverdueHalfDay_1
                  else None)
               else None)
         else
           (let overdueDayDeadline = setHours 5 0 (addDay startDate');
                overdueTimeDeadline = setHours 18 0 startDate'
            in if dateLess overdueDayDeadline (Some now)
                    \<and> notificationSent' \<noteq> str ''OverdueDay''
                 then Some OverdueDay
               else if dateLess overdueTimeDeadline (Some now)
                      \<and> dateLess (Some now) overdueDayDeadline
                      \<and> notificationSent' = []
                 then Some OverdueTime
               else None))"

text \<open>
  One turn of the scanner's loop: rows that are checked in or not approved are
  skipped.
\<close>

definition escalationFor :: "int \<Rightarrow> request \<Rightarrow> tier option" where
  "escalationFor now row =
     (if checkInTimestamp row \<noteq> None \<or> status row \<noteq> str ''Approved'' then None
      else newNotificationStatus now row)"

text \<open>
  The loop over the rows, from index \<open>i\<close>: the notifications sent (the row index and
  the tier of each, in order) and the rows with the new marks written.
\<close>

fun scanRows :: "int \<Rightarrow> nat \<Rightarrow> request list \<Rightarrow> (nat \<times> tier) list \<times> request list" where
  "scanRows now i [] = ([], [])"
| "scanRows now i (row # rest) =
     (case escalationFor now row of
        None \<Rightarrow> (fst (scanRows now (Suc i) rest), row # snd (scanRows now (Suc i) rest))
      | Some t \<Rightarrow>
          ((i, t) # fst (scanRows now (Suc i) rest),
           row\<lparr>notificationSent := tierMark t\<rparr> # snd (scanRows now (Suc i) rest)))"

text \<open>\<^verbatim>\<open>checkForOverdueCheckIns()\<close>: only the permission sheet is scanned.\<close>

definition checkForOverdueCheckIns :: "int \<Rightarrow> spreadsheet \<Rightarrow> (nat \<times> tier) list \<times> spreadsheet" where
  "checkForOverdueCheckIns now ss =
     (case getSheetByName ss PERMISSION_SHEET_NAME of
        None \<Rightarrow> ([], ss)
      | Some rows \<Rightarrow>
          if rows = [] then ([], ss)
          else (fst (scanRows now 0 rows),
                AList.update PERMISSION_SHEET_NAME (snd (scanRows now 0 rows)) ss))"

text \<open>The notifications of one run that are about the row of index \<open>i\<close>.\<close>

definition emittedFor :: "nat \<Rightarrow> (nat \<times> tier) list \<Rightarrow> (nat \<times> tier) list" where
  "emittedFor i ems = filter (\<lambda>e. fst e = i) ems"

section \<open>Sequences of operations\<close>

text \<open>
  The operations that write to the ledger, each with the arguments and the readings of
  the environment that its entry point takes.
\<close>

datatype operation =
    Submit uploads int jsstring leaveDetails
  | Decide int jsstring jsstring jsstring jsstring
  | Resubmit uploads leaveDetails
  | CheckIn jsnum "jsstring option" int checkInData
  | AdminCheckIn int jsstring jsstring
  | Delete jsstring

fun step :: "(jsval \<Rightarrow> jsstring) \<Rightarrow> spreadsheet \<Rightarrow> operation \<Rightarrow> spreadsheet" where
  "step toStr ss (Submit up now newId d) = snd (submitLeaveRequest toStr up now newId ss d)"
| "step toStr ss (Decide now rid newStatus approverRole rejectionReason) =
     snd (updateRequestStatus now ss rid newStatus approverRole rejectionReason)"
| "step toStr ss (Resubmit up d) = snd (updateLeaveRequest up ss d)"
| "step toStr ss (CheckIn distance photoUrl now cd) =
     snd (submitCheckIn toStr distance photoUrl now ss cd)"
| "step toStr ss (AdminCheckIn now rid adminRole) = snd (adminSubmitCheckIn now ss rid adminRole)"
| "step toStr ss (Delete rid) = snd (deleteLeaveRequest ss rid)"

definition run :: "(jsval \<Rightarrow> jsstring) \<Rightarrow> spreadsheet \<Rightarrow> operation list \<Rightarrow> spreadsheet" where
  "run toStr ss ops = foldl (step toStr) ss ops"

fun isResubmit :: "operation \<Rightarrow> bool" where
  "isResubmit (Resubmit up d) = True"
| "isResubmit other = False"

text \<open>The status column of a sheet, top to bottom; empty when the sheet is missing.\<close>

definition statuses :: "spreadsheet \<Rightarrow> jsstring \<Rightarrow> jsstring list" where
  "statuses ss name = (case getSheetByName ss name of None \<Rightarrow> [] | Some rows \<Rightarrow> map status rows)"

text \<open>The request-id column of a sheet; the search for a request reads nothing else.\<close>

definition ids :: "spreadsheet \<Rightarrow> jsstring \<Rightarrow> jsstring list option" where
  "ids ss n = map_option (map requestId) (getSheetByName ss n)"

section \<open>Example ledgers\<close>

text \<open>
  Concrete rows and ledgers on which the theorems below are run. \<open>day0\<close> is local
  midnight of 2024-05-01, day 19844 after 1970-01-01.
\<close>

definition blankRow :: request where
  "blankRow = \<lparr>timestamp = None, requestId = [], employeeId = [], employeeName = [],
      leaveType = [], startDate = None, endDate = None, days = Str [], reason = [],
      status = [], approver = [], selfiePhoto = Some [], approvalTimestamp = None,
      docPhoto = [], locationLink = [], checkInTimestamp = None, checkInPhoto = Some [],
      checkInLocationLink = [], notificationSent = [], paymentReceipt = Some [],
      adminCheckinNote = []\<rparr>"

definition day0 :: int where "day0 = 1714521600000"

definition pendingRow :: request where
  "pendingRow = blankRow\<lparr>requestId := str ''REQ-1'', employeeId := str ''E1'',
      leaveType := PERMISSION_SHEET_NAME, startDate := Some day0, endDate := Some day0,
      days := Num (Fin 1), status := str ''Pending''\<rparr>"

definition approvedRow :: request where
  "approvedRow = pendingRow\<lparr>requestId := str ''REQ-2'', status := str ''Approved'',
      approver := str ''Admin'', approvalTimestamp := Some (day0 + 9 * 3600000)\<rparr>"

definition ledger1 :: spreadsheet where
  "ledger1 = [(PERMISSION_SHEET_NAME, [pendingRow, approvedRow]), (LEAVE_SHEET_NAME, []),
              (HOME_LEAVE_SHEET_NAME, [])]"

definition rejectedRow :: request where
  "rejectedRow = pendingRow\<lparr>requestId := str ''REQ-3'', status := str ''Rejected'',
      approver := str ''Admin'', approvalTimestamp := Some (day0 + 9 * 3600000),
      adminCheckinNote := str ''late''\<rparr>"

definition checkedInRow :: request where
  "checkedInRow = approvedRow\<lparr>requestId := str ''REQ-4'',
      checkInTimestamp := Some (day0 + 17 * 3600000),
      checkInPhoto := Some (str ''https://drive.example/first''),
      checkInLocationLink := str ''https://maps.google.com/?q=11.4,104.7''\<rparr>"

definition ledger2 :: spreadsheet where
  "ledger2 = [(PERMISSION_SHEET_NAME, [pendingRow, rejectedRow, checkedInRow]),
              (LEAVE_SHEET_NAME, []), (HOME_LEAVE_SHEET_NAME, [])]"

text \<open>
  A check-in sent from the target itself, \<^verbatim>\<open>CHECKIN_TARGET_LATITUDE\<close> and
  \<^verbatim>\<open>CHECKIN_TARGET_LONGITUDE\<close>: \<^verbatim>\<open>calculateDistance\<close> of a point to itself is 0 (both
  differences are 0, so \<^verbatim>\<open>a\<close> and \<^verbatim>\<open>c\<close> are 0). \<open>printCoord\<close> is what a template
  literal prints for these two numbers; the examples print no other value.
\<close>

definition checkIn1 :: "jsstring \<Rightarrow> checkInData" where
  "checkIn1 rid = \<lparr>c_requestId = rid, c_selfieData = str ''data:image/jpeg;base64,AAAA'',
      c_latitude = Num (Fin CHECKIN_TARGET_LATITUDE),
      c_longitude = Num (Fin CHECKIN_TARGET_LONGITUDE)\<rparr>"

definition printCoord :: "jsval \<Rightarrow> jsstring" where
  "printCoord v =
     (if v = Num (Fin CHECKIN_TARGET_LATITUDE) then str ''11.414483377915474''
      else if v = Num (Fin CHECKIN_TARGET_LONGITUDE) then str ''104.763828818174''
      else [])"

definition edit1 :: leaveDetails where
  "edit1 = \<lparr>d_requestId = str ''REQ-3'', d_employeeId = str ''E1'', d_employeeName = str ''Dara'',
      d_leaveType = PERMISSION_SHEET_NAME, d_startDate = Some (day0 + msPerDay),
      d_endDate = Some (day0 + msPerDay), d_numberOfDays = Str TOKEN_MORNING,
      d_reason = str ''clinic'', d_selfieImageData = str ''data:image/jpeg;base64,AAAA'',
      d_documentImageData = [], d_paymentReceiptImageData = [],
      d_latitude = Undefined, d_longitude = Undefined\<rparr>"

definition uploads1 :: uploads where
  "uploads1 = \<lparr>savedSelfie = Some (str ''https://drive.example/selfie''),
      savedDocuments = str ''[]'', savedReceipt = None\<rparr>"

text \<open>
  What the file store answers when the same picture is uploaded again:
  \<^verbatim>\<open>saveImageToDrive\<close> makes a new file with \<^verbatim>\<open>folder.createFile\<close> at every call and
  returns the URL of that file.
\<close>

definition uploads2 :: uploads where
  "uploads2 = \<lparr>savedSelfie = Some (str ''https://drive.example/selfie-2''),
      savedDocuments = str ''[]'', savedReceipt = None\<rparr>"

text \<open>The edit \<open>edit1\<close> with the URL of the stored selfie in place of a picture.\<close>

definition edit3 :: leaveDetails where
  "edit3 = edit1\<lparr>d_selfieImageData := str ''https://drive.example/selfie''\<rparr>"

fun isDelete :: "operation \<Rightarrow> bool" where
  "isDelete (Delete rid) = True"
| "isDelete other = False"

definition edit2 :: leaveDetails where
  "edit2 = edit1\<lparr>d_requestId := str ''REQ-2''\<rparr>"

text \<open>
  A status column \<open>ys\<close> that continues \<open>xs\<close> row by row: every row of \<open>xs\<close> is still
  there, with the status it had unless that status was \<open>Pending\<close>.
\<close>

definition unchangedOrWasPending :: "jsstring list \<Rightarrow> jsstring list \<Rightarrow> bool" where
  "unchangedOrWasPending xs ys =
     (length xs \<le> length ys \<and> (\<forall>i<length xs. ys ! i = xs ! i \<or> xs ! i = str ''Pending''))"

definition ops1 :: "operation list" where
  "ops1 = [Decide 5 (str ''REQ-1'') (str ''Approved'') (str ''Admin'') [],
           AdminCheckIn 6 (str ''REQ-1'') (str ''Admin'')]"

definition ledgerF :: spreadsheet where
  "ledgerF = [(PERMISSION_SHEET_NAME, [approvedRow]), (LEAVE_SHEET_NAME, []),
              (HOME_LEAVE_SHEET_NAME, [])]"

definition staleMarkRow :: request where
  "staleMarkRow = approvedRow\<lparr>notificationSent := str ''OverdueHalfDay_2''\<rparr>"

definition ledgerS :: spreadsheet where
  "ledgerS = [(PERMISSION_SHEET_NAME, [staleMarkRow]), (LEAVE_SHEET_NAME, []),
              (HOME_LEAVE_SHEET_NAME, [])]"

definition halfDayRow :: request where
  "halfDayRow = approvedRow\<lparr>requestId := str ''REQ-5'', days := Str TOKEN_MORNING,
      approvalTimestamp := Some (day0 + 8 * 3600000)\<rparr>"

definition lateHalfDayRow :: request where
  "lateHalfDayRow = approvedRow\<lparr>requestId := str ''REQ-6'', days := Str TOKEN_MORNING\<rparr>"

definition ledgerH :: spreadsheet where
  "ledgerH = [(PERMISSION_SHEET_NAME, [halfDayRow, lateHalfDayRow]), (LEAVE_SHEET_NAME, []),
              (HOME_LEAVE_SHEET_NAME, [])]"

text \<open>A leave request of employee \<open>E123\<close> on 2024-05-01, stored with blanks around the id.\<close>

definition leaveRow :: request where
  "leaveRow = approvedRow\<lparr>requestId := str ''REQ-7'', employeeId := str '' E123 '',
      leaveType := LEAVE_SHEET_NAME\<rparr>"

definition ledgerD :: spreadsheet where
  "ledgerD = [(PERMISSION_SHEET_NAME, [pendingRow]), (LEAVE_SHEET_NAME, [leaveRow]),
              (HOME_LEAVE_SHEET_NAME, [])]"

text \<open>All rows of the three leave sheets, in the order in which the script scans them.\<close>

definition ledgerRows :: "spreadsheet \<Rightarrow> request list" where
  "ledgerRows ss =
     concat (map (\<lambda>n. case getSheetByName ss n of None \<Rightarrow> [] | Some rows \<Rightarrow> rows) ALL_LEAVE_SHEETS)"

text \<open>
  Rows for the monthly statistics: 2 May, 15 May (10:00) and 20 April 2024, and a ledger
  with three approved requests of employee \<open>E1\<close> in May (durations 1, an afternoon and
  \<^verbatim>\<open>"2"\<close>), one in April, one pending, and one of another employee.
\<close>

definition may2 :: int where "may2 = day0 + msPerDay"
definition may15 :: int where "may15 = day0 + 14 * msPerDay + 36000000"
definition april20 :: int where "april20 = day0 - 11 * msPerDay"

definition statsRow :: "jsstring \<Rightarrow> jsstring \<Rightarrow> jsstring \<Rightarrow> int \<Rightarrow> jsval \<Rightarrow> jsstring \<Rightarrow> request" where
  "statsRow rid eid lt start dur st =
     blankRow\<lparr>requestId := rid, employeeId := eid, leaveType := lt, startDate := Some start,
       endDate := Some start, days := dur, status := st\<rparr>"

definition ledgerM :: spreadsheet where
  "ledgerM =
     [(PERMISSION_SHEET_NAME,
       [statsRow (str ''REQ-11'') (str ''E1'') PERMISSION_SHEET_NAME may2 (Num (Fin 1)) (str ''Approved''),
        statsRow (str ''REQ-12'') (str ''E1 '') PERMISSION_SHEET_NAME day0 (Str TOKEN_AFTERNOON)
          (str ''Approved''),
        statsRow (str ''REQ-13'') (str ''E1'') PERMISSION_SHEET_NAME may2 (Num (Fin 1)) (str ''Pending''),
        statsRow (str ''REQ-14'') (str ''E2'') PERMISSION_SHEET_NAME may2 (Num (Fin 3)) (str ''Approved'')]),
      (LEAVE_SHEET_NAME,
       [statsRow (str ''REQ-15'') (str ''E1'') LEAVE_SHEET_NAME april20 (Num (Fin 1)) (str ''Approved''),
        statsRow (str ''REQ-16'') (str ''E1'') LEAVE_SHEET_NAME may2 (Str (str ''2'')) (str ''Approved'')]),
      (HOME_LEAVE_SHEET_NAME, [])]"

text \<open>
  An edit of the half-day request \<open>REQ-5\<close> to one full day, and the row it leaves once the
  request has been approved again.
\<close>

definition edit5 :: leaveDetails where
  "edit5 = edit1\<lparr>d_requestId := str ''REQ-5'', d_startDate := Some day0, d_endDate := Some day0,
      d_numberOfDays := Num (Fin 1), d_selfieImageData := []\<rparr>"

definition editedRow :: request where
  "editedRow = halfDayRow\<lparr>notificationSent := str ''OverdueHalfDay_2'',
      leaveType := PERMISSION_SHEET_NAME, startDate := Some day0, endDate := Some day0,
      days := Num (Fin 1), reason := str ''clinic'', selfiePhoto := Some [], docPhoto := [],
      status := str ''Approved'', approver := str ''Admin'',
      approvalTimestamp := Some (day0 + 54000000), adminCheckinNote := []\<rparr>"

text \<open>
  The request-id and status columns of a sheet, row by row; empty when the sheet is
  missing.
\<close>

definition entries :: "spreadsheet \<Rightarrow> jsstring \<Rightarrow> (jsstring \<times> jsstring) list" where
  "entries ss name =
     (case getSheetByName ss name of
        None \<Rightarrow> []
      | Some rows \<Rightarrow> map (\<lambda>r. (requestId r, status r)) rows)"

text \<open>
  What one operation may do to the request-id and status columns \<open>xs\<close> of a sheet,
  giving \<open>ys\<close>: a submission leaves them alone or appends a \<open>Pending\<close> row with the
  new id; a decision leaves them alone or gives its status to one row that has its id
  and is \<open>Pending\<close>; an edit leaves them alone or sets one row that has its id to
  \<open>Pending\<close>; a check-in of either kind leaves them alone; a deletion leaves them alone
  or removes one row that has its id.
\<close>

fun statusStep ::
  "operation \<Rightarrow> (jsstring \<times> jsstring) list \<Rightarrow> (jsstring \<times> jsstring) list \<Rightarrow> bool" where
  "statusStep (Submit up now newId d) xs ys =
     (ys = xs \<or> ys = xs @ [(newId, str ''Pending'')])"
| "statusStep (Decide now rid newStatus approverRole rejectionReason) xs ys =
     (ys = xs
      \<or> (\<exists>i\<in>{..<length xs}. xs ! i = (rid, str ''Pending'') \<and> ys = xs[i := (rid, newStatus)]))"
| "statusStep (Resubmit up d) xs ys =
     (ys = xs
      \<or> (\<exists>i\<in>{..<length xs}. fst (xs ! i) = d_requestId d
             \<and> ys = xs[i := (d_requestId d, str ''Pending'')]))"
| "statusStep (CheckIn distance photoUrl now cd) xs ys = (ys = xs)"
| "statusStep (AdminCheckIn now rid adminRole) xs ys = (ys = xs)"
| "statusStep (Delete rid) xs ys =
     (ys = xs
      \<or> (\<exists>i\<in>{..<length xs}. fst (xs ! i) = rid \<and> ys = take i xs @ drop (Suc i) xs))"

text \<open>
  Where the row at position \<open>i\<close> of sheet \<open>n\<close> is after one operation, or \<open>None\<close> when
  the operation deletes it: \<^verbatim>\<open>sheet.deleteRow\<close> moves the rows below the deleted one up
  by one, and no other operation moves a row.
\<close>

fun trackStep :: "spreadsheet \<Rightarrow> operation \<Rightarrow> jsstring \<Rightarrow> nat \<Rightarrow> nat option" where
  "trackStep ss (Delete rid) n i =
     (if rid = [] then Some i
      else case findRequestRow ss rid of
        None \<Rightarrow> Some i
      | Some found \<Rightarrow>
          if fst found \<noteq> n then Some i
          else if i = snd found then None
          else if snd found < i then Some (i - 1)
          else Some i)"
| "trackStep ss other n i = Some i"

fun track ::
  "(jsval \<Rightarrow> jsstring) \<Rightarrow> spreadsheet \<Rightarrow> operation list \<Rightarrow> jsstring \<Rightarrow> nat \<Rightarrow> nat option" where
  "track toStr ss [] n i = Some i"
| "track toStr ss (op # ops) n i =
     (case trackStep ss op n i of
        None \<Rightarrow> None
      | Some j \<Rightarrow> track toStr (step toStr ss op) ops n j)"

text \<open>A decision, the deletion of the decided request, and an admin check-in.\<close>

definition ops2 :: "operation list" where
  "ops2 = [Decide 5 (str ''REQ-1'') (str ''Approved'') (str ''Admin'') [],
           Delete (str ''REQ-1''),
           AdminCheckIn 6 (str ''REQ-2'') (str ''Admin'')]"

section \<open>Properties of the search\<close>

lemma findIndex_None: "findIndex p xs = None \<longleftrightarrow> (\<forall>x\<in>set xs. \<not> p x)"
  by (induction xs) auto

lemma findIndex_Some:
  "findIndex p xs = Some i \<Longrightarrow> i < length xs \<and> p (xs ! i) \<and> (\<forall>j<i. \<not> p (xs ! j))"
proof (induction xs arbitrary: i)
  case Nil
  then show ?case by simp
next
  case (Cons x xs)
  show ?case
  proof (cases "p x")
    case True
    with Cons.prems show ?thesis by simp
  next
    case False
    with Cons.prems obtain k where k: "findIndex p xs = Some k" "i = Suc k" by auto
    from Cons.IH[OF k(1)] False k(2) show ?thesis
      by (auto simp: nth_Cons split: nat.splits)
  qed
qed

lemma findIndex_Some_mem: "findIndex p xs = Some i \<Longrightarrow> \<exists>x\<in>set xs. p x"
  using findIndex_None[of p xs] by auto

lemma findIndex_map: "findIndex p (map f xs) = findIndex (\<lambda>x. p (f x)) xs"
  by (induction xs) auto

lemma findIndex_requestId_cong:
  fixes rows rows' :: "request list"
  assumes m: "map requestId rows = map requestId rows'"
  shows "findIndex (\<lambda>row. requestId row = rid) rows
           = findIndex (\<lambda>row. requestId row = rid) rows'"
proof -
  have "findIndex (\<lambda>row. requestId row = rid) rows
          = findIndex (\<lambda>x. x = rid) (map requestId rows)"
    by (simp add: findIndex_map)
  also have "\<dots> = findIndex (\<lambda>row. requestId row = rid) rows'"
    by (simp add: m findIndex_map)
  finally show ?thesis .
qed

lemma getSheetByName_update:
  "getSheetByName (AList.update n rows ss) m = (if m = n then Some rows else getSheetByName ss m)"
  by (simp add: getSheetByName_def update_conv')

lemma findRequestRowIn_None:
  "findRequestRowIn ns ss rid = None \<longleftrightarrow>
     (\<forall>n\<in>set ns. \<forall>rows. getSheetByName ss n = Some rows
         \<longrightarrow> (\<forall>r\<in>set rows. requestId r \<noteq> rid))"
  by (induction ns) (auto simp: findIndex_None split: option.splits dest: findIndex_Some_mem)

lemma findRequestRowIn_Some:
  "findRequestRowIn ns ss rid = Some (n, i) \<Longrightarrow>
     n \<in> set ns \<and> (\<exists>rows. getSheetByName ss n = Some rows \<and> i < length rows
                          \<and> requestId (rows ! i) = rid)"
  by (induction ns) (auto split: option.splits dest: findIndex_Some)

lemma findRequestRowIn_ids:
  "(\<And>n. ids ss n = ids ss' n) \<Longrightarrow> findRequestRowIn ns ss rid = findRequestRowIn ns ss' rid"
proof (induction ns)
  case Nil
  then show ?case by simp
next
  case (Cons a ns)
  have e: "ids ss a = ids ss' a" using Cons.prems by simp
  have ih: "findRequestRowIn ns ss rid = findRequestRowIn ns ss' rid"
    using Cons.IH[OF Cons.prems] .
  show ?case
  proof (cases "getSheetByName ss a")
    case None
    then have "getSheetByName ss' a = None" using e by (simp add: ids_def)
    with None ih show ?thesis by simp
  next
    case (Some rows)
    then obtain rows' where r': "getSheetByName ss' a = Some rows'"
      and m: "map requestId rows = map requestId rows'"
      using e by (cases "getSheetByName ss' a") (auto simp: ids_def)
    have "findIndex (\<lambda>row. requestId row = rid) rows
            = findIndex (\<lambda>row. requestId row = rid) rows'"
      using m by (rule findIndex_requestId_cong)
    with Some r' ih show ?thesis by (simp split: option.splits)
  qed
qed

section \<open>The duration parser\<close>

lemmas token_defs = TOKEN_MORNING_def TOKEN_AFTERNOON_def TOKEN_NIGHT_def

lemma getNumericDayValue_token:
  "getNumericDayValue (Str TOKEN_MORNING) = Num (Fin (1 / 2))"
  "getNumericDayValue (Str TOKEN_AFTERNOON) = Num (Fin (1 / 2))"
  "getNumericDayValue (Str TOKEN_NIGHT) = Num (Fin (1 / 2))"
  by (simp_all add: getNumericDayValue_def dayValueMap_def token_defs)

lemma getNumericDayValue_Num:
  "getNumericDayValue (Num n) = (if n = NaN then Num (Fin 0) else Num n)"
  by (simp add: getNumericDayValue_def isNaN_def)

text \<open>
  On every string that is neither a half-day word nor a name inherited from
  \<^verbatim>\<open>Object.prototype\<close> the parser does what is expected of it: the number read by
  \<^verbatim>\<open>parseFloat\<close>, or 0 when there is none.
\<close>

lemma getNumericDayValue_Str:
  "k \<notin> set objectPrototypeKeys \<Longrightarrow> k \<notin> {TOKEN_MORNING, TOKEN_AFTERNOON, TOKEN_NIGHT} \<Longrightarrow>
   getNumericDayValue (Str k)
     = (if parseFloatStr k = NaN then Num (Fin 0) else Num (parseFloatStr k))"
  by (simp add: getNumericDayValue_def dayValueMap_def isNaN_def)

lemma getNumericDayValue_range:
  "(\<exists>n. getNumericDayValue v = Num n \<and> n \<noteq> NaN) \<or> (\<exists>k. getNumericDayValue v = Obj k)"
  by (cases v)
     (auto simp: getNumericDayValue_def dayValueMap_def isNaN_def Let_def
           split: option.splits if_splits)

text \<open>
  Claim C6: the duration parser returns 0.5 for each of the three half-day words, the
  parsed number for a numeric string, and 0 for every other value, and never raises.
  The script looks the value up with \<^verbatim>\<open>dayValueMap[dayValue]\<close>, which also finds the
  members that a plain object inherits: for the string \<^verbatim>\<open>toString\<close>, which is not
  numeric and not a half-day word, the lookup is truthy and the parser returns the
  built-in function \<^verbatim>\<open>Object.prototype.toString\<close>, not 0.
\<close>

theorem getNumericDayValue_inherited_key:
  "getNumericDayValue (Str (str ''toString'')) = Obj (str ''toString'')"
  by (simp add: getNumericDayValue_def dayValueMap_def objectPrototypeKeys_def str_def token_defs)

section \<open>Writes to a row\<close>

lemma getSheetByName_setRow:
  "getSheetByName (setRow ss (n, i) f) m =
     (if m = n then map_option (\<lambda>rows. rows[i := f (rows ! i)]) (getSheetByName ss n)
      else getSheetByName ss m)"
  by (cases "getSheetByName ss n") (simp_all add: setRow_def getSheetByName_update)

lemma getRow_setRow:
  "getSheetByName ss n = Some rows \<Longrightarrow> i < length rows \<Longrightarrow>
   getRow (setRow ss (n, i) f) (n, i) = f (rows ! i)"
  by (simp add: getRow_def getSheetByName_setRow)

lemma map_update_same: "(map g a)[i := g (a ! i)] = map g a"
proof (cases "i < length a")
  case True
  then have "(map g a)[i := g (a ! i)] = (map g a)[i := (map g a) ! i]" by simp
  then show ?thesis by (simp only: list_update_id)
next
  case False
  then have "length (map g a) \<le> i" by simp
  then show ?thesis by (rule list_update_beyond)
qed

lemma ids_setRow:
  assumes "\<And>r. requestId (f r) = requestId r"
  shows "ids (setRow ss (n, i) f) m = ids ss m"
proof (cases "getSheetByName ss n")
  case None
  then show ?thesis by (simp add: ids_def getSheetByName_setRow)
next
  case (Some a)
  then show ?thesis
    by (simp add: ids_def getSheetByName_setRow map_update assms map_update_same)
qed

lemma findRequestRow_setRow:
  assumes "\<And>r. requestId (f r) = requestId r"
  shows "findRequestRow (setRow ss found f) rid = findRequestRow ss rid"
proof -
  obtain n i where f: "found = (n, i)" by (cases found)
  have "\<And>m. ids (setRow ss (n, i) f) m = ids ss m"
    using assms by (rule ids_setRow)
  then have "findRequestRowIn ALL_LEAVE_SHEETS (setRow ss (n, i) f) rid
               = findRequestRowIn ALL_LEAVE_SHEETS ss rid"
    by (rule findRequestRowIn_ids)
  then show ?thesis by (simp only: findRequestRow_def f)
qed

lemma findRequestRow_None:
  "findRequestRow ss rid = None \<longleftrightarrow>
     (\<forall>n\<in>set ALL_LEAVE_SHEETS. \<forall>rows. getSheetByName ss n = Some rows
         \<longrightarrow> (\<forall>r\<in>set rows. requestId r \<noteq> rid))"
  by (simp only: findRequestRow_def findRequestRowIn_None)

lemma findRequestRow_Some:
  "findRequestRow ss rid = Some (n, i) \<Longrightarrow>
     n \<in> set ALL_LEAVE_SHEETS \<and> (\<exists>rows. getSheetByName ss n = Some rows \<and> i < length rows
                          \<and> requestId (rows ! i) = rid)"
  unfolding findRequestRow_def by (rule findRequestRowIn_Some)


section \<open>Deciding a request\<close>

lemma getRow_setRow_other:
  "other \<noteq> (n, i) \<Longrightarrow> getRow (setRow ss (n, i) f) other = getRow ss other"
  by (cases other; cases "getSheetByName ss n")
     (auto simp: getRow_def getSheetByName_setRow)

lemma getRow_setRow_found:
  assumes "findRequestRow ss rid = Some found"
  shows "getRow (setRow ss found f) found = f (getRow ss found)"
proof -
  obtain n i where f: "found = (n, i)" by (cases found)
  from findRequestRow_Some[OF assms[unfolded f]]
  obtain rows where "getSheetByName ss n = Some rows" "i < length rows" by blast
  then show ?thesis by (simp add: f getRow_setRow) (simp add: getRow_def)
qed

lemma getRow_setRow_twice:
  assumes f: "findRequestRow ss rid = Some found"
    and keep: "\<And>r. requestId (f r) = requestId r"
  shows "getRow (setRow (setRow ss found f) found g) found = g (f (getRow ss found))"
proof -
  have "findRequestRow (setRow ss found f) rid = Some found"
    using f keep by (simp add: findRequestRow_setRow)
  then have "getRow (setRow (setRow ss found f) found g) found = g (getRow (setRow ss found f) found)"
    by (rule getRow_setRow_found)
  then show ?thesis by (simp add: getRow_setRow_found[OF f])
qed

text \<open>
  Claim C1, as the script has it. \<^verbatim>\<open>updateRequestStatus\<close> first refuses an empty
  request id or an empty new status (the ledger is unchanged); then, if no row of the
  three leave sheets carries the request id, it answers that the request was not found
  (ledger unchanged); if the row found has a status other than \<open>Pending\<close>, it answers
  that the request has already been processed (ledger unchanged); otherwise it answers
  success, the same row is found again afterwards, and that row differs from before
  exactly in: status = the new status, approver = the approver given or the default
  admin name when none is given, approval time stamp = now, and the note column = the
  rejection reason when the new status is \<open>Rejected\<close> and a reason is given. No other
  row changes.
\<close>

theorem updateRequestStatus_outcomes:
  "(rid = [] \<or> newStatus = [] \<longrightarrow>
      updateRequestStatus now ss rid newStatus approverRole rejectionReason = (Failure Required, ss))
   \<and> (rid \<noteq> [] \<and> newStatus \<noteq> []
        \<and> (\<forall>n\<in>set ALL_LEAVE_SHEETS. \<forall>rows. getSheetByName ss n = Some rows
               \<longrightarrow> (\<forall>r\<in>set rows. requestId r \<noteq> rid)) \<longrightarrow>
      updateRequestStatus now ss rid newStatus approverRole rejectionReason = (Failure NotFound, ss))
   \<and> (rid \<noteq> [] \<and> newStatus \<noteq> [] \<and> findRequestRow ss rid = Some found
        \<and> status (getRow ss found) \<noteq> str ''Pending'' \<longrightarrow>
      updateRequestStatus now ss rid newStatus approverRole rejectionReason
        = (Failure AlreadyProcessed, ss))
   \<and> (rid \<noteq> [] \<and> newStatus \<noteq> [] \<and> findRequestRow ss rid = Some found
        \<and> status (getRow ss found) = str ''Pending'' \<longrightarrow>
      fst (updateRequestStatus now ss rid newStatus approverRole rejectionReason) = Success
      \<and> findRequestRow (snd (updateRequestStatus now ss rid newStatus approverRole rejectionReason)) rid
          = Some found
      \<and> getRow (snd (updateRequestStatus now ss rid newStatus approverRole rejectionReason)) found
          = (getRow ss found)\<lparr>status := newStatus,
               approver := (if approverRole = [] then DEFAULT_ADMIN_NAME else approverRole),
               approvalTimestamp := Some now,
               adminCheckinNote := (if newStatus = str ''Rejected'' \<and> rejectionReason \<noteq> []
                                    then rejectionReason else adminCheckinNote (getRow ss found))\<rparr>
      \<and> (\<forall>other. other \<noteq> found \<longrightarrow>
            getRow (snd (updateRequestStatus now ss rid newStatus approverRole rejectionReason)) other
              = getRow ss other))"
proof (intro conjI impI)
  assume "rid = [] \<or> newStatus = []"
  then show "updateRequestStatus now ss rid newStatus approverRole rejectionReason = (Failure Required, ss)"
    by (auto simp: updateRequestStatus_def)
next
  assume a: "rid \<noteq> [] \<and> newStatus \<noteq> []
        \<and> (\<forall>n\<in>set ALL_LEAVE_SHEETS. \<forall>rows. getSheetByName ss n = Some rows
               \<longrightarrow> (\<forall>r\<in>set rows. requestId r \<noteq> rid))"
  then have "findRequestRow ss rid = None" unfolding findRequestRow_None by blast
  with a show "updateRequestStatus now ss rid newStatus approverRole rejectionReason = (Failure NotFound, ss)"
    by (simp add: updateRequestStatus_def)
next
  assume "rid \<noteq> [] \<and> newStatus \<noteq> [] \<and> findRequestRow ss rid = Some found
        \<and> status (getRow ss found) \<noteq> str ''Pending''"
  then show "updateRequestStatus now ss rid newStatus approverRole rejectionReason
        = (Failure AlreadyProcessed, ss)"
    by (simp add: updateRequestStatus_def)
next
  assume a: "rid \<noteq> [] \<and> newStatus \<noteq> [] \<and> findRequestRow ss rid = Some found
        \<and> status (getRow ss found) = str ''Pending''"
  then show "fst (updateRequestStatus now ss rid newStatus approverRole rejectionReason) = Success"
    by (simp add: updateRequestStatus_def Let_def)
next
  assume a: "rid \<noteq> [] \<and> newStatus \<noteq> [] \<and> findRequestRow ss rid = Some found
        \<and> status (getRow ss found) = str ''Pending''"
  then show "findRequestRow (snd (updateRequestStatus now ss rid newStatus approverRole rejectionReason)) rid
          = Some found"
    by (simp add: updateRequestStatus_def Let_def findRequestRow_setRow)
next
  assume a: "rid \<noteq> [] \<and> newStatus \<noteq> [] \<and> findRequestRow ss rid = Some found
        \<and> status (getRow ss found) = str ''Pending''"
  then have f: "findRequestRow ss rid = Some found" by simp
  show "getRow (snd (updateRequestStatus now ss rid newStatus approverRole rejectionReason)) found
          = (getRow ss found)\<lparr>status := newStatus,
               approver := (if approverRole = [] then DEFAULT_ADMIN_NAME else approverRole),
               approvalTimestamp := Some now,
               adminCheckinNote := (if newStatus = str ''Rejected'' \<and> rejectionReason \<noteq> []
                                    then rejectionReason else adminCheckinNote (getRow ss found))\<rparr>"
    using a by (simp add: updateRequestStatus_def Let_def getRow_setRow_found[OF f] getRow_setRow_twice[OF f])
next
  assume a: "rid \<noteq> [] \<and> newStatus \<noteq> [] \<and> findRequestRow ss rid = Some found
        \<and> status (getRow ss found) = str ''Pending''"
  obtain n i where f: "found = (n, i)" by (cases found)
  show "\<forall>other. other \<noteq> found \<longrightarrow>
            getRow (snd (updateRequestStatus now ss rid newStatus approverRole rejectionReason)) other
              = getRow ss other"
    using a by (simp add: updateRequestStatus_def Let_def f getRow_setRow_other)
qed

text \<open>The four cases of C1 on the example ledger.\<close>

theorem updateRequestStatus_outcomes_witness:
  "updateRequestStatus 5 ledger1 [] (str ''Approved'') (str ''Admin'') []
     = (Failure Required, ledger1)
   \<and> updateRequestStatus 5 ledger1 (str ''REQ-9'') (str ''Approved'') (str ''Admin'') []
     = (Failure NotFound, ledger1)
   \<and> updateRequestStatus 5 ledger1 (str ''REQ-2'') (str ''Rejected'') (str ''Admin'') (str ''late'')
     = (Failure AlreadyProcessed, ledger1)
   \<and> fst (updateRequestStatus 5 ledger1 (str ''REQ-1'') (str ''Rejected'') [] (str ''late'')) = Success
   \<and> getRow (snd (updateRequestStatus 5 ledger1 (str ''REQ-1'') (str ''Rejected'') [] (str ''late'')))
         (PERMISSION_SHEET_NAME, 0)
       = pendingRow\<lparr>status := str ''Rejected'', approver := str ''Admin'',
           approvalTimestamp := Some 5, adminCheckinNote := str ''late''\<rparr>"
proof -
  have ids: "str ''REQ-1'' \<noteq> str ''REQ-9''" "str ''REQ-2'' \<noteq> str ''REQ-9''"
    "str ''REQ-1'' \<noteq> str ''REQ-2''" "str ''REQ-1'' \<noteq> []" "str ''REQ-2'' \<noteq> []"
    "str ''REQ-9'' \<noteq> []" "str ''Approved'' \<noteq> []" "str ''Rejected'' \<noteq> []"
    "str ''Approved'' \<noteq> str ''Pending''" "str ''late'' \<noteq> []"
    by (simp_all add: str_def)
  have names: "PERMISSION_SHEET_NAME \<noteq> LEAVE_SHEET_NAME"
    "PERMISSION_SHEET_NAME \<noteq> HOME_LEAVE_SHEET_NAME" "LEAVE_SHEET_NAME \<noteq> HOME_LEAVE_SHEET_NAME"
    by (simp_all add: PERMISSION_SHEET_NAME_def LEAVE_SHEET_NAME_def HOME_LEAVE_SHEET_NAME_def)
  have f1: "findRequestRow ledger1 (str ''REQ-1'') = Some (PERMISSION_SHEET_NAME, 0)"
    using ids names
    by (simp add: findRequestRow_def ALL_LEAVE_SHEETS_def ledger1_def getSheetByName_def
        pendingRow_def approvedRow_def blankRow_def)
  have f2: "findRequestRow ledger1 (str ''REQ-2'') = Some (PERMISSION_SHEET_NAME, Suc 0)"
    using ids names
    by (simp add: findRequestRow_def ALL_LEAVE_SHEETS_def ledger1_def getSheetByName_def
        pendingRow_def approvedRow_def blankRow_def)
  have none: "\<forall>n\<in>set ALL_LEAVE_SHEETS. \<forall>rows. getSheetByName ledger1 n = Some rows
               \<longrightarrow> (\<forall>r\<in>set rows. requestId r \<noteq> str ''REQ-9'')"
    using ids names
    by (auto simp: ALL_LEAVE_SHEETS_def ledger1_def getSheetByName_def
        pendingRow_def approvedRow_def blankRow_def)
  have r1: "getRow ledger1 (PERMISSION_SHEET_NAME, 0) = pendingRow"
    by (simp add: getRow_def ledger1_def getSheetByName_def)
  have r2: "getRow ledger1 (PERMISSION_SHEET_NAME, Suc 0) = approvedRow"
    by (simp add: getRow_def ledger1_def getSheetByName_def)
  have s1: "status pendingRow = str ''Pending''" by (simp add: pendingRow_def)
  have s2: "status approvedRow = str ''Approved''" by (simp add: approvedRow_def)
  have n1: "adminCheckinNote pendingRow = []" by (simp add: pendingRow_def blankRow_def)
  note t = updateRequestStatus_outcomes
  have A: "updateRequestStatus 5 ledger1 [] (str ''Approved'') (str ''Admin'') []
             = (Failure Required, ledger1)"
    using t[where rid="[]" and newStatus="str ''Approved''" and now=5 and ss=ledger1
              and approverRole="str ''Admin''" and rejectionReason="[]"]
    by simp
  have B: "updateRequestStatus 5 ledger1 (str ''REQ-9'') (str ''Approved'') (str ''Admin'') []
             = (Failure NotFound, ledger1)"
    using t[where rid="str ''REQ-9''" and newStatus="str ''Approved''" and now=5 and ss=ledger1
              and approverRole="str ''Admin''" and rejectionReason="[]"] none ids
    by simp
  have C: "updateRequestStatus 5 ledger1 (str ''REQ-2'') (str ''Rejected'') (str ''Admin'') (str ''late'')
             = (Failure AlreadyProcessed, ledger1)"
    using t[where rid="str ''REQ-2''" and newStatus="str ''Rejected''" and now=5 and ss=ledger1
              and approverRole="str ''Admin''" and rejectionReason="str ''late''"
              and found="(PERMISSION_SHEET_NAME, Suc 0)"] f2 ids
    by (simp add: r2 s2)
  have D: "fst (updateRequestStatus 5 ledger1 (str ''REQ-1'') (str ''Rejected'') [] (str ''late'')) = Success
     \<and> getRow (snd (updateRequestStatus 5 ledger1 (str ''REQ-1'') (str ''Rejected'') [] (str ''late'')))
         (PERMISSION_SHEET_NAME, 0)
       = pendingRow\<lparr>status := str ''Rejected'', approver := str ''Admin'',
           approvalTimestamp := Some 5, adminCheckinNote := str ''late''\<rparr>"
    using t[where rid="str ''REQ-1''" and newStatus="str ''Rejected''" and now=5 and ss=ledger1
              and approverRole="[]" and rejectionReason="str ''late''"
              and found="(PERMISSION_SHEET_NAME, 0)"] f1 ids
    by (simp add: r1 s1 DEFAULT_ADMIN_NAME_def)
  from A B C D show ?thesis by simp
qed

text \<open>
  Claim C1 as stated fails for the empty request id: no request carries it, and the
  answer is the missing-argument error, not the not-found error.
\<close>

theorem updateRequestStatus_empty_id_counterexample:
  "findRequestRow ledger1 [] = None
   \<and> fst (updateRequestStatus 5 ledger1 [] (str ''Approved'') (str ''Admin'') []) \<noteq> Failure NotFound"
  by (simp add: updateRequestStatus_def findRequestRow_def ALL_LEAVE_SHEETS_def ledger1_def
      getSheetByName_def pendingRow_def approvedRow_def blankRow_def str_def
      PERMISSION_SHEET_NAME_def LEAVE_SHEET_NAME_def HOME_LEAVE_SHEET_NAME_def)

section \<open>Check-in\<close>

lemma submitCheckIn_found:
  assumes f: "findRequestRow ss (c_requestId cd) = Some found"
    and ok: "c_requestId cd \<noteq> []" "c_selfieData cd \<noteq> []"
      "truthy (c_latitude cd)" "truthy (c_longitude cd)"
      "\<not> numGreater distance CHECKIN_ALLOWED_RADIUS_METERS"
  shows "submitCheckIn toStr distance photoUrl now ss cd =
     (Success, setRow ss found (\<lambda>r. r\<lparr>checkInTimestamp := Some now, checkInPhoto := photoUrl,
         checkInLocationLink := str ''https://maps.google.com/?q='' @ toStr (c_latitude cd)
                              @ str '','' @ toStr (c_longitude cd)\<rparr>))"
  using f ok by (simp add: submitCheckIn_def)

lemma adminSubmitCheckIn_found:
  assumes f: "findRequestRow ss rid = Some found" and ok: "rid \<noteq> []" "adminRole \<noteq> []"
  shows "adminSubmitCheckIn now ss rid adminRole =
     (Success, setRow ss found (\<lambda>r. r\<lparr>checkInTimestamp := Some now,
         adminCheckinNote := str ''Checked in by: '' @ adminRole,
         checkInLocationLink := str ''N/A (Admin)''\<rparr>))"
  using f ok by (simp add: adminSubmitCheckIn_def)

lemma printCoord_target:
  "printCoord (Num (Fin CHECKIN_TARGET_LATITUDE)) = str ''11.414483377915474''"
  "printCoord (Num (Fin CHECKIN_TARGET_LONGITUDE)) = str ''104.763828818174''"
  by (simp_all add: printCoord_def CHECKIN_TARGET_LATITUDE_def CHECKIN_TARGET_LONGITUDE_def)

lemma target_nonzero:
  "CHECKIN_TARGET_LATITUDE \<noteq> 0" "CHECKIN_TARGET_LONGITUDE \<noteq> 0"
  by (simp_all add: CHECKIN_TARGET_LATITUDE_def CHECKIN_TARGET_LONGITUDE_def)

lemma ledger2_find:
  "findRequestRow ledger2 (str ''REQ-1'') = Some (PERMISSION_SHEET_NAME, 0)"
  "findRequestRow ledger2 (str ''REQ-3'') = Some (PERMISSION_SHEET_NAME, Suc 0)"
  "findRequestRow ledger2 (str ''REQ-4'') = Some (PERMISSION_SHEET_NAME, Suc (Suc 0))"
  by (simp_all add: findRequestRow_def ALL_LEAVE_SHEETS_def ledger2_def getSheetByName_def
      pendingRow_def rejectedRow_def checkedInRow_def approvedRow_def blankRow_def str_def)

lemma ledger2_rows:
  "getRow ledger2 (PERMISSION_SHEET_NAME, 0) = pendingRow"
  "getRow ledger2 (PERMISSION_SHEET_NAME, Suc 0) = rejectedRow"
  "getRow ledger2 (PERMISSION_SHEET_NAME, Suc (Suc 0)) = checkedInRow"
  by (simp_all add: getRow_def ledger2_def getSheetByName_def)

text \<open>
  Claim C10: neither check-in path looks at the status of the request. Whenever the
  request is found and the inputs pass the function's own checks (request id and
  selfie present, both coordinates truthy, distance within the allowed radius; for the
  admin path request id and admin role present), the call reports success and the
  check-in time stamp of the row is now, whatever the status of the row, which stays
  as it was.
\<close>

theorem checkIn_ignores_status:
  "(findRequestRow ss (c_requestId cd) = Some found \<and> c_requestId cd \<noteq> [] \<and> c_selfieData cd \<noteq> []
      \<and> truthy (c_latitude cd) \<and> truthy (c_longitude cd)
      \<and> \<not> numGreater distance CHECKIN_ALLOWED_RADIUS_METERS \<longrightarrow>
      fst (submitCheckIn toStr distance photoUrl now ss cd) = Success
      \<and> checkInTimestamp (getRow (snd (submitCheckIn toStr distance photoUrl now ss cd)) found) = Some now
      \<and> status (getRow (snd (submitCheckIn toStr distance photoUrl now ss cd)) found)
          = status (getRow ss found))
   \<and> (findRequestRow ss rid = Some found' \<and> rid \<noteq> [] \<and> adminRole \<noteq> [] \<longrightarrow>
      fst (adminSubmitCheckIn now ss rid adminRole) = Success
      \<and> checkInTimestamp (getRow (snd (adminSubmitCheckIn now ss rid adminRole)) found') = Some now
      \<and> status (getRow (snd (adminSubmitCheckIn now ss rid adminRole)) found')
          = status (getRow ss found'))"
proof (intro conjI impI)
  assume a: "findRequestRow ss (c_requestId cd) = Some found \<and> c_requestId cd \<noteq> [] \<and> c_selfieData cd \<noteq> []
      \<and> truthy (c_latitude cd) \<and> truthy (c_longitude cd)
      \<and> \<not> numGreater distance CHECKIN_ALLOWED_RADIUS_METERS"
  then have f: "findRequestRow ss (c_requestId cd) = Some found" by simp
  have e: "submitCheckIn toStr distance photoUrl now ss cd =
     (Success, setRow ss found (\<lambda>r. r\<lparr>checkInTimestamp := Some now, checkInPhoto := photoUrl,
         checkInLocationLink := str ''https://maps.google.com/?q='' @ toStr (c_latitude cd)
                              @ str '','' @ toStr (c_longitude cd)\<rparr>))"
    using a by (intro submitCheckIn_found) simp_all
  show "fst (submitCheckIn toStr distance photoUrl now ss cd) = Success" by (simp add: e)
  show "checkInTimestamp (getRow (snd (submitCheckIn toStr distance photoUrl now ss cd)) found) = Some now"
    by (simp add: e getRow_setRow_found[OF f])
  show "status (getRow (snd (submitCheckIn toStr distance photoUrl now ss cd)) found)
          = status (getRow ss found)"
    by (simp add: e getRow_setRow_found[OF f])
next
  assume a: "findRequestRow ss rid = Some found' \<and> rid \<noteq> [] \<and> adminRole \<noteq> []"
  then have f: "findRequestRow ss rid = Some found'" by simp
  have e: "adminSubmitCheckIn now ss rid adminRole =
     (Success, setRow ss found' (\<lambda>r. r\<lparr>checkInTimestamp := Some now,
         adminCheckinNote := str ''Checked in by: '' @ adminRole,
         checkInLocationLink := str ''N/A (Admin)''\<rparr>))"
    using a by (intro adminSubmitCheckIn_found) simp_all
  show "fst (adminSubmitCheckIn now ss rid adminRole) = Success" by (simp add: e)
  show "checkInTimestamp (getRow (snd (adminSubmitCheckIn now ss rid adminRole)) found') = Some now"
    by (simp add: e getRow_setRow_found[OF f])
  show "status (getRow (snd (adminSubmitCheckIn now ss rid adminRole)) found')
          = status (getRow ss found')"
    by (simp add: e getRow_setRow_found[OF f])
qed

text \<open>C10 on a \<open>Pending\<close> row (employee path) and on a \<open>Rejected\<close> row (admin path).\<close>

theorem checkIn_ignores_status_witness:
  "status (getRow ledger2 (PERMISSION_SHEET_NAME, 0)) = str ''Pending''
   \<and> fst (submitCheckIn printCoord (Fin 0) (Some (str ''https://drive.example/p'')) 7 ledger2
             (checkIn1 (str ''REQ-1''))) = Success
   \<and> checkInTimestamp (getRow (snd (submitCheckIn printCoord (Fin 0)
          (Some (str ''https://drive.example/p'')) 7 ledger2 (checkIn1 (str ''REQ-1''))))
          (PERMISSION_SHEET_NAME, 0)) = Some 7
   \<and> status (getRow ledger2 (PERMISSION_SHEET_NAME, Suc 0)) = str ''Rejected''
   \<and> fst (adminSubmitCheckIn 7 ledger2 (str ''REQ-3'') (str ''Admin'')) = Success
   \<and> checkInTimestamp (getRow (snd (adminSubmitCheckIn 7 ledger2 (str ''REQ-3'') (str ''Admin'')))
          (PERMISSION_SHEET_NAME, Suc 0)) = Some 7"
proof -
  have ne: "str ''REQ-1'' \<noteq> []" "str ''REQ-3'' \<noteq> []" "str ''Admin'' \<noteq> []"
    "str ''data:image/jpeg;base64,AAAA'' \<noteq> []"
    by (simp_all add: str_def)
  have s: "status pendingRow = str ''Pending''" "status rejectedRow = str ''Rejected''"
    by (simp_all add: pendingRow_def rejectedRow_def)
  show ?thesis
    using checkIn_ignores_status[where ss=ledger2 and cd="checkIn1 (str ''REQ-1'')"
        and found="(PERMISSION_SHEET_NAME, 0)" and distance="Fin 0" and toStr=printCoord
        and photoUrl="Some (str ''https://drive.example/p'')" and now=7
        and rid="str ''REQ-3''" and adminRole="str ''Admin''"
        and found'="(PERMISSION_SHEET_NAME, Suc 0)"] ne
    by (simp add: ledger2_find ledger2_rows s checkIn1_def printCoord_target target_nonzero
        CHECKIN_ALLOWED_RADIUS_METERS_def)
qed

text \<open>
  Claim C4, as the script has it: a check-in is never refused because the request
  already has a check-in time stamp. On either path the call reports success and the
  row found differs from before exactly in the cells the path writes: on the employee
  path the check-in time stamp (now), the check-in photo and the check-in location
  link; on the admin path the check-in time stamp (now), the note column and the
  check-in location link. The last writer wins.
\<close>

theorem checkIn_overwrites:
  "(findRequestRow ss (c_requestId cd) = Some found \<and> c_requestId cd \<noteq> [] \<and> c_selfieData cd \<noteq> []
      \<and> truthy (c_latitude cd) \<and> truthy (c_longitude cd)
      \<and> \<not> numGreater distance CHECKIN_ALLOWED_RADIUS_METERS \<longrightarrow>
      fst (submitCheckIn toStr distance photoUrl now ss cd) = Success
      \<and> getRow (snd (submitCheckIn toStr distance photoUrl now ss cd)) found
          = (getRow ss found)\<lparr>checkInTimestamp := Some now, checkInPhoto := photoUrl,
               checkInLocationLink := str ''https://maps.google.com/?q='' @ toStr (c_latitude cd)
                              @ str '','' @ toStr (c_longitude cd)\<rparr>)
   \<and> (findRequestRow ss rid = Some found' \<and> rid \<noteq> [] \<and> adminRole \<noteq> [] \<longrightarrow>
      fst (adminSubmitCheckIn now ss rid adminRole) = Success
      \<and> getRow (snd (adminSubmitCheckIn now ss rid adminRole)) found'
          = (getRow ss found')\<lparr>checkInTimestamp := Some now,
               adminCheckinNote := str ''Checked in by: '' @ adminRole,
               checkInLocationLink := str ''N/A (Admin)''\<rparr>)"
proof (intro conjI impI)
  assume a: "findRequestRow ss (c_requestId cd) = Some found \<and> c_requestId cd \<noteq> [] \<and> c_selfieData cd \<noteq> []
      \<and> truthy (c_latitude cd) \<and> truthy (c_longitude cd)
      \<and> \<not> numGreater distance CHECKIN_ALLOWED_RADIUS_METERS"
  then have f: "findRequestRow ss (c_requestId cd) = Some found" by simp
  have e: "submitCheckIn toStr distance photoUrl now ss cd =
     (Success, setRow ss found (\<lambda>r. r\<lparr>checkInTimestamp := Some now, checkInPhoto := photoUrl,
         checkInLocationLink := str ''https://maps.google.com/?q='' @ toStr (c_latitude cd)
                              @ str '','' @ toStr (c_longitude cd)\<rparr>))"
    using a by (intro submitCheckIn_found) simp_all
  show "fst (submitCheckIn toStr distance photoUrl now ss cd) = Success" by (simp add: e)
  show "getRow (snd (submitCheckIn toStr distance photoUrl now ss cd)) found
          = (getRow ss found)\<lparr>checkInTimestamp := Some now, checkInPhoto := photoUrl,
               checkInLocationLink := str ''https://maps.google.com/?q='' @ toStr (c_latitude cd)
                              @ str '','' @ toStr (c_longitude cd)\<rparr>"
    by (simp add: e getRow_setRow_found[OF f])
next
  assume a: "findRequestRow ss rid = Some found' \<and> rid \<noteq> [] \<and> adminRole \<noteq> []"
  then have f: "findRequestRow ss rid = Some found'" by simp
  have e: "adminSubmitCheckIn now ss rid adminRole =
     (Success, setRow ss found' (\<lambda>r. r\<lparr>checkInTimestamp := Some now,
         adminCheckinNote := str ''Checked in by: '' @ adminRole,
         checkInLocationLink := str ''N/A (Admin)''\<rparr>))"
    using a by (intro adminSubmitCheckIn_found) simp_all
  show "fst (adminSubmitCheckIn now ss rid adminRole) = Success" by (simp add: e)
  show "getRow (snd (adminSubmitCheckIn now ss rid adminRole)) found'
          = (getRow ss found')\<lparr>checkInTimestamp := Some now,
               adminCheckinNote := str ''Checked in by: '' @ adminRole,
               checkInLocationLink := str ''N/A (Admin)''\<rparr>"
    by (simp add: e getRow_setRow_found[OF f])
qed

text \<open>C4 as corrected, on a row that is already checked in, for both paths.\<close>

theorem checkIn_overwrites_witness:
  "checkInTimestamp (getRow ledger2 (PERMISSION_SHEET_NAME, Suc (Suc 0))) = Some (day0 + 17 * 3600000)
   \<and> fst (submitCheckIn printCoord (Fin 0) (Some (str ''https://drive.example/second''))
            (day0 + 20 * 3600000) ledger2 (checkIn1 (str ''REQ-4''))) = Success
   \<and> getRow (snd (submitCheckIn printCoord (Fin 0) (Some (str ''https://drive.example/second''))
            (day0 + 20 * 3600000) ledger2 (checkIn1 (str ''REQ-4'')))) (PERMISSION_SHEET_NAME, Suc (Suc 0))
       = checkedInRow\<lparr>checkInTimestamp := Some (day0 + 20 * 3600000),
           checkInPhoto := Some (str ''https://drive.example/second''),
           checkInLocationLink := str ''https://maps.google.com/?q=11.414483377915474,104.763828818174''\<rparr>
   \<and> fst (adminSubmitCheckIn (day0 + 20 * 3600000) ledger2 (str ''REQ-4'') (str ''Admin'')) = Success
   \<and> getRow (snd (adminSubmitCheckIn (day0 + 20 * 3600000) ledger2 (str ''REQ-4'') (str ''Admin'')))
         (PERMISSION_SHEET_NAME, Suc (Suc 0))
       = checkedInRow\<lparr>checkInTimestamp := Some (day0 + 20 * 3600000),
           adminCheckinNote := str ''Checked in by: Admin'',
           checkInLocationLink := str ''N/A (Admin)''\<rparr>"
proof -
  have ne: "str ''REQ-4'' \<noteq> []" "str ''Admin'' \<noteq> []"
    "str ''data:image/jpeg;base64,AAAA'' \<noteq> []"
    by (simp_all add: str_def)
  have cat: "str ''https://maps.google.com/?q='' @ str ''11.414483377915474'' @ str '',''
               @ str ''104.763828818174''
               = str ''https://maps.google.com/?q=11.414483377915474,104.763828818174''"
    "str ''Checked in by: '' @ str ''Admin'' = str ''Checked in by: Admin''"
    by (simp_all add: str_def)
  have t0: "checkInTimestamp checkedInRow = Some (day0 + 17 * 3600000)"
    by (simp add: checkedInRow_def)
  show ?thesis
    using checkIn_overwrites[where ss=ledger2 and cd="checkIn1 (str ''REQ-4'')"
        and found="(PERMISSION_SHEET_NAME, Suc (Suc 0))" and distance="Fin 0"
        and toStr=printCoord
        and photoUrl="Some (str ''https://drive.example/second'')" and now="day0 + 20 * 3600000"
        and rid="str ''REQ-4''" and adminRole="str ''Admin''"
        and found'="(PERMISSION_SHEET_NAME, Suc (Suc 0))"] ne
    by (simp add: ledger2_find ledger2_rows t0 cat checkIn1_def printCoord_target target_nonzero
        CHECKIN_ALLOWED_RADIUS_METERS_def)
qed

text \<open>
  Claim C4 as stated fails on both paths. The request \<open>REQ-4\<close> was checked in at 17:00.
  At 20:00 a second employee check-in, sent from the target itself (distance 0), reports
  success and stores the new time stamp, photo and link; and an admin check-in at 20:00
  reports success and stores the new time stamp, the note and the admin link.
\<close>

theorem second_checkIn_counterexample:
  "checkInTimestamp (getRow ledger2 (PERMISSION_SHEET_NAME, Suc (Suc 0))) = Some (day0 + 17 * 3600000)
   \<and> submitCheckIn printCoord (Fin 0) (Some (str ''https://drive.example/second''))
         (day0 + 20 * 3600000) ledger2 (checkIn1 (str ''REQ-4''))
       = (Success,
          [(PERMISSION_SHEET_NAME,
            [pendingRow, rejectedRow,
             checkedInRow\<lparr>checkInTimestamp := Some (day0 + 20 * 3600000),
               checkInPhoto := Some (str ''https://drive.example/second''),
               checkInLocationLink :=
                 str ''https://maps.google.com/?q=11.414483377915474,104.763828818174''\<rparr>]),
           (LEAVE_SHEET_NAME, []), (HOME_LEAVE_SHEET_NAME, [])])
   \<and> adminSubmitCheckIn (day0 + 20 * 3600000) ledger2 (str ''REQ-4'') (str ''Admin'')
       = (Success,
          [(PERMISSION_SHEET_NAME,
            [pendingRow, rejectedRow,
             checkedInRow\<lparr>checkInTimestamp := Some (day0 + 20 * 3600000),
               adminCheckinNote := str ''Checked in by: Admin'',
               checkInLocationLink := str ''N/A (Admin)''\<rparr>]),
           (LEAVE_SHEET_NAME, []), (HOME_LEAVE_SHEET_NAME, [])])
   \<and> Some (day0 + 20 * 3600000) \<noteq> Some (day0 + 17 * 3600000)"
proof -
  have ne: "str ''REQ-4'' \<noteq> []" "str ''data:image/jpeg;base64,AAAA'' \<noteq> []"
    "str ''Admin'' \<noteq> []"
    by (simp_all add: str_def)
  have cat: "str ''https://maps.google.com/?q='' @ str ''11.414483377915474'' @ str '',''
               @ str ''104.763828818174''
               = str ''https://maps.google.com/?q=11.414483377915474,104.763828818174''"
    "str ''Checked in by: '' @ str ''Admin'' = str ''Checked in by: Admin''"
    by (simp_all add: str_def)
  have t0: "checkInTimestamp checkedInRow = Some (day0 + 17 * 3600000)"
    by (simp add: checkedInRow_def)
  have w: "setRow ledger2 (PERMISSION_SHEET_NAME, Suc (Suc 0)) f
             = [(PERMISSION_SHEET_NAME, [pendingRow, rejectedRow, f checkedInRow]),
                (LEAVE_SHEET_NAME, []), (HOME_LEAVE_SHEET_NAME, [])]" for f
    by (simp add: setRow_def getSheetByName_def ledger2_def)
  have 1: "submitCheckIn printCoord (Fin 0) (Some (str ''https://drive.example/second''))
         (day0 + 20 * 3600000) ledger2 (checkIn1 (str ''REQ-4''))
       = (Success,
          [(PERMISSION_SHEET_NAME,
            [pendingRow, rejectedRow,
             checkedInRow\<lparr>checkInTimestamp := Some (day0 + 20 * 3600000),
               checkInPhoto := Some (str ''https://drive.example/second''),
               checkInLocationLink :=
                 str ''https://maps.google.com/?q=11.414483377915474,104.763828818174''\<rparr>]),
           (LEAVE_SHEET_NAME, []), (HOME_LEAVE_SHEET_NAME, [])])"
    using ne by (simp add: submitCheckIn_def ledger2_find ledger2_rows cat w checkIn1_def
        printCoord_target target_nonzero CHECKIN_ALLOWED_RADIUS_METERS_def)
  have 2: "adminSubmitCheckIn (day0 + 20 * 3600000) ledger2 (str ''REQ-4'') (str ''Admin'')
       = (Success,
          [(PERMISSION_SHEET_NAME,
            [pendingRow, rejectedRow,
             checkedInRow\<lparr>checkInTimestamp := Some (day0 + 20 * 3600000),
               adminCheckinNote := str ''Checked in by: Admin'',
               checkInLocationLink := str ''N/A (Admin)''\<rparr>]),
           (LEAVE_SHEET_NAME, []), (HOME_LEAVE_SHEET_NAME, [])])"
    using ne by (simp add: adminSubmitCheckIn_def ledger2_find cat w)
  have 3: "checkInTimestamp (getRow ledger2 (PERMISSION_SHEET_NAME, Suc (Suc 0)))
             = Some (day0 + 17 * 3600000)"
    by (simp add: ledger2_rows t0)
  show ?thesis using 1 2 3 by simp
qed

section \<open>Edit and resubmit\<close>

lemma setRow_twice:
  "setRow (setRow ss found f) found g = setRow ss found (\<lambda>r. g (f r))"
proof (cases "getSheetByName ss (fst found)")
  case None
  then show ?thesis by (simp add: setRow_def)
next
  case (Some rows)
  have "getSheetByName (setRow ss found f) (fst found) = Some (rows[snd found := f (rows ! snd found)])"
    using Some by (simp add: setRow_def getSheetByName_update)
  moreover have "rows[snd found := g (rows[snd found := f (rows ! snd found)] ! snd found)]
                   = rows[snd found := g (f (rows ! snd found))]"
  proof (cases "snd found < length rows")
    case True
    then show ?thesis by simp
  next
    case False
    then have "length rows \<le> snd found" by simp
    then have "\<And>x. rows[snd found := x] = rows" by (rule list_update_beyond)
    then show ?thesis by simp
  qed
  ultimately show ?thesis
    using Some by (simp add: setRow_def)
qed

text \<open>
  Claim C8, as the script has it. For every request that \<^verbatim>\<open>updateLeaveRequest\<close> finds,
  whatever its state before, the call succeeds and the row differs from before exactly
  in: the leave type, the two dates, the duration, the reason, the selfie and the
  documents (the values supplied, or what the file store returned for a picture that
  had to be uploaded), status = \<open>Pending\<close>, and approver, approval time stamp and note
  column empty. A second call with the same payload gives the same answer and the same
  ledger as the first when every reference that the second call takes from the file
  store is the one the first call took; in particular when the payload carries no
  picture to upload and no list of documents, so that the file store is not called.
\<close>

theorem updateLeaveRequest_resets:
  "(d_requestId d \<noteq> [] \<and> findRequestRow ss (d_requestId d) = Some found \<longrightarrow>
      fst (updateLeaveRequest up ss d) = Success
      \<and> getRow (snd (updateLeaveRequest up ss d)) found
          = (getRow ss found)\<lparr>leaveType := d_leaveType d, startDate := d_startDate d,
               endDate := d_endDate d, days := d_numberOfDays d, reason := d_reason d,
               selfiePhoto := (if isBase64Image (d_selfieImageData d) then savedSelfie up
                               else Some (d_selfieImageData d)),
               docPhoto := (if isBase64Image (d_documentImageData d)
                               \<or> (d_documentImageData d \<noteq> []
                                   \<and> startsWith (d_documentImageData d) (str ''[''))
                            then savedDocuments up else d_documentImageData d),
               status := str ''Pending'', approver := [], approvalTimestamp := None,
               adminCheckinNote := []\<rparr>)
   \<and> ((isBase64Image (d_selfieImageData d) \<longrightarrow> savedSelfie up' = savedSelfie up)
        \<and> (isBase64Image (d_documentImageData d)
             \<or> (d_documentImageData d \<noteq> [] \<and> startsWith (d_documentImageData d) (str ''['')) \<longrightarrow>
             savedDocuments up' = savedDocuments up) \<longrightarrow>
        updateLeaveRequest up' (snd (updateLeaveRequest up ss d)) d = updateLeaveRequest up ss d)"
proof (intro conjI impI)
  assume a: "d_requestId d \<noteq> [] \<and> findRequestRow ss (d_requestId d) = Some found"
  then show "fst (updateLeaveRequest up ss d) = Success"
    by (simp add: updateLeaveRequest_def Let_def)
next
  assume a: "d_requestId d \<noteq> [] \<and> findRequestRow ss (d_requestId d) = Some found"
  then have f: "findRequestRow ss (d_requestId d) = Some found" by simp
  show "getRow (snd (updateLeaveRequest up ss d)) found
          = (getRow ss found)\<lparr>leaveType := d_leaveType d, startDate := d_startDate d,
               endDate := d_endDate d, days := d_numberOfDays d, reason := d_reason d,
               selfiePhoto := (if isBase64Image (d_selfieImageData d) then savedSelfie up
                               else Some (d_selfieImageData d)),
               docPhoto := (if isBase64Image (d_documentImageData d)
                               \<or> (d_documentImageData d \<noteq> []
                                   \<and> startsWith (d_documentImageData d) (str ''[''))
                            then savedDocuments up else d_documentImageData d),
               status := str ''Pending'', approver := [], approvalTimestamp := None,
               adminCheckinNote := []\<rparr>"
    using a by (simp add: updateLeaveRequest_def Let_def getRow_setRow_found[OF f])
next
  assume h: "(isBase64Image (d_selfieImageData d) \<longrightarrow> savedSelfie up' = savedSelfie up)
        \<and> (isBase64Image (d_documentImageData d)
             \<or> (d_documentImageData d \<noteq> [] \<and> startsWith (d_documentImageData d) (str ''['')) \<longrightarrow>
             savedDocuments up' = savedDocuments up)"
  have s: "(if isBase64Image (d_selfieImageData d) then savedSelfie up'
            else Some (d_selfieImageData d))
           = (if isBase64Image (d_selfieImageData d) then savedSelfie up
              else Some (d_selfieImageData d))"
    using h by simp
  have t: "(if isBase64Image (d_documentImageData d) then savedDocuments up'
            else if d_documentImageData d \<noteq> []
                    \<and> startsWith (d_documentImageData d) (str ''['')
                 then savedDocuments up'
            else d_documentImageData d)
           = (if isBase64Image (d_documentImageData d) then savedDocuments up
            else if d_documentImageData d \<noteq> []
                    \<and> startsWith (d_documentImageData d) (str ''['')
                 then savedDocuments up
            else d_documentImageData d)"
    using h by simp
  show "updateLeaveRequest up' (snd (updateLeaveRequest up ss d)) d = updateLeaveRequest up ss d"
  proof (cases "d_requestId d = []")
    case True
    then show ?thesis by (simp add: updateLeaveRequest_def)
  next
    case False
    show ?thesis
    proof (cases "findRequestRow ss (d_requestId d)")
      case None
      with False show ?thesis by (simp add: updateLeaveRequest_def)
    next
      case (Some found)
      with False show ?thesis
        by (simp only: updateLeaveRequest_def Let_def s t)
          (simp add: findRequestRow_setRow setRow_twice)
    qed
  qed
qed

text \<open>
  C8 as corrected, on a \<open>Rejected\<close> row of the example ledger: the edit with a picture
  resets the row, and repeats to the same ledger when the file store answers the same
  reference; the edit that carries the URL of the selfie repeats to the same ledger
  whatever the file store would answer.
\<close>

theorem updateLeaveRequest_resets_witness:
  "status (getRow ledger2 (PERMISSION_SHEET_NAME, Suc 0)) = str ''Rejected''
   \<and> fst (updateLeaveRequest uploads1 ledger2 edit1) = Success
   \<and> getRow (snd (updateLeaveRequest uploads1 ledger2 edit1)) (PERMISSION_SHEET_NAME, Suc 0)
       = rejectedRow\<lparr>leaveType := PERMISSION_SHEET_NAME, startDate := Some (day0 + msPerDay),
           endDate := Some (day0 + msPerDay), days := Str TOKEN_MORNING, reason := str ''clinic'',
           selfiePhoto := Some (str ''https://drive.example/selfie''), docPhoto := [],
           status := str ''Pending'', approver := [], approvalTimestamp := None,
           adminCheckinNote := []\<rparr>
   \<and> updateLeaveRequest uploads1 (snd (updateLeaveRequest uploads1 ledger2 edit1)) edit1
       = updateLeaveRequest uploads1 ledger2 edit1
   \<and> updateLeaveRequest uploads2 (snd (updateLeaveRequest uploads1 ledger2 edit3)) edit3
       = updateLeaveRequest uploads1 ledger2 edit3"
proof -
  have ne: "str ''REQ-3'' \<noteq> []" by (simp add: str_def)
  have img: "isBase64Image (str ''data:image/jpeg;base64,AAAA'')" "\<not> isBase64Image []"
    "\<not> isBase64Image (str ''https://drive.example/selfie'')"
    by (simp_all add: isBase64Image_def startsWith_def str_def)
  have s: "status rejectedRow = str ''Rejected''" by (simp add: rejectedRow_def)
  have 1: "status (getRow ledger2 (PERMISSION_SHEET_NAME, Suc 0)) = str ''Rejected''
   \<and> fst (updateLeaveRequest uploads1 ledger2 edit1) = Success
   \<and> getRow (snd (updateLeaveRequest uploads1 ledger2 edit1)) (PERMISSION_SHEET_NAME, Suc 0)
       = rejectedRow\<lparr>leaveType := PERMISSION_SHEET_NAME, startDate := Some (day0 + msPerDay),
           endDate := Some (day0 + msPerDay), days := Str TOKEN_MORNING, reason := str ''clinic'',
           selfiePhoto := Some (str ''https://drive.example/selfie''), docPhoto := [],
           status := str ''Pending'', approver := [], approvalTimestamp := None,
           adminCheckinNote := []\<rparr>
   \<and> updateLeaveRequest uploads1 (snd (updateLeaveRequest uploads1 ledger2 edit1)) edit1
       = updateLeaveRequest uploads1 ledger2 edit1"
    using updateLeaveRequest_resets[where d=edit1 and ss=ledger2 and up=uploads1
        and up'=uploads1 and found="(PERMISSION_SHEET_NAME, Suc 0)"] ne img
    by (simp add: edit1_def uploads1_def ledger2_find ledger2_rows s)
  have 2: "updateLeaveRequest uploads2 (snd (updateLeaveRequest uploads1 ledger2 edit3)) edit3
       = updateLeaveRequest uploads1 ledger2 edit3"
    using updateLeaveRequest_resets[where d=edit3 and ss=ledger2 and up=uploads1
        and up'=uploads2 and found="(PERMISSION_SHEET_NAME, Suc 0)"] img
    by (simp add: edit3_def edit1_def)
  show ?thesis using 1 2 by simp
qed

text \<open>
  Claim C8 as stated fails in its second half: the edit \<open>edit1\<close> carries a picture, the
  file store makes a new file at each call, and the second of two identical calls
  stores the reference of the second file where the first call had stored that of the
  first.
\<close>

theorem resubmit_twice_counterexample:
  "selfiePhoto (getRow (snd (updateLeaveRequest uploads1 ledger2 edit1))
       (PERMISSION_SHEET_NAME, Suc 0)) = Some (str ''https://drive.example/selfie'')
   \<and> selfiePhoto (getRow (snd (updateLeaveRequest uploads2
          (snd (updateLeaveRequest uploads1 ledger2 edit1)) edit1))
       (PERMISSION_SHEET_NAME, Suc 0)) = Some (str ''https://drive.example/selfie-2'')
   \<and> updateLeaveRequest uploads2 (snd (updateLeaveRequest uploads1 ledger2 edit1)) edit1
       \<noteq> updateLeaveRequest uploads1 ledger2 edit1"
proof -
  have ne: "str ''REQ-3'' \<noteq> []"
    "str ''https://drive.example/selfie-2'' \<noteq> str ''https://drive.example/selfie''"
    by (simp_all add: str_def)
  have img: "isBase64Image (str ''data:image/jpeg;base64,AAAA'')" "\<not> isBase64Image []"
    by (simp_all add: isBase64Image_def startsWith_def str_def)
  have f: "findRequestRow ledger2 (str ''REQ-3'') = Some (PERMISSION_SHEET_NAME, Suc 0)"
    by (simp add: ledger2_find)
  have d: "d_requestId edit1 = str ''REQ-3''" by (simp add: edit1_def)
  have f': "findRequestRow (snd (updateLeaveRequest uploads1 ledger2 edit1)) (str ''REQ-3'')
              = Some (PERMISSION_SHEET_NAME, Suc 0)"
    using ne by (simp add: updateLeaveRequest_def d f Let_def findRequestRow_setRow)
  have 1: "selfiePhoto (getRow (snd (updateLeaveRequest uploads1 ledger2 edit1))
       (PERMISSION_SHEET_NAME, Suc 0)) = Some (str ''https://drive.example/selfie'')"
    using ne img
    by (simp add: updateLeaveRequest_def d f Let_def getRow_setRow_found[OF f])
      (simp add: edit1_def uploads1_def)
  have 2: "selfiePhoto (getRow (snd (updateLeaveRequest uploads2
          (snd (updateLeaveRequest uploads1 ledger2 edit1)) edit1))
       (PERMISSION_SHEET_NAME, Suc 0)) = Some (str ''https://drive.example/selfie-2'')"
    using ne img
    by (simp add: updateLeaveRequest_def[of uploads2] d f' Let_def getRow_setRow_found[OF f'])
      (simp add: edit1_def uploads2_def)
  from 1 2 ne(2) have
    "snd (updateLeaveRequest uploads2 (snd (updateLeaveRequest uploads1 ledger2 edit1)) edit1)
       \<noteq> snd (updateLeaveRequest uploads1 ledger2 edit1)"
    by auto
  then have 3: "updateLeaveRequest uploads2 (snd (updateLeaveRequest uploads1 ledger2 edit1)) edit1
       \<noteq> updateLeaveRequest uploads1 ledger2 edit1"
    by auto
  show ?thesis using 1 2 3 by simp
qed

section \<open>Status transitions\<close>

lemma statuses_setRow_keep:
  assumes "\<And>r. status (f r) = status r"
  shows "statuses (setRow ss found f) n = statuses ss n"
proof (cases "getSheetByName ss (fst found)")
  case None
  then show ?thesis by (simp add: setRow_def)
next
  case (Some rows)
  have "map status (rows[snd found := f (rows ! snd found)]) = map status rows"
    by (simp add: map_update assms map_update_same)
  then show ?thesis using Some
    by (cases found) (simp add: statuses_def getSheetByName_setRow)
qed

lemma statuses_setRow_const:
  assumes "\<And>r. status (f r) = s"
  shows "statuses (setRow ss (m, i) f) n
           = (if n = m then (statuses ss m)[i := s] else statuses ss n)"
proof (cases "getSheetByName ss m")
  case None
  then show ?thesis by (simp add: setRow_def statuses_def)
next
  case (Some rows)
  then show ?thesis
    by (simp add: statuses_def getSheetByName_setRow map_update assms)
qed

lemma statuses_at_found:
  assumes "findRequestRow ss rid = Some (m, i)"
  shows "i < length (statuses ss m) \<and> statuses ss m ! i = status (getRow ss (m, i))"
proof -
  from findRequestRow_Some[OF assms]
  obtain rows where "getSheetByName ss m = Some rows" "i < length rows" by blast
  then show ?thesis by (simp add: statuses_def getRow_def)
qed

lemma checkIn_statuses:
  "statuses (snd (submitCheckIn toStr distance photoUrl now ss cd)) n = statuses ss n"
  by (simp add: submitCheckIn_def Let_def statuses_setRow_keep split: option.splits)

lemma adminCheckIn_statuses:
  "statuses (snd (adminSubmitCheckIn now ss rid adminRole)) n = statuses ss n"
  by (simp add: adminSubmitCheckIn_def statuses_setRow_keep split: option.splits)

lemma getSheetByName_append_new:
  "getSheetByName ss k = None \<Longrightarrow>
   getSheetByName (ss @ [(k, rows)]) n = (if n = k then Some rows else getSheetByName ss n)"
  by (auto simp: getSheetByName_def map_add_def split: option.splits)

lemma uwp_refl: "unchangedOrWasPending xs xs"
  by (simp add: unchangedOrWasPending_def)

lemma uwp_trans:
  "unchangedOrWasPending xs ys \<Longrightarrow> unchangedOrWasPending ys zs \<Longrightarrow> unchangedOrWasPending xs zs"
proof -
  assume a: "unchangedOrWasPending xs ys" and b: "unchangedOrWasPending ys zs"
  have len: "length xs \<le> length ys" "length ys \<le> length zs"
    using a b by (simp_all add: unchangedOrWasPending_def)
  have "zs ! i = xs ! i \<or> xs ! i = str ''Pending''" if i: "i < length xs" for i
  proof -
    from i len have j: "i < length ys" by simp
    from a i have 1: "ys ! i = xs ! i \<or> xs ! i = str ''Pending''"
      by (simp add: unchangedOrWasPending_def)
    from b j have 2: "zs ! i = ys ! i \<or> ys ! i = str ''Pending''"
      by (simp add: unchangedOrWasPending_def)
    from 1 2 show ?thesis by auto
  qed
  with len show ?thesis by (simp add: unchangedOrWasPending_def)
qed

lemma uwp_update:
  "i < length xs \<Longrightarrow> xs ! i = str ''Pending'' \<Longrightarrow> unchangedOrWasPending xs (xs[i := s])"
  by (auto simp: unchangedOrWasPending_def nth_list_update)

lemma uwp_append: "unchangedOrWasPending xs (xs @ ys)"
  by (simp add: unchangedOrWasPending_def nth_append)

lemma decide_statuses:
  "statuses (snd (updateRequestStatus now ss rid newStatus approverRole rejectionReason)) n = statuses ss n
   \<or> (\<exists>i<length (statuses ss n). statuses ss n ! i = str ''Pending''
        \<and> statuses (snd (updateRequestStatus now ss rid newStatus approverRole rejectionReason)) n
            = (statuses ss n)[i := newStatus])"
proof (cases "rid = [] \<or> newStatus = []")
  case True
  then show ?thesis by (auto simp: updateRequestStatus_def)
next
  case False
  show ?thesis
  proof (cases "findRequestRow ss rid")
    case None
    with False show ?thesis by (simp add: updateRequestStatus_def)
  next
    case (Some found)
    obtain m i where f: "found = (m, i)" by (cases found)
    show ?thesis
    proof (cases "status (getRow ss found) = str ''Pending''")
      case no: False
      with False Some show ?thesis by (simp add: updateRequestStatus_def)
    next
      case yes: True
      have e: "statuses (snd (updateRequestStatus now ss rid newStatus approverRole rejectionReason)) n
                 = (if n = m then (statuses ss m)[i := newStatus] else statuses ss n)"
        using False Some yes
        by (simp add: updateRequestStatus_def Let_def f statuses_setRow_keep statuses_setRow_const)
      from statuses_at_found[OF Some[unfolded f]] yes f
      have "i < length (statuses ss m)" "statuses ss m ! i = str ''Pending''" by simp_all
      then show ?thesis using e by (cases "n = m") auto
    qed
  qed
qed

lemma submit_statuses:
  "statuses (snd (submitLeaveRequest toStr up now newId ss d)) n = statuses ss n
   \<or> statuses (snd (submitLeaveRequest toStr up now newId ss d)) n = statuses ss n @ [str ''Pending'']"
proof (cases "d_leaveType d = [] \<or> d_employeeId d = []")
  case True
  then show ?thesis by (auto simp: submitLeaveRequest_def)
next
  case False
  show ?thesis
  proof (cases "getSheetByName ss (d_leaveType d)")
    case None
    then have "statuses (snd (submitLeaveRequest toStr up now newId ss d)) n = statuses ss n"
      using False by (simp add: submitLeaveRequest_def Let_def statuses_def getSheetByName_append_new)
    then show ?thesis by simp
  next
    case (Some rows)
    then have "statuses (snd (submitLeaveRequest toStr up now newId ss d)) n
                 = (if n = d_leaveType d then statuses ss n @ [str ''Pending''] else statuses ss n)"
      using False by (simp add: submitLeaveRequest_def Let_def statuses_def getSheetByName_update)
    then show ?thesis by simp
  qed
qed

lemma step_uwp:
  "\<not> isResubmit op \<Longrightarrow> \<not> isDelete op \<Longrightarrow>
   unchangedOrWasPending (statuses ss n) (statuses (step toStr ss op) n)"
proof (cases op)
  case (Submit up now newId d)
  then show ?thesis
    using submit_statuses[of toStr up now newId ss d n] by (auto simp: uwp_refl uwp_append)
next
  case (Decide now rid newStatus approverRole rejectionReason)
  then show ?thesis
    using decide_statuses[of now ss rid newStatus approverRole rejectionReason n]
    by (auto simp: uwp_refl uwp_update)
next
  case (Resubmit up d)
  assume "\<not> isResubmit op"
  with Resubmit show ?thesis by simp
next
  case (CheckIn distance photoUrl now cd)
  then show ?thesis by (simp add: checkIn_statuses uwp_refl)
next
  case (AdminCheckIn now rid adminRole)
  then show ?thesis by (simp add: adminCheckIn_statuses uwp_refl)
next
  case (Delete rid)
  assume "\<not> isDelete op"
  with Delete show ?thesis by simp
qed

lemma run_uwp:
  "(\<forall>op\<in>set ops. \<not> isResubmit op \<and> \<not> isDelete op) \<Longrightarrow>
   unchangedOrWasPending (statuses ss n) (statuses (run toStr ss ops) n)"
proof (induction ops arbitrary: ss)
  case Nil
  then show ?case by (simp add: run_def uwp_refl)
next
  case (Cons op ops)
  have 1: "unchangedOrWasPending (statuses ss n) (statuses (step toStr ss op) n)"
    using Cons.prems by (simp add: step_uwp)
  have 2: "unchangedOrWasPending (statuses (step toStr ss op) n)
             (statuses (run toStr (step toStr ss op) ops) n)"
    using Cons.prems by (intro Cons.IH) simp
  from uwp_trans[OF 1 2] show ?case by (simp add: run_def)
qed

lemma ledger1_statuses:
  "statuses ledger1 PERMISSION_SHEET_NAME = [str ''Pending'', str ''Approved'']"
  by (simp add: statuses_def ledger1_def getSheetByName_def pendingRow_def approvedRow_def)

lemma statuses_entries: "statuses ss n = map snd (entries ss n)"
  by (simp add: statuses_def entries_def split: option.splits)

lemma entries_setRow:
  assumes "getSheetByName ss m = Some rows" and "\<And>r. requestId (f r) = requestId r"
  shows "entries (setRow ss (m, i) f) n
           = (if n = m then (entries ss m)[i := (requestId (rows ! i), status (f (rows ! i)))]
              else entries ss n)"
  using assms by (simp add: entries_def getSheetByName_setRow map_update)

lemma entries_setRow_keep:
  assumes "\<And>r. requestId (f r) = requestId r" and "\<And>r. status (f r) = status r"
  shows "entries (setRow ss found f) n = entries ss n"
proof (cases "getSheetByName ss (fst found)")
  case None
  then show ?thesis by (simp add: setRow_def)
next
  case (Some rows)
  have "map (\<lambda>r. (requestId r, status r)) (rows[snd found := f (rows ! snd found)])
          = map (\<lambda>r. (requestId r, status r)) rows"
    using map_update_same[of "\<lambda>r. (requestId r, status r)" rows "snd found"]
    by (simp add: map_update assms)
  then show ?thesis using Some
    by (cases found) (simp add: entries_def getSheetByName_setRow)
qed

lemma entries_at_found:
  assumes "findRequestRow ss rid = Some (m, i)"
  shows "i < length (entries ss m) \<and> entries ss m ! i = (rid, status (getRow ss (m, i)))"
proof -
  from findRequestRow_Some[OF assms]
  obtain rows where "getSheetByName ss m = Some rows" "i < length rows" "requestId (rows ! i) = rid"
    by blast
  then show ?thesis by (simp add: entries_def getRow_def)
qed

lemma decide_entries:
  "statusStep (Decide now rid newStatus approverRole rejectionReason) (entries ss n)
     (entries (snd (updateRequestStatus now ss rid newStatus approverRole rejectionReason)) n)"
proof (cases "rid = [] \<or> newStatus = []")
  case True
  then show ?thesis by (auto simp: updateRequestStatus_def)
next
  case False
  show ?thesis
  proof (cases "findRequestRow ss rid")
    case None
    with False show ?thesis by (simp add: updateRequestStatus_def)
  next
    case (Some found)
    obtain m i where f: "found = (m, i)" by (cases found)
    from findRequestRow_Some[OF Some[unfolded f]]
    obtain rows where r: "getSheetByName ss m = Some rows" "i < length rows" "requestId (rows ! i) = rid"
      by blast
    show ?thesis
    proof (cases "status (getRow ss found) = str ''Pending''")
      case no: False
      with False Some show ?thesis by (simp add: updateRequestStatus_def)
    next
      case yes: True
      have e: "entries (snd (updateRequestStatus now ss rid newStatus approverRole rejectionReason)) n
                 = (if n = m then (entries ss m)[i := (rid, newStatus)] else entries ss n)"
        using False Some yes r(3)
        by (simp add: updateRequestStatus_def Let_def f entries_setRow_keep entries_setRow[OF r(1)])
      from entries_at_found[OF Some[unfolded f]] yes f
      have "i < length (entries ss m)" "entries ss m ! i = (rid, str ''Pending'')" by simp_all
      then show ?thesis using e by (cases "n = m") auto
    qed
  qed
qed

lemma resubmit_entries:
  "statusStep (Resubmit up d) (entries ss n) (entries (snd (updateLeaveRequest up ss d)) n)"
proof (cases "d_requestId d = []")
  case True
  then show ?thesis by (simp add: updateLeaveRequest_def)
next
  case False
  show ?thesis
  proof (cases "findRequestRow ss (d_requestId d)")
    case None
    with False show ?thesis by (simp add: updateLeaveRequest_def)
  next
    case (Some found)
    obtain m i where f: "found = (m, i)" by (cases found)
    from findRequestRow_Some[OF Some[unfolded f]]
    obtain rows where r: "getSheetByName ss m = Some rows" "i < length rows"
      "requestId (rows ! i) = d_requestId d"
      by blast
    have e: "entries (snd (updateLeaveRequest up ss d)) n
               = (if n = m then (entries ss m)[i := (d_requestId d, str ''Pending'')]
                  else entries ss n)"
      using False Some r(3)
      by (simp add: updateLeaveRequest_def Let_def f entries_setRow[OF r(1)])
    from entries_at_found[OF Some[unfolded f]]
    have "i < length (entries ss m)" "fst (entries ss m ! i) = d_requestId d" by simp_all
    then show ?thesis using e by (cases "n = m") auto
  qed
qed

lemma checkIn_entries:
  "entries (snd (submitCheckIn toStr distance photoUrl now ss cd)) n = entries ss n"
  by (simp add: submitCheckIn_def Let_def entries_setRow_keep split: option.splits)

lemma adminCheckIn_entries:
  "entries (snd (adminSubmitCheckIn now ss rid adminRole)) n = entries ss n"
  by (simp add: adminSubmitCheckIn_def entries_setRow_keep split: option.splits)

lemma delete_entries_found:
  assumes "rid \<noteq> []" and "findRequestRow ss rid = Some (m, i)"
  shows "entries (snd (deleteLeaveRequest ss rid)) n
           = (if n = m then take i (entries ss m) @ drop (Suc i) (entries ss m)
              else entries ss n)"
proof -
  from findRequestRow_Some[OF assms(2)]
  obtain rows where r: "getSheetByName ss m = Some rows" "i < length rows" by blast
  show ?thesis
    using assms r
    by (simp add: deleteLeaveRequest_def deleteRow_def entries_def getSheetByName_update
        take_map drop_map)
qed

lemma delete_entries:
  "statusStep (Delete rid) (entries ss n) (entries (snd (deleteLeaveRequest ss rid)) n)"
proof (cases "rid = []")
  case True
  then show ?thesis by (simp add: deleteLeaveRequest_def)
next
  case False
  show ?thesis
  proof (cases "findRequestRow ss rid")
    case None
    with False show ?thesis by (simp add: deleteLeaveRequest_def)
  next
    case (Some found)
    obtain m i where f: "found = (m, i)" by (cases found)
    from entries_at_found[OF Some[unfolded f]]
    have "i < length (entries ss m)" "fst (entries ss m ! i) = rid" by simp_all
    then show ?thesis
      using delete_entries_found[OF False Some[unfolded f], of n]
      by (cases "n = m") auto
  qed
qed

lemma submit_entries:
  "statusStep (Submit up now newId d) (entries ss n)
     (entries (snd (submitLeaveRequest toStr up now newId ss d)) n)"
proof (cases "d_leaveType d = [] \<or> d_employeeId d = []")
  case True
  then show ?thesis by (auto simp: submitLeaveRequest_def)
next
  case False
  show ?thesis
  proof (cases "getSheetByName ss (d_leaveType d)")
    case None
    then have "entries (snd (submitLeaveRequest toStr up now newId ss d)) n = entries ss n"
      using False by (simp add: submitLeaveRequest_def Let_def entries_def getSheetByName_append_new)
    then show ?thesis by simp
  next
    case (Some rows)
    then have "entries (snd (submitLeaveRequest toStr up now newId ss d)) n
                 = (if n = d_leaveType d then entries ss n @ [(newId, str ''Pending'')]
                    else entries ss n)"
      using False by (simp add: submitLeaveRequest_def Let_def entries_def getSheetByName_update)
    then show ?thesis by simp
  qed
qed

lemma step_statusStep: "statusStep op (entries ss n) (entries (step toStr ss op) n)"
proof (cases op)
  case (Submit up now newId d)
  then show ?thesis using submit_entries[of up now newId d ss n toStr] by simp
next
  case (Decide now rid newStatus approverRole rejectionReason)
  then show ?thesis using decide_entries[of now rid newStatus approverRole rejectionReason ss n] by simp
next
  case (Resubmit up d)
  then show ?thesis using resubmit_entries[of up d ss n] by simp
next
  case (CheckIn distance photoUrl now cd)
  then show ?thesis by (simp add: checkIn_entries)
next
  case (AdminCheckIn now rid adminRole)
  then show ?thesis by (simp add: adminCheckIn_entries)
next
  case (Delete rid)
  then show ?thesis using delete_entries[of rid ss n] by simp
qed

lemma run_snoc: "run toStr ss (ops @ [op]) = step toStr (run toStr ss ops) op"
  by (simp add: run_def)

lemma run_statusStep:
  assumes "k < length ops"
  shows "statusStep (ops ! k) (entries (run toStr ss (take k ops)) n)
           (entries (run toStr ss (take (Suc k) ops)) n)"
proof -
  have "take (Suc k) ops = take k ops @ [ops ! k]"
    using assms by (simp add: take_Suc_conv_app_nth)
  then show ?thesis by (simp add: run_snoc step_statusStep)
qed

lemma trackStep_entries:
  assumes i: "i < length (entries ss n)" and t: "trackStep ss op n i = Some j"
  shows "j < length (entries (step toStr ss op) n)
         \<and> fst (entries (step toStr ss op) n ! j) = fst (entries ss n ! i)
         \<and> (\<not> isResubmit op \<longrightarrow>
               snd (entries (step toStr ss op) n ! j) = snd (entries ss n ! i)
               \<or> snd (entries ss n ! i) = str ''Pending'')"
proof (cases "isDelete op")
  case False
  then have j: "j = i" using t by (cases op) simp_all
  note s = step_statusStep[of op ss n toStr]
  show ?thesis
  proof (cases op)
    case (Submit up now newId d)
    with s i show ?thesis by (auto simp: j nth_append)
  next
    case (Decide now rid newStatus approverRole rejectionReason)
    with s i show ?thesis by (auto simp: j nth_list_update)
  next
    case (Resubmit up d)
    with s i show ?thesis by (auto simp: j nth_list_update)
  next
    case (CheckIn distance photoUrl now cd)
    with s i show ?thesis by (simp add: j)
  next
    case (AdminCheckIn now rid adminRole)
    with s i show ?thesis by (simp add: j)
  next
    case (Delete rid)
    with False show ?thesis by simp
  qed
next
  case True
  then obtain rid where op: "op = Delete rid" by (cases op) simp_all
  show ?thesis
  proof (cases "rid = []")
    case True
    with t i op show ?thesis by (simp add: deleteLeaveRequest_def)
  next
    case ne: False
    show ?thesis
    proof (cases "findRequestRow ss rid")
      case None
      with t i op ne show ?thesis by (simp add: deleteLeaveRequest_def)
    next
      case (Some found)
      obtain m k where f: "found = (m, k)" by (cases found)
      note e = delete_entries_found[OF ne Some[unfolded f], of n]
      from entries_at_found[OF Some[unfolded f]] have k: "k < length (entries ss m)" by simp
      show ?thesis
      proof (cases "m = n")
        case False
        with t i op ne Some f e show ?thesis by simp
      next
        case same: True
        have ik: "i \<noteq> k" using t op ne Some f same by (auto split: if_splits)
        show ?thesis
        proof (cases "k < i")
          case True
          then have j: "j = i - 1" using t op ne Some f same ik by simp
          have nk: "\<not> i - 1 < k" and ki: "Suc k + (i - 1 - k) = i" using True by arith+
          have "(take k (entries ss n) @ drop (Suc k) (entries ss n)) ! (i - 1)
                  = drop (Suc k) (entries ss n) ! (i - 1 - k)"
            using nk k same by (simp add: nth_append min_def)
          also have "\<dots> = entries ss n ! (Suc k + (i - 1 - k))"
            using i True by (intro nth_drop) simp
          finally have "(take k (entries ss n) @ drop (Suc k) (entries ss n)) ! (i - 1) = entries ss n ! i"
            by (simp only: ki)
          moreover have "i - 1 < length (take k (entries ss n) @ drop (Suc k) (entries ss n))"
            using True i k same by (simp add: min_def)
          ultimately show ?thesis using e same op j by simp
        next
          case False
          with ik have lt: "i < k" by simp
          then have j: "j = i" using t op ne Some f same by simp
          have "(take k (entries ss n) @ drop (Suc k) (entries ss n)) ! i = entries ss n ! i"
            using lt k same by (simp add: nth_append min_def)
          moreover have "i < length (take k (entries ss n) @ drop (Suc k) (entries ss n))"
            using lt k same by (simp add: min_def)
          ultimately show ?thesis using e same op j by simp
        qed
      qed
    qed
  qed
qed

lemma run_Cons: "run toStr ss (op # ops) = run toStr (step toStr ss op) ops"
  by (simp add: run_def)

lemma track_entries:
  assumes "i < length (entries ss n)" and "track toStr ss ops n i = Some j"
  shows "j < length (entries (run toStr ss ops) n)
         \<and> fst (entries (run toStr ss ops) n ! j) = fst (entries ss n ! i)
         \<and> ((\<forall>op\<in>set ops. \<not> isResubmit op) \<longrightarrow>
               snd (entries (run toStr ss ops) n ! j) = snd (entries ss n ! i)
               \<or> snd (entries ss n ! i) = str ''Pending'')"
  using assms
proof (induction ops arbitrary: ss i)
  case Nil
  then show ?case by (simp add: run_def)
next
  case (Cons op ops)
  from Cons.prems(2) obtain i' where 1: "trackStep ss op n i = Some i'"
    and 2: "track toStr (step toStr ss op) ops n i' = Some j"
    by (auto split: option.splits)
  note s = trackStep_entries[OF Cons.prems(1) 1, of toStr]
  from s have i': "i' < length (entries (step toStr ss op) n)" by simp
  note r = Cons.IH[OF i' 2]
  show ?case
  proof (intro conjI impI)
    show "j < length (entries (run toStr ss (op # ops)) n)"
      using r by (simp add: run_Cons)
    show "fst (entries (run toStr ss (op # ops)) n ! j) = fst (entries ss n ! i)"
      using r s by (simp add: run_Cons)
    assume a: "\<forall>op\<in>set (op # ops). \<not> isResubmit op"
    then have "\<not> isResubmit op" "\<forall>op\<in>set ops. \<not> isResubmit op" by simp_all
    with r s have
      "snd (entries (run toStr (step toStr ss op) ops) n ! j) = snd (entries (step toStr ss op) n ! i')
       \<or> snd (entries (step toStr ss op) n ! i') = str ''Pending''"
      "snd (entries (step toStr ss op) n ! i') = snd (entries ss n ! i)
       \<or> snd (entries ss n ! i) = str ''Pending''"
      by simp_all
    then show "snd (entries (run toStr ss (op # ops)) n ! j) = snd (entries ss n ! i)
               \<or> snd (entries ss n ! i) = str ''Pending''"
      by (auto simp: run_Cons)
  qed
qed

text \<open>
  Claim C2, as the script has it. Over every sequence of submissions, decisions,
  edits, check-ins and deletions, and in every sheet:
  each operation of the sequence changes the request-id and status columns only as
  \<open>statusStep\<close> allows, so a decision is the only operation that gives a row a status
  other than \<open>Pending\<close> and it does so only to a row that is \<open>Pending\<close>, a check-in
  changes no status, a deletion only removes a row, a submission only appends a
  \<open>Pending\<close> row, and an edit sets the row of its request to \<open>Pending\<close> whatever its
  status was;
  in a sequence with no edit and no deletion every row keeps its place, and a row whose
  status is not \<open>Pending\<close> keeps its status;
  and in any sequence a row that is not deleted keeps its request id, and, when the
  sequence has no edit, keeps its status unless it was \<open>Pending\<close> at the start.
\<close>

theorem status_transitions:
  "(k < length ops \<longrightarrow>
      statusStep (ops ! k) (entries (run toStr ss (take k ops)) n)
        (entries (run toStr ss (take (Suc k) ops)) n))
   \<and> ((\<forall>op\<in>set ops. \<not> isResubmit op \<and> \<not> isDelete op) \<longrightarrow>
        unchangedOrWasPending (statuses ss n) (statuses (run toStr ss ops) n))
   \<and> (i < length (entries ss n) \<and> track toStr ss ops n i = Some j \<longrightarrow>
        j < length (entries (run toStr ss ops) n)
        \<and> fst (entries (run toStr ss ops) n ! j) = fst (entries ss n ! i)
        \<and> ((\<forall>op\<in>set ops. \<not> isResubmit op) \<longrightarrow>
              snd (entries (run toStr ss ops) n ! j) = snd (entries ss n ! i)
              \<or> snd (entries ss n ! i) = str ''Pending''))"
  using run_statusStep[of k ops toStr ss n] run_uwp[of ops ss n toStr]
    track_entries[of i ss n toStr ops j]
  by blast

lemma ledger1_entries:
  "entries ledger1 PERMISSION_SHEET_NAME
     = [(str ''REQ-1'', str ''Pending''), (str ''REQ-2'', str ''Approved'')]"
  by (simp add: entries_def ledger1_def getSheetByName_def pendingRow_def approvedRow_def)

lemma ledger1_decided:
  "snd (updateRequestStatus 5 ledger1 (str ''REQ-1'') (str ''Approved'') (str ''Admin'') [])
     = setRow ledger1 (PERMISSION_SHEET_NAME, 0)
         (\<lambda>r. r\<lparr>status := str ''Approved'', approver := str ''Admin'',
                 approvalTimestamp := Some 5\<rparr>)"
proof -
  have ne: "str ''REQ-1'' \<noteq> []" "str ''Approved'' \<noteq> []" "str ''Admin'' \<noteq> []"
    by (simp_all add: str_def)
  have f1: "findRequestRow ledger1 (str ''REQ-1'') = Some (PERMISSION_SHEET_NAME, 0)"
    by (simp add: findRequestRow_def ALL_LEAVE_SHEETS_def ledger1_def getSheetByName_def
        pendingRow_def)
  have r1: "getRow ledger1 (PERMISSION_SHEET_NAME, 0) = pendingRow"
    by (simp add: getRow_def ledger1_def getSheetByName_def)
  have s1: "status pendingRow = str ''Pending''" by (simp add: pendingRow_def)
  show ?thesis using ne by (simp add: updateRequestStatus_def f1 r1 s1 Let_def)
qed

lemma ledger1_decided_find:
  "findRequestRow (snd (updateRequestStatus 5 ledger1 (str ''REQ-1'') (str ''Approved'')
      (str ''Admin'') [])) (str ''REQ-1'') = Some (PERMISSION_SHEET_NAME, 0)"
  by (simp add: ledger1_decided findRequestRow_setRow)
    (simp add: findRequestRow_def ALL_LEAVE_SHEETS_def ledger1_def getSheetByName_def
        pendingRow_def)

lemma ledger1_decided_entries:
  "entries (snd (updateRequestStatus 5 ledger1 (str ''REQ-1'') (str ''Approved'')
      (str ''Admin'') [])) PERMISSION_SHEET_NAME
     = [(str ''REQ-1'', str ''Approved''), (str ''REQ-2'', str ''Approved'')]"
proof -
  have g: "getSheetByName ledger1 PERMISSION_SHEET_NAME = Some [pendingRow, approvedRow]"
    by (simp add: ledger1_def getSheetByName_def)
  show ?thesis
    by (simp add: ledger1_decided entries_setRow[OF g] ledger1_entries) (simp add: pendingRow_def)
qed

lemma ledger1_deleted_entries:
  "entries (snd (deleteLeaveRequest (snd (updateRequestStatus 5 ledger1 (str ''REQ-1'')
      (str ''Approved'') (str ''Admin'') [])) (str ''REQ-1''))) PERMISSION_SHEET_NAME
     = [(str ''REQ-2'', str ''Approved'')]"
proof -
  have ne: "str ''REQ-1'' \<noteq> []" by (simp add: str_def)
  show ?thesis
    by (simp add: delete_entries_found[OF ne ledger1_decided_find] ledger1_decided_entries)
qed

lemma ledger1_ops1_statuses:
  "statuses (run toStr ledger1 ops1) PERMISSION_SHEET_NAME = [str ''Approved'', str ''Approved'']"
  by (simp add: run_def ops1_def statuses_entries adminCheckIn_entries ledger1_decided_entries)

text \<open>
  C2 as corrected, on a decision, the deletion of the decided request and an admin
  check-in: the second row, \<open>Approved\<close>, moves up to the first place and keeps its id and
  status.
\<close>

theorem status_transitions_witness:
  "entries ledger1 PERMISSION_SHEET_NAME
     = [(str ''REQ-1'', str ''Pending''), (str ''REQ-2'', str ''Approved'')]
   \<and> track printCoord ledger1 ops2 PERMISSION_SHEET_NAME 1 = Some 0
   \<and> entries (run printCoord ledger1 ops2) PERMISSION_SHEET_NAME
       = [(str ''REQ-2'', str ''Approved'')]
   \<and> statusStep (Delete (str ''REQ-1''))
       [(str ''REQ-1'', str ''Approved''), (str ''REQ-2'', str ''Approved'')]
       [(str ''REQ-2'', str ''Approved'')]
   \<and> unchangedOrWasPending [str ''Pending'', str ''Approved''] [str ''Approved'', str ''Approved'']"
proof -
  have ne: "str ''REQ-1'' \<noteq> []" by (simp add: str_def)
  have t: "track printCoord ledger1 ops2 PERMISSION_SHEET_NAME 1 = Some 0"
    using ne by (simp add: ops2_def ledger1_decided_find)
  have e: "entries (run printCoord ledger1 ops2) PERMISSION_SHEET_NAME
             = [(str ''REQ-2'', str ''Approved'')]"
    by (simp add: run_def ops2_def adminCheckIn_entries ledger1_deleted_entries)
  have k: "take (Suc 0) ops2 = [Decide 5 (str ''REQ-1'') (str ''Approved'') (str ''Admin'') []]"
    "take (Suc (Suc 0)) ops2 = [Decide 5 (str ''REQ-1'') (str ''Approved'') (str ''Admin'') [],
           Delete (str ''REQ-1'')]"
    "ops2 ! Suc 0 = Delete (str ''REQ-1'')" "Suc 0 < length ops2"
    by (simp_all add: ops2_def)
  have s: "statusStep (Delete (str ''REQ-1''))
       [(str ''REQ-1'', str ''Approved''), (str ''REQ-2'', str ''Approved'')]
       [(str ''REQ-2'', str ''Approved'')]"
    using status_transitions[of "Suc 0" ops2 printCoord ledger1 PERMISSION_SHEET_NAME 1 0] k(4)
    by (simp only: k run_def foldl.simps step.simps ledger1_decided_entries
        ledger1_deleted_entries)
  have u: "unchangedOrWasPending [str ''Pending'', str ''Approved''] [str ''Approved'', str ''Approved'']"
    using status_transitions[of 0 ops1 printCoord ledger1 PERMISSION_SHEET_NAME 0 0]
    by (simp add: ledger1_statuses ledger1_ops1_statuses) (simp add: ops1_def)
  show ?thesis using ledger1_entries t e s u by simp
qed

text \<open>
  Claim C2 as stated fails: an edit of an \<open>Approved\<close> request moves it to \<open>Pending\<close>.
\<close>

theorem resubmit_reopens_counterexample:
  "entries ledger1 PERMISSION_SHEET_NAME
     = [(str ''REQ-1'', str ''Pending''), (str ''REQ-2'', str ''Approved'')]
   \<and> entries (run printCoord ledger1 [Resubmit uploads1 edit2]) PERMISSION_SHEET_NAME
       = [(str ''REQ-1'', str ''Pending''), (str ''REQ-2'', str ''Pending'')]
   \<and> str ''Approved'' \<noteq> str ''Pending''"
proof -
  have ne: "str ''REQ-2'' \<noteq> []" "str ''REQ-1'' \<noteq> str ''REQ-2''" "str ''Approved'' \<noteq> str ''Pending''"
    by (simp_all add: str_def)
  have f2: "findRequestRow ledger1 (str ''REQ-2'') = Some (PERMISSION_SHEET_NAME, Suc 0)"
    using ne
    by (simp add: findRequestRow_def ALL_LEAVE_SHEETS_def ledger1_def getSheetByName_def
        pendingRow_def approvedRow_def)
  have g: "getSheetByName ledger1 PERMISSION_SHEET_NAME = Some [pendingRow, approvedRow]"
    by (simp add: ledger1_def getSheetByName_def)
  have r2: "requestId approvedRow = str ''REQ-2''" by (simp add: approvedRow_def)
  show ?thesis
    using ne
    by (simp add: ledger1_entries run_def updateLeaveRequest_def edit2_def edit1_def f2 Let_def
        entries_setRow[OF g] r2)
qed

section \<open>The escalation scanner\<close>

lemma clock_same_day: "clock (clock t 0 0) h m = clock t h m"
proof -
  have "(t - t mod msPerDay) mod msPerDay = 0"
    by (simp add: minus_mod_self2) 
  then show ?thesis by (simp add: clock_def)
qed

lemma setHours_setHours0: "setHours h m (setHours 0 0 d) = setHours h m d"
  by (cases d) (simp_all add: setHours_def clock_same_day)

lemma clock_next_day: "clock (clock t 0 0 + msPerDay) h m = clock t h m + msPerDay"
proof -
  have "(t - t mod msPerDay + msPerDay) mod msPerDay = 0"
    by (simp add: minus_mod_self2)
  then show ?thesis by (simp add: clock_def)
qed

lemma scanRows_length: "length (snd (scanRows now k rows)) = length rows"
  by (induction rows arbitrary: k) (auto split: option.splits)

lemma scanRows_nth:
  "j < length rows \<Longrightarrow>
   snd (scanRows now k rows) ! j =
     (case escalationFor now (rows ! j) of
        None \<Rightarrow> rows ! j
      | Some t \<Rightarrow> (rows ! j)\<lparr>notificationSent := tierMark t\<rparr>)"
proof (induction rows arbitrary: k j)
  case Nil
  then show ?case by simp
next
  case (Cons row rest)
  show ?case
  proof (cases j)
    case 0
    then show ?thesis by (simp split: option.splits)
  next
    case (Suc j')
    with Cons.prems have "j' < length rest" by simp
    from Cons.IH[OF this, of "Suc k"] Suc show ?thesis by (simp split: option.splits)
  qed
qed

lemma scanRows_below: "e \<in> set (fst (scanRows now k rows)) \<Longrightarrow> k \<le> fst e"
proof (induction rows arbitrary: k)
  case Nil
  then show ?case by simp
next
  case (Cons row rest)
  then show ?case
    by (cases "escalationFor now row") (fastforce dest: Cons.IH)+
qed

lemma emittedFor_below:
  "i < k \<Longrightarrow> emittedFor i (fst (scanRows now k rows)) = []"
  unfolding emittedFor_def
  by (auto simp: filter_empty_conv dest: scanRows_below)

lemma scanRows_emitted:
  "j < length rows \<Longrightarrow>
   emittedFor (k + j) (fst (scanRows now k rows)) =
     (case escalationFor now (rows ! j) of None \<Rightarrow> [] | Some t \<Rightarrow> [(k + j, t)])"
proof (induction rows arbitrary: k j)
  case Nil
  then show ?case by simp
next
  case (Cons row rest)
  show ?case
  proof (cases j)
    case 0
    have "emittedFor k (fst (scanRows now (Suc k) rest)) = []"
      by (rule emittedFor_below) simp
    then show ?thesis using 0
      by (cases "escalationFor now row") (simp_all add: emittedFor_def)
  next
    case (Suc j')
    with Cons.prems have "j' < length rest" by simp
    from Cons.IH[OF this, of "Suc k"] Suc show ?thesis
      by (cases "escalationFor now row") (simp_all add: emittedFor_def split: option.splits)
  qed
qed

lemma scan_row:
  assumes "getSheetByName ss PERMISSION_SHEET_NAME = Some rows" and "i < length rows"
  shows "emittedFor i (fst (checkForOverdueCheckIns now ss)) =
           (case escalationFor now (rows ! i) of None \<Rightarrow> [] | Some t \<Rightarrow> [(i, t)])"
    and "getRow (snd (checkForOverdueCheckIns now ss)) (PERMISSION_SHEET_NAME, i) =
           (case escalationFor now (rows ! i) of
              None \<Rightarrow> rows ! i
            | Some t \<Rightarrow> (rows ! i)\<lparr>notificationSent := tierMark t\<rparr>)"
proof -
  from assms have ne: "rows \<noteq> []" by auto
  show "emittedFor i (fst (checkForOverdueCheckIns now ss)) =
           (case escalationFor now (rows ! i) of None \<Rightarrow> [] | Some t \<Rightarrow> [(i, t)])"
    using assms ne scanRows_emitted[of i rows 0 now]
    by (simp add: checkForOverdueCheckIns_def split: option.splits)
  show "getRow (snd (checkForOverdueCheckIns now ss)) (PERMISSION_SHEET_NAME, i) =
           (case escalationFor now (rows ! i) of
              None \<Rightarrow> rows ! i
            | Some t \<Rightarrow> (rows ! i)\<lparr>notificationSent := tierMark t\<rparr>)"
    using assms ne scanRows_nth[of i rows now 0]
    by (simp add: checkForOverdueCheckIns_def getRow_def getSheetByName_update)
qed

lemma newNotificationStatus_invalid:
  "startDate row = None \<Longrightarrow> newNotificationStatus now row = None"
  by (simp add: newNotificationStatus_def Let_def setHours_def addDay_def)

lemma newNotificationStatus_full:
  assumes "\<not> isHalfDay (getNumericDayValue (days row))" and "startDate row = Some d"
  shows "newNotificationStatus now row =
     (if clock d 5 0 + msPerDay < now \<and> notificationSent row \<noteq> str ''OverdueDay''
        then Some OverdueDay
      else if clock d 18 0 < now \<and> now < clock d 5 0 + msPerDay \<and> notificationSent row = []
        then Some OverdueTime
      else None)"
  using assms
  by (simp add: newNotificationStatus_def Let_def setHours_def addDay_def clock_same_day
      clock_next_day)

lemma newNotificationStatus_half:
  assumes "isHalfDay (getNumericDayValue (days row))" and "startDate row = Some d"
  shows "newNotificationStatus now row =
     (case approvalTimestamp row of
        None \<Rightarrow> None
      | Some a \<Rightarrow>
          if a < clock d 8 31 then
            (if clock d 14 30 < now \<and> notificationSent row = str ''OverdueHalfDay_1''
               then Some OverdueHalfDay_2
             else if clock d 11 30 < now \<and> notificationSent row = []
               then Some OverdueHalfDay_1
             else None)
          else None)"
  using assms
  by (cases "approvalTimestamp row")
     (simp_all add: newNotificationStatus_def Let_def setHours_def clock_same_day)

lemma escalationFor_awaiting:
  "status row = str ''Approved'' \<Longrightarrow> checkInTimestamp row = None \<Longrightarrow>
   escalationFor now row = newNotificationStatus now row"
  by (simp add: escalationFor_def)

lemma mark_distinct:
  "str ''OverdueHalfDay_1'' \<noteq> []" "str ''OverdueHalfDay_2'' \<noteq> []"
  "str ''OverdueTime'' \<noteq> []" "str ''OverdueDay'' \<noteq> []"
  "str ''OverdueHalfDay_2'' \<noteq> str ''OverdueHalfDay_1''"
  "str ''OverdueTime'' \<noteq> str ''OverdueDay''"
  "str ''OverdueHalfDay_2'' \<noteq> str ''OverdueDay''"
  "str ''OverdueHalfDay_1'' \<noteq> str ''OverdueDay''"
  "str ''OverdueDay'' \<noteq> str ''OverdueHalfDay_1''"
  by (simp_all add: str_def)

lemma check_eval:
  "rows \<noteq> [] \<Longrightarrow>
   checkForOverdueCheckIns now
     [(PERMISSION_SHEET_NAME, rows), (LEAVE_SHEET_NAME, l), (HOME_LEAVE_SHEET_NAME, h)]
   = (fst (scanRows now 0 rows),
      [(PERMISSION_SHEET_NAME, snd (scanRows now 0 rows)), (LEAVE_SHEET_NAME, l),
       (HOME_LEAVE_SHEET_NAME, h)])"
  by (simp add: checkForOverdueCheckIns_def getSheetByName_def)

lemma clock_day0: "clock (day0 + t) h m = day0 + (t - t mod msPerDay) + h * 3600000 + m * 60000"
proof -
  have "day0 mod msPerDay = 0" by (simp add: day0_def msPerDay_def)
  then have "(day0 + t) mod msPerDay = t mod msPerDay"
    by (metis add.commute add.right_neutral mod_add_left_eq)
  then show ?thesis by (simp add: clock_def)
qed

lemma approvedRow_fields:
  "status approvedRow = str ''Approved''" "checkInTimestamp approvedRow = None"
  "days approvedRow = Num (Fin 1)" "startDate approvedRow = Some day0"
  "notificationSent approvedRow = []" "approvalTimestamp approvedRow = Some (day0 + 9 * 3600000)"
  by (simp_all add: approvedRow_def pendingRow_def blankRow_def)

lemma fullDay_example: "\<not> isHalfDay (getNumericDayValue (Num (Fin 1)))"
  by (simp add: getNumericDayValue_Num)

lemma halfDay_example: "isHalfDay (getNumericDayValue (Str TOKEN_MORNING))"
  by (simp add: getNumericDayValue_token)

lemma escalation_fullDay_example:
  "escalationFor (day0 + 68400000) approvedRow = Some OverdueTime"
  "escalationFor (day0 + 70200000) (approvedRow\<lparr>notificationSent := str ''OverdueTime''\<rparr>) = None"
  "escalationFor (day0 + 108000000) (approvedRow\<lparr>notificationSent := str ''OverdueTime''\<rparr>)
     = Some OverdueDay"
  "escalationFor (day0 + 111600000) (approvedRow\<lparr>notificationSent := str ''OverdueDay''\<rparr>) = None"
  "escalationFor (day0 + 108000000) staleMarkRow = Some OverdueDay"
  using mark_distinct
  by (simp_all add: escalationFor_def approvedRow_fields staleMarkRow_def fullDay_example
      newNotificationStatus_full[where d=day0] clock_day0[of 0, simplified] msPerDay_def)

lemma halfDayRow_fields:
  "status halfDayRow = str ''Approved''" "checkInTimestamp halfDayRow = None"
  "days halfDayRow = Str TOKEN_MORNING" "startDate halfDayRow = Some day0"
  "notificationSent halfDayRow = []" "approvalTimestamp halfDayRow = Some (day0 + 8 * 3600000)"
  "status lateHalfDayRow = str ''Approved''" "checkInTimestamp lateHalfDayRow = None"
  "days lateHalfDayRow = Str TOKEN_MORNING" "startDate lateHalfDayRow = Some day0"
  "notificationSent lateHalfDayRow = []"
  "approvalTimestamp lateHalfDayRow = Some (day0 + 9 * 3600000)"
  by (simp_all add: halfDayRow_def lateHalfDayRow_def approvedRow_fields)

lemma escalation_halfDay_example:
  "escalationFor (day0 + 42300000) halfDayRow = Some OverdueHalfDay_1"
  "escalationFor (day0 + 42300000) lateHalfDayRow = None"
  "escalationFor (day0 + 53100000) (halfDayRow\<lparr>notificationSent := str ''OverdueHalfDay_1''\<rparr>)
     = Some OverdueHalfDay_2"
  "escalationFor (day0 + 53100000) lateHalfDayRow = None"
  using mark_distinct
  by (simp_all add: escalationFor_def halfDayRow_fields halfDay_example
      newNotificationStatus_half[where d=day0] clock_day0[of 0, simplified] msPerDay_def)

text \<open>
  Claim C9. For a row of the permission sheet that is approved, not checked in and of
  half-day duration (\<^verbatim>\<open>numericDays == 0.5\<close>): a run of the scanner sends a
  notification for the row only if the approval time stamp is earlier than 08:31 on the
  start date; when it is, a run later than 11:30 on the start date with no mark yet sends
  exactly one \<open>OverdueHalfDay_1\<close> notification and writes that mark, and a run later than
  14:30 with the mark \<open>OverdueHalfDay_1\<close> sends exactly one \<open>OverdueHalfDay_2\<close>
  notification and writes that mark.
\<close>

theorem halfDay_escalation:
  "getSheetByName ss PERMISSION_SHEET_NAME = Some rows \<and> i < length rows
   \<and> status (rows ! i) = str ''Approved'' \<and> checkInTimestamp (rows ! i) = None
   \<and> isHalfDay (getNumericDayValue (days (rows ! i)))
   \<longrightarrow>
     (emittedFor i (fst (checkForOverdueCheckIns now ss)) \<noteq> [] \<longrightarrow>
        (\<exists>d a. startDate (rows ! i) = Some d \<and> approvalTimestamp (rows ! i) = Some a
               \<and> a < clock d 8 31))
   \<and> (startDate (rows ! i) = Some d \<and> approvalTimestamp (rows ! i) = Some a \<and> a < clock d 8 31
         \<and> clock d 11 30 < now \<and> notificationSent (rows ! i) = [] \<longrightarrow>
        emittedFor i (fst (checkForOverdueCheckIns now ss)) = [(i, OverdueHalfDay_1)]
        \<and> notificationSent (getRow (snd (checkForOverdueCheckIns now ss)) (PERMISSION_SHEET_NAME, i))
            = str ''OverdueHalfDay_1'')
   \<and> (startDate (rows ! i) = Some d \<and> approvalTimestamp (rows ! i) = Some a \<and> a < clock d 8 31
         \<and> clock d 14 30 < now \<and> notificationSent (rows ! i) = str ''OverdueHalfDay_1'' \<longrightarrow>
        emittedFor i (fst (checkForOverdueCheckIns now ss)) = [(i, OverdueHalfDay_2)]
        \<and> notificationSent (getRow (snd (checkForOverdueCheckIns now ss)) (PERMISSION_SHEET_NAME, i))
            = str ''OverdueHalfDay_2'')"
proof (intro impI)
  assume a: "getSheetByName ss PERMISSION_SHEET_NAME = Some rows \<and> i < length rows
   \<and> status (rows ! i) = str ''Approved'' \<and> checkInTimestamp (rows ! i) = None
   \<and> isHalfDay (getNumericDayValue (days (rows ! i)))"
  then have sheet: "getSheetByName ss PERMISSION_SHEET_NAME = Some rows" and i: "i < length rows"
    and half: "isHalfDay (getNumericDayValue (days (rows ! i)))"
    by simp_all
  have esc: "escalationFor now (rows ! i) = newNotificationStatus now (rows ! i)"
    using a by (simp add: escalationFor_awaiting)
  note em = scan_row(1)[OF sheet i, of now, unfolded esc]
  note rw = scan_row(2)[OF sheet i, of now, unfolded esc]
  have 1: "emittedFor i (fst (checkForOverdueCheckIns now ss)) \<noteq> [] \<longrightarrow>
        (\<exists>d a. startDate (rows ! i) = Some d \<and> approvalTimestamp (rows ! i) = Some a
               \<and> a < clock d 8 31)"
  proof (cases "startDate (rows ! i)")
    case None
    then show ?thesis by (simp add: em newNotificationStatus_invalid)
  next
    case (Some d')
    show ?thesis
      by (cases "approvalTimestamp (rows ! i)")
         (simp_all add: em newNotificationStatus_half[OF half Some] Some)
  qed
  have 2: "startDate (rows ! i) = Some d \<and> approvalTimestamp (rows ! i) = Some a \<and> a < clock d 8 31
         \<and> clock d 11 30 < now \<and> notificationSent (rows ! i) = [] \<longrightarrow>
        emittedFor i (fst (checkForOverdueCheckIns now ss)) = [(i, OverdueHalfDay_1)]
        \<and> notificationSent (getRow (snd (checkForOverdueCheckIns now ss)) (PERMISSION_SHEET_NAME, i))
            = str ''OverdueHalfDay_1''"
  proof
    assume b: "startDate (rows ! i) = Some d \<and> approvalTimestamp (rows ! i) = Some a \<and> a < clock d 8 31
         \<and> clock d 11 30 < now \<and> notificationSent (rows ! i) = []"
    then have d: "startDate (rows ! i) = Some d" by simp
    have "newNotificationStatus now (rows ! i) = Some OverdueHalfDay_1"
      using b mark_distinct by (simp add: newNotificationStatus_half[OF half d])
    then show "emittedFor i (fst (checkForOverdueCheckIns now ss)) = [(i, OverdueHalfDay_1)]
        \<and> notificationSent (getRow (snd (checkForOverdueCheckIns now ss)) (PERMISSION_SHEET_NAME, i))
            = str ''OverdueHalfDay_1''"
      by (simp add: em rw)
  qed
  have 3: "startDate (rows ! i) = Some d \<and> approvalTimestamp (rows ! i) = Some a \<and> a < clock d 8 31
         \<and> clock d 14 30 < now \<and> notificationSent (rows ! i) = str ''OverdueHalfDay_1'' \<longrightarrow>
        emittedFor i (fst (checkForOverdueCheckIns now ss)) = [(i, OverdueHalfDay_2)]
        \<and> notificationSent (getRow (snd (checkForOverdueCheckIns now ss)) (PERMISSION_SHEET_NAME, i))
            = str ''OverdueHalfDay_2''"
  proof
    assume b: "startDate (rows ! i) = Some d \<and> approvalTimestamp (rows ! i) = Some a \<and> a < clock d 8 31
         \<and> clock d 14 30 < now \<and> notificationSent (rows ! i) = str ''OverdueHalfDay_1''"
    then have d: "startDate (rows ! i) = Some d" by simp
    have "newNotificationStatus now (rows ! i) = Some OverdueHalfDay_2"
      using b by (simp add: newNotificationStatus_half[OF half d])
    then show "emittedFor i (fst (checkForOverdueCheckIns now ss)) = [(i, OverdueHalfDay_2)]
        \<and> notificationSent (getRow (snd (checkForOverdueCheckIns now ss)) (PERMISSION_SHEET_NAME, i))
            = str ''OverdueHalfDay_2''"
      by (simp add: em rw)
  qed
  from 1 2 3 show "(emittedFor i (fst (checkForOverdueCheckIns now ss)) \<noteq> [] \<longrightarrow>
        (\<exists>d a. startDate (rows ! i) = Some d \<and> approvalTimestamp (rows ! i) = Some a
               \<and> a < clock d 8 31))
   \<and> (startDate (rows ! i) = Some d \<and> approvalTimestamp (rows ! i) = Some a \<and> a < clock d 8 31
         \<and> clock d 11 30 < now \<and> notificationSent (rows ! i) = [] \<longrightarrow>
        emittedFor i (fst (checkForOverdueCheckIns now ss)) = [(i, OverdueHalfDay_1)]
        \<and> notificationSent (getRow (snd (checkForOverdueCheckIns now ss)) (PERMISSION_SHEET_NAME, i))
            = str ''OverdueHalfDay_1'')
   \<and> (startDate (rows ! i) = Some d \<and> approvalTimestamp (rows ! i) = Some a \<and> a < clock d 8 31
         \<and> clock d 14 30 < now \<and> notificationSent (rows ! i) = str ''OverdueHalfDay_1'' \<longrightarrow>
        emittedFor i (fst (checkForOverdueCheckIns now ss)) = [(i, OverdueHalfDay_2)]
        \<and> notificationSent (getRow (snd (checkForOverdueCheckIns now ss)) (PERMISSION_SHEET_NAME, i))
            = str ''OverdueHalfDay_2'')"
    by blast
qed

text \<open>
  C9 on two half-day rows, one approved at 08:00 and one at 09:00 of the start date:
  runs at 11:45 and at 14:45.
\<close>

theorem halfDay_escalation_witness:
  "emittedFor 0 (fst (checkForOverdueCheckIns (day0 + 42300000) ledgerH)) = [(0, OverdueHalfDay_1)]
   \<and> notificationSent (getRow (snd (checkForOverdueCheckIns (day0 + 42300000) ledgerH))
         (PERMISSION_SHEET_NAME, 0)) = str ''OverdueHalfDay_1''
   \<and> emittedFor (Suc 0) (fst (checkForOverdueCheckIns (day0 + 42300000) ledgerH)) = []
   \<and> fst (checkForOverdueCheckIns (day0 + 53100000)
         (snd (checkForOverdueCheckIns (day0 + 42300000) ledgerH))) = [(0, OverdueHalfDay_2)]"
proof -
  have sheet: "getSheetByName ledgerH PERMISSION_SHEET_NAME = Some [halfDayRow, lateHalfDayRow]"
    by (simp add: ledgerH_def getSheetByName_def)
  have times: "day0 + 8 * 3600000 < clock day0 8 31" "clock day0 11 30 < day0 + 42300000"
    "\<not> day0 + 9 * 3600000 < clock day0 8 31"
    by (simp_all add: clock_day0[of 0, simplified] msPerDay_def)
  have first: "emittedFor 0 (fst (checkForOverdueCheckIns (day0 + 42300000) ledgerH))
       = [(0, OverdueHalfDay_1)]
     \<and> notificationSent (getRow (snd (checkForOverdueCheckIns (day0 + 42300000) ledgerH))
         (PERMISSION_SHEET_NAME, 0)) = str ''OverdueHalfDay_1''"
    using halfDay_escalation[where ss=ledgerH and rows="[halfDayRow, lateHalfDayRow]" and i=0
        and d=day0 and a="day0 + 8 * 3600000" and now="day0 + 42300000"] sheet times
    by (simp add: halfDayRow_fields halfDay_example)
  have late: "emittedFor (Suc 0) (fst (checkForOverdueCheckIns (day0 + 42300000) ledgerH)) = []"
    using halfDay_escalation[where ss=ledgerH and rows="[halfDayRow, lateHalfDayRow]" and i="Suc 0"
        and now="day0 + 42300000"] sheet times
    by (auto simp: halfDayRow_fields halfDay_example)
  have r1: "checkForOverdueCheckIns (day0 + 42300000) ledgerH
      = ([(0, OverdueHalfDay_1)],
         [(PERMISSION_SHEET_NAME,
           [halfDayRow\<lparr>notificationSent := str ''OverdueHalfDay_1''\<rparr>, lateHalfDayRow]),
          (LEAVE_SHEET_NAME, []), (HOME_LEAVE_SHEET_NAME, [])])"
    by (simp add: ledgerH_def check_eval escalation_halfDay_example)
  have r2: "fst (checkForOverdueCheckIns (day0 + 53100000)
         [(PERMISSION_SHEET_NAME,
           [halfDayRow\<lparr>notificationSent := str ''OverdueHalfDay_1''\<rparr>, lateHalfDayRow]),
          (LEAVE_SHEET_NAME, []), (HOME_LEAVE_SHEET_NAME, [])])
      = [(0, OverdueHalfDay_2)]"
    by (simp add: check_eval escalation_halfDay_example)
  from first late show ?thesis by (simp add: r1 r2)
qed

text \<open>
  Claim C3, as the script has it. For a row of the permission sheet that is approved and
  not checked in: if its duration is not half a day, a run later than 18:00 on the start
  date and before 05:00 of the next day, with no mark yet, sends exactly one
  \<open>OverdueTime\<close> notification and writes that mark; a run up to 05:00 of the next day
  with the mark \<open>OverdueTime\<close> sends nothing and leaves the row as it is; a run later
  than 05:00 of the next day with any mark other than \<open>OverdueDay\<close> sends exactly one
  \<open>OverdueDay\<close> notification and writes that mark. Once the mark is \<open>OverdueDay\<close> no
  run sends anything for the row, whatever its duration. Once the mark is
  \<open>OverdueHalfDay_2\<close> no run sends anything for the row as long as its duration is half
  a day. \<open>OverdueTime\<close> is only ever sent for a row with no mark.
\<close>

theorem fullDay_escalation:
  "getSheetByName ss PERMISSION_SHEET_NAME = Some rows \<and> i < length rows
   \<and> status (rows ! i) = str ''Approved'' \<and> checkInTimestamp (rows ! i) = None
   \<longrightarrow>
     (\<not> isHalfDay (getNumericDayValue (days (rows ! i))) \<and> startDate (rows ! i) = Some d
        \<and> clock d 18 0 < now \<and> now < clock d 5 0 + msPerDay \<and> notificationSent (rows ! i) = [] \<longrightarrow>
        emittedFor i (fst (checkForOverdueCheckIns now ss)) = [(i, OverdueTime)]
        \<and> notificationSent (getRow (snd (checkForOverdueCheckIns now ss)) (PERMISSION_SHEET_NAME, i))
            = str ''OverdueTime'')
   \<and> (\<not> isHalfDay (getNumericDayValue (days (rows ! i))) \<and> startDate (rows ! i) = Some d
        \<and> now \<le> clock d 5 0 + msPerDay \<and> notificationSent (rows ! i) = str ''OverdueTime'' \<longrightarrow>
        emittedFor i (fst (checkForOverdueCheckIns now ss)) = []
        \<and> getRow (snd (checkForOverdueCheckIns now ss)) (PERMISSION_SHEET_NAME, i) = rows ! i)
   \<and> (\<not> isHalfDay (getNumericDayValue (days (rows ! i))) \<and> startDate (rows ! i) = Some d
        \<and> clock d 5 0 + msPerDay < now \<and> notificationSent (rows ! i) \<noteq> str ''OverdueDay'' \<longrightarrow>
        emittedFor i (fst (checkForOverdueCheckIns now ss)) = [(i, OverdueDay)]
        \<and> notificationSent (getRow (snd (checkForOverdueCheckIns now ss)) (PERMISSION_SHEET_NAME, i))
            = str ''OverdueDay'')
   \<and> (notificationSent (rows ! i) = str ''OverdueDay'' \<longrightarrow>
        emittedFor i (fst (checkForOverdueCheckIns now ss)) = []
        \<and> getRow (snd (checkForOverdueCheckIns now ss)) (PERMISSION_SHEET_NAME, i) = rows ! i)
   \<and> (isHalfDay (getNumericDayValue (days (rows ! i)))
        \<and> notificationSent (rows ! i) = str ''OverdueHalfDay_2'' \<longrightarrow>
        emittedFor i (fst (checkForOverdueCheckIns now ss)) = []
        \<and> getRow (snd (checkForOverdueCheckIns now ss)) (PERMISSION_SHEET_NAME, i) = rows ! i)
   \<and> ((i, OverdueTime) \<in> set (fst (checkForOverdueCheckIns now ss)) \<longrightarrow>
        notificationSent (rows ! i) = [])"
proof (intro impI)
  assume a: "getSheetByName ss PERMISSION_SHEET_NAME = Some rows \<and> i < length rows
   \<and> status (rows ! i) = str ''Approved'' \<and> checkInTimestamp (rows ! i) = None"
  then have sheet: "getSheetByName ss PERMISSION_SHEET_NAME = Some rows" and i: "i < length rows"
    by simp_all
  have esc: "escalationFor now (rows ! i) = newNotificationStatus now (rows ! i)"
    using a by (simp add: escalationFor_awaiting)
  note em = scan_row(1)[OF sheet i, of now, unfolded esc]
  note rw = scan_row(2)[OF sheet i, of now, unfolded esc]
  let ?row = "rows ! i"
  have none_case: "newNotificationStatus now ?row = None \<Longrightarrow>
      emittedFor i (fst (checkForOverdueCheckIns now ss)) = []
      \<and> getRow (snd (checkForOverdueCheckIns now ss)) (PERMISSION_SHEET_NAME, i) = ?row"
    by (simp add: em rw)
  have some_case: "newNotificationStatus now ?row = Some t \<Longrightarrow>
      emittedFor i (fst (checkForOverdueCheckIns now ss)) = [(i, t)]
      \<and> notificationSent (getRow (snd (checkForOverdueCheckIns now ss)) (PERMISSION_SHEET_NAME, i))
          = tierMark t" for t
    by (simp add: em rw)
  have 1: "\<not> isHalfDay (getNumericDayValue (days ?row)) \<and> startDate ?row = Some d
        \<and> clock d 18 0 < now \<and> now < clock d 5 0 + msPerDay \<and> notificationSent ?row = [] \<longrightarrow>
        emittedFor i (fst (checkForOverdueCheckIns now ss)) = [(i, OverdueTime)]
        \<and> notificationSent (getRow (snd (checkForOverdueCheckIns now ss)) (PERMISSION_SHEET_NAME, i))
            = str ''OverdueTime''"
  proof
    assume b: "\<not> isHalfDay (getNumericDayValue (days ?row)) \<and> startDate ?row = Some d
        \<and> clock d 18 0 < now \<and> now < clock d 5 0 + msPerDay \<and> notificationSent ?row = []"
    then have "newNotificationStatus now ?row = Some OverdueTime"
      by (simp add: newNotificationStatus_full)
    from some_case[OF this] show "emittedFor i (fst (checkForOverdueCheckIns now ss)) = [(i, OverdueTime)]
        \<and> notificationSent (getRow (snd (checkForOverdueCheckIns now ss)) (PERMISSION_SHEET_NAME, i))
            = str ''OverdueTime''" by simp
  qed
  have 2: "\<not> isHalfDay (getNumericDayValue (days ?row)) \<and> startDate ?row = Some d
        \<and> now \<le> clock d 5 0 + msPerDay \<and> notificationSent ?row = str ''OverdueTime'' \<longrightarrow>
        emittedFor i (fst (checkForOverdueCheckIns now ss)) = []
        \<and> getRow (snd (checkForOverdueCheckIns now ss)) (PERMISSION_SHEET_NAME, i) = ?row"
  proof
    assume b: "\<not> isHalfDay (getNumericDayValue (days ?row)) \<and> startDate ?row = Some d
        \<and> now \<le> clock d 5 0 + msPerDay \<and> notificationSent ?row = str ''OverdueTime''"
    then have "newNotificationStatus now ?row = None"
      using mark_distinct by (simp add: newNotificationStatus_full)
    from none_case[OF this] show "emittedFor i (fst (checkForOverdueCheckIns now ss)) = []
        \<and> getRow (snd (checkForOverdueCheckIns now ss)) (PERMISSION_SHEET_NAME, i) = ?row" .
  qed
  have 3: "\<not> isHalfDay (getNumericDayValue (days ?row)) \<and> startDate ?row = Some d
        \<and> clock d 5 0 + msPerDay < now \<and> notificationSent ?row \<noteq> str ''OverdueDay'' \<longrightarrow>
        emittedFor i (fst (checkForOverdueCheckIns now ss)) = [(i, OverdueDay)]
        \<and> notificationSent (getRow (snd (checkForOverdueCheckIns now ss)) (PERMISSION_SHEET_NAME, i))
            = str ''OverdueDay''"
  proof
    assume b: "\<not> isHalfDay (getNumericDayValue (days ?row)) \<and> startDate ?row = Some d
        \<and> clock d 5 0 + msPerDay < now \<and> notificationSent ?row \<noteq> str ''OverdueDay''"
    then have "newNotificationStatus now ?row = Some OverdueDay"
      by (simp add: newNotificationStatus_full)
    from some_case[OF this] show "emittedFor i (fst (checkForOverdueCheckIns now ss)) = [(i, OverdueDay)]
        \<and> notificationSent (getRow (snd (checkForOverdueCheckIns now ss)) (PERMISSION_SHEET_NAME, i))
            = str ''OverdueDay''" by simp
  qed
  have 4: "notificationSent ?row = str ''OverdueDay'' \<longrightarrow>
        emittedFor i (fst (checkForOverdueCheckIns now ss)) = []
        \<and> getRow (snd (checkForOverdueCheckIns now ss)) (PERMISSION_SHEET_NAME, i) = ?row"
  proof
    assume b: "notificationSent ?row = str ''OverdueDay''"
    have "newNotificationStatus now ?row = None"
    proof (cases "startDate ?row")
      case None
      then show ?thesis by (rule newNotificationStatus_invalid)
    next
      case (Some d')
      show ?thesis
      proof (cases "isHalfDay (getNumericDayValue (days ?row))")
        case True
        show ?thesis using b mark_distinct
          by (cases "approvalTimestamp ?row")
             (simp_all add: newNotificationStatus_half[OF True Some])
      next
        case False
        show ?thesis using b mark_distinct
          by (simp add: newNotificationStatus_full[OF False Some])
      qed
    qed
    from none_case[OF this] show "emittedFor i (fst (checkForOverdueCheckIns now ss)) = []
        \<and> getRow (snd (checkForOverdueCheckIns now ss)) (PERMISSION_SHEET_NAME, i) = ?row" .
  qed
  have 5: "isHalfDay (getNumericDayValue (days ?row))
        \<and> notificationSent ?row = str ''OverdueHalfDay_2'' \<longrightarrow>
        emittedFor i (fst (checkForOverdueCheckIns now ss)) = []
        \<and> getRow (snd (checkForOverdueCheckIns now ss)) (PERMISSION_SHEET_NAME, i) = ?row"
  proof
    assume b: "isHalfDay (getNumericDayValue (days ?row))
        \<and> notificationSent ?row = str ''OverdueHalfDay_2''"
    then have half: "isHalfDay (getNumericDayValue (days ?row))" by simp
    have "newNotificationStatus now ?row = None"
    proof (cases "startDate ?row")
      case None
      then show ?thesis by (rule newNotificationStatus_invalid)
    next
      case (Some d')
      show ?thesis using b mark_distinct
        by (cases "approvalTimestamp ?row")
           (simp_all add: newNotificationStatus_half[OF half Some])
    qed
    from none_case[OF this] show "emittedFor i (fst (checkForOverdueCheckIns now ss)) = []
        \<and> getRow (snd (checkForOverdueCheckIns now ss)) (PERMISSION_SHEET_NAME, i) = ?row" .
  qed
  have 6: "(i, OverdueTime) \<in> set (fst (checkForOverdueCheckIns now ss)) \<longrightarrow>
        notificationSent ?row = []"
  proof
    assume "(i, OverdueTime) \<in> set (fst (checkForOverdueCheckIns now ss))"
    then have "(i, OverdueTime) \<in> set (emittedFor i (fst (checkForOverdueCheckIns now ss)))"
      by (simp add: emittedFor_def)
    then have t: "newNotificationStatus now ?row = Some OverdueTime"
      by (cases "newNotificationStatus now ?row") (simp_all add: em)
    show "notificationSent ?row = []"
    proof (cases "startDate ?row")
      case None
      with t show ?thesis by (simp add: newNotificationStatus_invalid)
    next
      case (Some d')
      show ?thesis
      proof (cases "isHalfDay (getNumericDayValue (days ?row))")
        case True
        show ?thesis using t
          by (cases "approvalTimestamp ?row")
             (simp_all add: newNotificationStatus_half[OF True Some] split: if_splits)
      next
        case False
        show ?thesis using t
          by (simp add: newNotificationStatus_full[OF False Some] split: if_splits)
      qed
    qed
  qed
  from 1 2 3 4 5 6 show "(\<not> isHalfDay (getNumericDayValue (days (rows ! i))) \<and> startDate (rows ! i) = Some d
        \<and> clock d 18 0 < now \<and> now < clock d 5 0 + msPerDay \<and> notificationSent (rows ! i) = [] \<longrightarrow>
        emittedFor i (fst (checkForOverdueCheckIns now ss)) = [(i, OverdueTime)]
        \<and> notificationSent (getRow (snd (checkForOverdueCheckIns now ss)) (PERMISSION_SHEET_NAME, i))
            = str ''OverdueTime'')
   \<and> (\<not> isHalfDay (getNumericDayValue (days (rows ! i))) \<and> startDate (rows ! i) = Some d
        \<and> now \<le> clock d 5 0 + msPerDay \<and> notificationSent (rows ! i) = str ''OverdueTime'' \<longrightarrow>
        emittedFor i (fst (checkForOverdueCheckIns now ss)) = []
        \<and> getRow (snd (checkForOverdueCheckIns now ss)) (PERMISSION_SHEET_NAME, i) = rows ! i)
   \<and> (\<not> isHalfDay (getNumericDayValue (days (rows ! i))) \<and> startDate (rows ! i) = Some d
        \<and> clock d 5 0 + msPerDay < now \<and> notificationSent (rows ! i) \<noteq> str ''OverdueDay'' \<longrightarrow>
        emittedFor i (fst (checkForOverdueCheckIns now ss)) = [(i, OverdueDay)]
        \<and> notificationSent (getRow (snd (checkForOverdueCheckIns now ss)) (PERMISSION_SHEET_NAME, i))
            = str ''OverdueDay'')
   \<and> (notificationSent (rows ! i) = str ''OverdueDay'' \<longrightarrow>
        emittedFor i (fst (checkForOverdueCheckIns now ss)) = []
        \<and> getRow (snd (checkForOverdueCheckIns now ss)) (PERMISSION_SHEET_NAME, i) = rows ! i)
   \<and> (isHalfDay (getNumericDayValue (days (rows ! i)))
        \<and> notificationSent (rows ! i) = str ''OverdueHalfDay_2'' \<longrightarrow>
        emittedFor i (fst (checkForOverdueCheckIns now ss)) = []
        \<and> getRow (snd (checkForOverdueCheckIns now ss)) (PERMISSION_SHEET_NAME, i) = rows ! i)
   \<and> ((i, OverdueTime) \<in> set (fst (checkForOverdueCheckIns now ss)) \<longrightarrow>
        notificationSent (rows ! i) = [])"
    by blast
qed

text \<open>
  C3 on a full-day request approved at 09:00 of its start date: runs at 19:00, at 19:30,
  at 06:00 of the next day and at 07:00 of the next day.
\<close>

theorem fullDay_escalation_witness:
  "emittedFor 0 (fst (checkForOverdueCheckIns (day0 + 68400000) ledgerF)) = [(0, OverdueTime)]
   \<and> notificationSent (getRow (snd (checkForOverdueCheckIns (day0 + 68400000) ledgerF))
         (PERMISSION_SHEET_NAME, 0)) = str ''OverdueTime''
   \<and> fst (checkForOverdueCheckIns (day0 + 70200000)
         (snd (checkForOverdueCheckIns (day0 + 68400000) ledgerF))) = []
   \<and> fst (checkForOverdueCheckIns (day0 + 108000000)
         (snd (checkForOverdueCheckIns (day0 + 70200000)
           (snd (checkForOverdueCheckIns (day0 + 68400000) ledgerF))))) = [(0, OverdueDay)]
   \<and> fst (checkForOverdueCheckIns (day0 + 111600000)
         (snd (checkForOverdueCheckIns (day0 + 108000000)
           (snd (checkForOverdueCheckIns (day0 + 70200000)
             (snd (checkForOverdueCheckIns (day0 + 68400000) ledgerF))))))) = []"
proof -
  have sheet: "getSheetByName ledgerF PERMISSION_SHEET_NAME = Some [approvedRow]"
    by (simp add: ledgerF_def getSheetByName_def)
  have times: "clock day0 18 0 < day0 + 68400000" "day0 + 68400000 < clock day0 5 0 + msPerDay"
    by (simp_all add: clock_day0[of 0, simplified] msPerDay_def)
  have first: "emittedFor 0 (fst (checkForOverdueCheckIns (day0 + 68400000) ledgerF)) = [(0, OverdueTime)]
     \<and> notificationSent (getRow (snd (checkForOverdueCheckIns (day0 + 68400000) ledgerF))
         (PERMISSION_SHEET_NAME, 0)) = str ''OverdueTime''"
    using fullDay_escalation[where ss=ledgerF and rows="[approvedRow]" and i=0 and d=day0
        and now="day0 + 68400000"] sheet times
    by (simp add: approvedRow_fields fullDay_example)
  have r1: "checkForOverdueCheckIns (day0 + 68400000) ledgerF
      = ([(0, OverdueTime)],
         [(PERMISSION_SHEET_NAME, [approvedRow\<lparr>notificationSent := str ''OverdueTime''\<rparr>]),
          (LEAVE_SHEET_NAME, []), (HOME_LEAVE_SHEET_NAME, [])])"
    by (simp add: ledgerF_def check_eval escalation_fullDay_example)
  have r2: "checkForOverdueCheckIns (day0 + 70200000)
         [(PERMISSION_SHEET_NAME, [approvedRow\<lparr>notificationSent := str ''OverdueTime''\<rparr>]),
          (LEAVE_SHEET_NAME, []), (HOME_LEAVE_SHEET_NAME, [])]
      = ([],
         [(PERMISSION_SHEET_NAME, [approvedRow\<lparr>notificationSent := str ''OverdueTime''\<rparr>]),
          (LEAVE_SHEET_NAME, []), (HOME_LEAVE_SHEET_NAME, [])])"
    by (simp add: check_eval escalation_fullDay_example)
  have r3: "checkForOverdueCheckIns (day0 + 108000000)
         [(PERMISSION_SHEET_NAME, [approvedRow\<lparr>notificationSent := str ''OverdueTime''\<rparr>]),
          (LEAVE_SHEET_NAME, []), (HOME_LEAVE_SHEET_NAME, [])]
      = ([(0, OverdueDay)],
         [(PERMISSION_SHEET_NAME, [approvedRow\<lparr>notificationSent := str ''OverdueDay''\<rparr>]),
          (LEAVE_SHEET_NAME, []), (HOME_LEAVE_SHEET_NAME, [])])"
    by (simp add: check_eval escalation_fullDay_example)
  have r4: "checkForOverdueCheckIns (day0 + 111600000)
         [(PERMISSION_SHEET_NAME, [approvedRow\<lparr>notificationSent := str ''OverdueDay''\<rparr>]),
          (LEAVE_SHEET_NAME, []), (HOME_LEAVE_SHEET_NAME, [])]
      = ([],
         [(PERMISSION_SHEET_NAME, [approvedRow\<lparr>notificationSent := str ''OverdueDay''\<rparr>]),
          (LEAVE_SHEET_NAME, []), (HOME_LEAVE_SHEET_NAME, [])])"
    by (simp add: check_eval escalation_fullDay_example)
  from first show ?thesis by (simp add: r1 r2 r3 r4)
qed

text \<open>
  Claim C3 as stated fails for the mark \<open>OverdueHalfDay_2\<close> on a full-day request (a
  request edited from half a day to a full day keeps its mark): a run after 05:00 of the
  next day sends \<open>OverdueDay\<close>.
\<close>

theorem stale_mark_counterexample:
  "status (getRow ledgerS (PERMISSION_SHEET_NAME, 0)) = str ''Approved''
   \<and> checkInTimestamp (getRow ledgerS (PERMISSION_SHEET_NAME, 0)) = None
   \<and> getNumericDayValue (days (getRow ledgerS (PERMISSION_SHEET_NAME, 0))) = Num (Fin 1)
   \<and> notificationSent (getRow ledgerS (PERMISSION_SHEET_NAME, 0)) = str ''OverdueHalfDay_2''
   \<and> fst (checkForOverdueCheckIns (day0 + 108000000) ledgerS) = [(0, OverdueDay)]"
proof -
  have "getRow ledgerS (PERMISSION_SHEET_NAME, 0) = staleMarkRow"
    by (simp add: getRow_def ledgerS_def getSheetByName_def)
  then show ?thesis
    by (simp add: staleMarkRow_def approvedRow_fields getNumericDayValue_Num ledgerS_def check_eval
        escalation_fullDay_example[unfolded staleMarkRow_def])
qed

section \<open>The duplicate guard\<close>

lemma trim_Nil: "trim [] = []"
  by (simp add: trim_def)

lemma existingEmployeeId_trim: "(if e \<noteq> [] then trim e else []) = trim e"
  by (simp add: trim_Nil)

lemma sameTime_midnight:
  "sameTime (setHours 0 0 x) (setHours 0 0 y)
     \<longleftrightarrow> (\<exists>d c. x = Some d \<and> y = Some c \<and> clock d 0 0 = clock c 0 0)"
  by (cases x; cases y) (simp_all add: setHours_def)

lemma duplicateIn_iff:
  "duplicateIn eid (setHours 0 0 sd) cur rows \<longleftrightarrow>
     (\<exists>r\<in>set rows. \<not> (cur \<noteq> [] \<and> requestId r = cur) \<and> trim (employeeId r) = eid
        \<and> (\<exists>d c. startDate r = Some d \<and> sd = Some c \<and> clock d 0 0 = clock c 0 0))"
proof (induction rows)
  case Nil
  then show ?case by simp
next
  case (Cons row rest)
  show ?case
    using Cons.IH
    by (simp add: Let_def existingEmployeeId_trim sameTime_midnight) blast
qed

text \<open>
  Claim C5, as the script has it: the duplicate check answers true exactly when the
  sheet of the given leave type holds a row, other than the one whose request id is the
  (non-empty) id to exclude, whose employee id, trimmed, is the employee id as it is
  given (the script trims the stored id only, not the id it is given) and whose start
  date falls on the same local day as the candidate date.
\<close>

theorem duplicate_iff:
  "checkForDuplicateRequests ss eid sd lt cur \<longleftrightarrow>
     (\<exists>rows. getSheetByName ss lt = Some rows
        \<and> (\<exists>r\<in>set rows. \<not> (cur \<noteq> [] \<and> requestId r = cur) \<and> trim (employeeId r) = eid
              \<and> (\<exists>d c. startDate r = Some d \<and> sd = Some c \<and> clock d 0 0 = clock c 0 0)))"
proof (cases "getSheetByName ss lt")
  case None
  then show ?thesis by (simp add: checkForDuplicateRequests_def)
next
  case (Some rows)
  show ?thesis
  proof (cases "rows = []")
    case True
    with Some show ?thesis by (simp add: checkForDuplicateRequests_def)
  next
    case False
    with Some show ?thesis by (simp add: checkForDuplicateRequests_def duplicateIn_iff)
  qed
qed

text \<open>
  C5 on the example: a request of \<open>E123\<close> on 2024-05-01 in the leave sheet flags a new
  one for that day; excluding its id, another sheet, or another day does not.
\<close>

theorem duplicate_iff_witness:
  "checkForDuplicateRequests ledgerD (str ''E123'') (Some (day0 + 25200000)) LEAVE_SHEET_NAME []
   \<and> \<not> checkForDuplicateRequests ledgerD (str ''E123'') (Some (day0 + 25200000)) LEAVE_SHEET_NAME
         (str ''REQ-7'')
   \<and> \<not> checkForDuplicateRequests ledgerD (str ''E123'') (Some (day0 + 25200000))
         PERMISSION_SHEET_NAME []
   \<and> \<not> checkForDuplicateRequests ledgerD (str ''E123'') (Some (day0 + msPerDay)) LEAVE_SHEET_NAME []"
proof -
  have names: "PERMISSION_SHEET_NAME \<noteq> LEAVE_SHEET_NAME" "LEAVE_SHEET_NAME \<noteq> PERMISSION_SHEET_NAME"
    by (simp_all add: PERMISSION_SHEET_NAME_def LEAVE_SHEET_NAME_def)
  have sheets: "getSheetByName ledgerD LEAVE_SHEET_NAME = Some [leaveRow]"
    "getSheetByName ledgerD PERMISSION_SHEET_NAME = Some [pendingRow]"
    using names by (simp_all add: ledgerD_def getSheetByName_def)
  have t: "trim (str '' E123 '') = str ''E123''" "trim (str ''E1'') \<noteq> str ''E123''"
    by (simp_all add: trim_def isWhiteSpace_def str_def)
  have f: "requestId leaveRow = str ''REQ-7''" "employeeId leaveRow = str '' E123 ''"
    "startDate leaveRow = Some day0" "employeeId pendingRow = str ''E1''"
    by (simp_all add: leaveRow_def approvedRow_def pendingRow_def)
  have ne: "str ''REQ-7'' \<noteq> []" by (simp add: str_def)
  have c: "clock day0 0 0 = day0" "clock (day0 + 25200000) 0 0 = day0"
    "clock (day0 + msPerDay) 0 0 = day0 + 86400000"
    by (simp_all add: clock_def day0_def msPerDay_def)
  show ?thesis
    using duplicate_iff[of ledgerD "str ''E123''" "Some (day0 + 25200000)" LEAVE_SHEET_NAME "[]"]
      duplicate_iff[of ledgerD "str ''E123''" "Some (day0 + 25200000)" LEAVE_SHEET_NAME "str ''REQ-7''"]
      duplicate_iff[of ledgerD "str ''E123''" "Some (day0 + 25200000)" PERMISSION_SHEET_NAME "[]"]
      duplicate_iff[of ledgerD "str ''E123''" "Some (day0 + msPerDay)" LEAVE_SHEET_NAME "[]"]
    by (simp add: sheets t f ne c)
qed

text \<open>
  Claim C5 as stated fails: the leave sheet holds a request of the employee id
  \<open>" E123 "\<close> on 2024-05-01; a candidate for the same day with the same id \<open>" E123 "\<close>
  has the same trimmed employee id, and the check answers false.
\<close>

theorem untrimmed_employeeId_counterexample:
  "getSheetByName ledgerD LEAVE_SHEET_NAME = Some [leaveRow]
   \<and> employeeId leaveRow = str '' E123 ''
   \<and> trim (employeeId leaveRow) = trim (str '' E123 '')
   \<and> setHours 0 0 (startDate leaveRow) = setHours 0 0 (Some (day0 + 25200000))
   \<and> \<not> checkForDuplicateRequests ledgerD (str '' E123 '') (Some (day0 + 25200000))
         LEAVE_SHEET_NAME []"
proof -
  have names: "LEAVE_SHEET_NAME \<noteq> PERMISSION_SHEET_NAME"
    by (simp add: PERMISSION_SHEET_NAME_def LEAVE_SHEET_NAME_def)
  have sheets: "getSheetByName ledgerD LEAVE_SHEET_NAME = Some [leaveRow]"
    using names by (simp add: ledgerD_def getSheetByName_def)
  have t: "trim (str '' E123 '') = str ''E123''" "str ''E123'' \<noteq> str '' E123 ''"
    "str '' E123 '' \<noteq> []"
    by (simp_all add: trim_def isWhiteSpace_def str_def)
  have f: "employeeId leaveRow = str '' E123 ''" "startDate leaveRow = Some day0"
    by (simp_all add: leaveRow_def approvedRow_def pendingRow_def)
  have c: "clock day0 0 0 = day0" "clock (day0 + 25200000) 0 0 = day0"
    by (simp_all add: clock_def day0_def msPerDay_def)
  have d: "setHours 0 0 (startDate leaveRow) = setHours 0 0 (Some (day0 + 25200000))"
    by (simp add: f setHours_def c)
  have n: "\<not> checkForDuplicateRequests ledgerD (str '' E123 '') (Some (day0 + 25200000))
         LEAVE_SHEET_NAME []"
    by (simp add: checkForDuplicateRequests_def sheets Let_def f t)
  show ?thesis using sheets f(1) d n by simp
qed

section \<open>The stats aggregator\<close>

lemma countsInMonth_iff:
  "countsInMonth now eid row \<longleftrightarrow>
     trim (employeeId row) = eid \<and> status row = str ''Approved''
     \<and> (\<exists>d. startDate row = Some d \<and> civil (d div msPerDay) = civil (now div msPerDay))"
  by (cases "startDate row")
     (auto simp: countsInMonth_def Let_def existingEmployeeId_trim getMonth_def getFullYear_def
        prod_eq_iff)

lemma countSheets_foldl:
  "countSheets now eid ss st ns =
     foldl (countRow now eid) st
       (concat (map (\<lambda>n. case getSheetByName ss n of None \<Rightarrow> [] | Some rows \<Rightarrow> rows) ns))"
  by (induction ns arbitrary: st) (auto split: option.splits)

lemma sheet_names_distinct:
  "PERMISSION_SHEET_NAME \<noteq> LEAVE_SHEET_NAME" "LEAVE_SHEET_NAME \<noteq> PERMISSION_SHEET_NAME"
  "PERMISSION_SHEET_NAME \<noteq> HOME_LEAVE_SHEET_NAME" "HOME_LEAVE_SHEET_NAME \<noteq> PERMISSION_SHEET_NAME"
  "LEAVE_SHEET_NAME \<noteq> HOME_LEAVE_SHEET_NAME" "HOME_LEAVE_SHEET_NAME \<noteq> LEAVE_SHEET_NAME"
  by (simp_all add: PERMISSION_SHEET_NAME_def LEAVE_SHEET_NAME_def HOME_LEAVE_SHEET_NAME_def)

lemma foldl_countRow:
  "totalRequests (foldl (countRow now eid) st rows)
     = totalRequests st + length (filter (countsInMonth now eid) rows)
   \<and> permissionCount (foldl (countRow now eid) st rows)
     = permissionCount st
       + length (filter (\<lambda>r. leaveType r = PERMISSION_SHEET_NAME) (filter (countsInMonth now eid) rows))
   \<and> leaveCount (foldl (countRow now eid) st rows)
     = leaveCount st
       + length (filter (\<lambda>r. leaveType r = LEAVE_SHEET_NAME) (filter (countsInMonth now eid) rows))
   \<and> totalDays (foldl (countRow now eid) st rows)
     = foldl addDays (totalDays st)
         (map (\<lambda>r. getNumericDayValue (days r)) (filter (countsInMonth now eid) rows))"
proof (induction rows arbitrary: st)
  case Nil
  then show ?case by simp
next
  case (Cons row rest)
  show ?case
    using Cons.IH[of "countRow now eid st row"] sheet_names_distinct
    by (simp add: countRow_def Let_def)
qed

text \<open>
  Claim C7: \<^verbatim>\<open>getMonthlyLeaveStats\<close> counts a row of the three leave sheets exactly
  when its employee id, trimmed, is the one given, its status is \<open>Approved\<close> and its
  start date lies in the calendar month and year of the clock reading. Over the rows
  counted, in scan order, \<open>totalRequests\<close> is their number, \<open>totalDays\<close> is the sum
  (JavaScript's \<^verbatim>\<open>+=\<close>, from 0) of their parsed durations, \<open>permissionCount\<close> is the
  number of them whose leave type is the permission type and \<open>leaveCount\<close> the number
  whose leave type is the leave type.
\<close>

theorem monthlyStats_counts:
  "(countsInMonth now eid row \<longleftrightarrow>
      trim (employeeId row) = eid \<and> status row = str ''Approved''
      \<and> (\<exists>d. startDate row = Some d \<and> civil (d div msPerDay) = civil (now div msPerDay)))
   \<and> totalRequests (getMonthlyLeaveStats now ss eid)
       = length (filter (countsInMonth now eid) (ledgerRows ss))
   \<and> totalDays (getMonthlyLeaveStats now ss eid)
       = foldl addDays (Number (Fin 0))
           (map (\<lambda>r. getNumericDayValue (days r)) (filter (countsInMonth now eid) (ledgerRows ss)))
   \<and> permissionCount (getMonthlyLeaveStats now ss eid)
       = length (filter (\<lambda>r. leaveType r = PERMISSION_SHEET_NAME)
                   (filter (countsInMonth now eid) (ledgerRows ss)))
   \<and> leaveCount (getMonthlyLeaveStats now ss eid)
       = length (filter (\<lambda>r. leaveType r = LEAVE_SHEET_NAME)
                   (filter (countsInMonth now eid) (ledgerRows ss)))"
  using foldl_countRow[of now eid
      "\<lparr>totalRequests = 0, totalDays = Number (Fin 0), permissionCount = 0, leaveCount = 0\<rparr>"
      "ledgerRows ss"]
  by (simp add: getMonthlyLeaveStats_def countSheets_foldl ledgerRows_def countsInMonth_iff)

lemma civil_examples:
  "civil 0 = (1970, 0)" "civil (- 1) = (1969, 11)" "civil 19782 = (2024, 1)"
  "civil 19783 = (2024, 2)" "civil 19833 = (2024, 3)" "civil 19844 = (2024, 4)"
  "civil 19845 = (2024, 4)" "civil 19858 = (2024, 4)" "civil 19874 = (2024, 4)"
  "civil 19875 = (2024, 5)" "civil 20088 = (2024, 11)" "civil 20089 = (2025, 0)"
  by code_simp+

lemma example_days:
  "day0 div msPerDay = 19844" "may2 div msPerDay = 19845" "may15 div msPerDay = 19858"
  "april20 div msPerDay = 19833"
  by (simp_all add: day0_def may2_def may15_def april20_def msPerDay_def)

lemma parse_two: "getNumericDayValue (Str (str ''2'')) = Num (Fin 2)"
  by (simp add: getNumericDayValue_def dayValueMap_def objectPrototypeKeys_def str_def token_defs
      parseFloatStr_def isWhiteSpace_def startsWith_def isDigit_def decimal_def scale10_def
      isNaN_def Let_def)

lemma statsRow_fields:
  "employeeId (statsRow rid eid lt start dur st) = eid"
  "status (statsRow rid eid lt start dur st) = st"
  "startDate (statsRow rid eid lt start dur st) = Some start"
  "leaveType (statsRow rid eid lt start dur st) = lt"
  "days (statsRow rid eid lt start dur st) = dur"
  by (simp_all add: statsRow_def)

lemma ledgerM_rows:
  "ledgerRows ledgerM =
     [statsRow (str ''REQ-11'') (str ''E1'') PERMISSION_SHEET_NAME may2 (Num (Fin 1)) (str ''Approved''),
      statsRow (str ''REQ-12'') (str ''E1 '') PERMISSION_SHEET_NAME day0 (Str TOKEN_AFTERNOON)
        (str ''Approved''),
      statsRow (str ''REQ-13'') (str ''E1'') PERMISSION_SHEET_NAME may2 (Num (Fin 1)) (str ''Pending''),
      statsRow (str ''REQ-14'') (str ''E2'') PERMISSION_SHEET_NAME may2 (Num (Fin 3)) (str ''Approved''),
      statsRow (str ''REQ-15'') (str ''E1'') LEAVE_SHEET_NAME april20 (Num (Fin 1)) (str ''Approved''),
      statsRow (str ''REQ-16'') (str ''E1'') LEAVE_SHEET_NAME may2 (Str (str ''2'')) (str ''Approved'')]"
  using sheet_names_distinct
  by (simp add: ledgerRows_def ledgerM_def ALL_LEAVE_SHEETS_def getSheetByName_def)

lemma ledgerM_counted:
  "filter (countsInMonth may15 (str ''E1'')) (ledgerRows ledgerM) =
     [statsRow (str ''REQ-11'') (str ''E1'') PERMISSION_SHEET_NAME may2 (Num (Fin 1)) (str ''Approved''),
      statsRow (str ''REQ-12'') (str ''E1 '') PERMISSION_SHEET_NAME day0 (Str TOKEN_AFTERNOON)
        (str ''Approved''),
      statsRow (str ''REQ-16'') (str ''E1'') LEAVE_SHEET_NAME may2 (Str (str ''2'')) (str ''Approved'')]"
proof -
  have t: "trim (str ''E1'') = str ''E1''" "trim (str ''E1 '') = str ''E1''"
    "trim (str ''E2'') \<noteq> str ''E1''" "str ''Pending'' \<noteq> str ''Approved''"
    by (simp_all add: trim_def isWhiteSpace_def str_def)
  show ?thesis
    using t
    by (simp add: ledgerM_rows countsInMonth_iff statsRow_fields example_days civil_examples)
qed

text \<open>
  C7 on the example: durations 1, 0.5 and 2 in May give 3 requests and 3.5 days, two
  permissions and one leave; the April row, the pending row and the other employee's
  row are left out.
\<close>

theorem monthlyStats_counts_witness:
  "totalRequests (getMonthlyLeaveStats may15 ledgerM (str ''E1'')) = 3
   \<and> totalDays (getMonthlyLeaveStats may15 ledgerM (str ''E1'')) = Number (Fin (7 / 2))
   \<and> permissionCount (getMonthlyLeaveStats may15 ledgerM (str ''E1'')) = 2
   \<and> leaveCount (getMonthlyLeaveStats may15 ledgerM (str ''E1'')) = 1"
  using monthlyStats_counts[of may15 "str ''E1''" _ ledgerM] sheet_names_distinct
  by (simp add: ledgerM_counted statsRow_fields getNumericDayValue_Num getNumericDayValue_token
      parse_two)

section \<open>Reaching a full-day request with a half-day mark\<close>

lemma setRow_eval:
  "setRow [(PERMISSION_SHEET_NAME, row # rest), (LEAVE_SHEET_NAME, l), (HOME_LEAVE_SHEET_NAME, h)]
     (PERMISSION_SHEET_NAME, 0) f
   = [(PERMISSION_SHEET_NAME, f row # rest), (LEAVE_SHEET_NAME, l), (HOME_LEAVE_SHEET_NAME, h)]"
  by (simp add: setRow_def getSheetByName_def)

lemma findRequestRow_first:
  "requestId row = rid \<Longrightarrow>
   findRequestRow [(PERMISSION_SHEET_NAME, row # rest), (LEAVE_SHEET_NAME, l), (HOME_LEAVE_SHEET_NAME, h)] rid
     = Some (PERMISSION_SHEET_NAME, 0)"
  by (simp add: findRequestRow_def ALL_LEAVE_SHEETS_def getSheetByName_def)

lemma getRow_first:
  "getRow [(PERMISSION_SHEET_NAME, row # rest), (LEAVE_SHEET_NAME, l), (HOME_LEAVE_SHEET_NAME, h)]
     (PERMISSION_SHEET_NAME, 0) = row"
  by (simp add: getRow_def getSheetByName_def)

text \<open>
  A full-day request with the mark \<open>OverdueHalfDay_2\<close> arises from the script's own
  operations: the half-day request of the example is escalated twice, then edited to a
  full day (the edit keeps the notification column) and approved again; the run at 06:00
  of the next day then sends \<open>OverdueDay\<close> for it.
\<close>

lemma stale_mark_reachable:
  "snd (checkForOverdueCheckIns (day0 + 53100000)
         (snd (checkForOverdueCheckIns (day0 + 42300000) ledgerH)))
     = [(PERMISSION_SHEET_NAME,
         [halfDayRow\<lparr>notificationSent := str ''OverdueHalfDay_2''\<rparr>, lateHalfDayRow]),
        (LEAVE_SHEET_NAME, []), (HOME_LEAVE_SHEET_NAME, [])]
   \<and> snd (updateRequestStatus (day0 + 54000000)
           (snd (updateLeaveRequest uploads1
              [(PERMISSION_SHEET_NAME,
                [halfDayRow\<lparr>notificationSent := str ''OverdueHalfDay_2''\<rparr>, lateHalfDayRow]),
               (LEAVE_SHEET_NAME, []), (HOME_LEAVE_SHEET_NAME, [])] edit5))
           (str ''REQ-5'') (str ''Approved'') (str ''Admin'') [])
     = [(PERMISSION_SHEET_NAME, [editedRow, lateHalfDayRow]),
        (LEAVE_SHEET_NAME, []), (HOME_LEAVE_SHEET_NAME, [])]
   \<and> fst (checkForOverdueCheckIns (day0 + 108000000)
           [(PERMISSION_SHEET_NAME, [editedRow, lateHalfDayRow]),
            (LEAVE_SHEET_NAME, []), (HOME_LEAVE_SHEET_NAME, [])])
     = [(0, OverdueDay)]"
proof -
  have ne: "str ''REQ-5'' \<noteq> []" "str ''Approved'' \<noteq> []" "str ''Admin'' \<noteq> []"
    "str ''Approved'' \<noteq> str ''Rejected''"
    by (simp_all add: str_def)
  have img: "\<not> isBase64Image []" by (simp add: isBase64Image_def startsWith_def str_def)
  have id5: "requestId (halfDayRow\<lparr>notificationSent := m\<rparr>) = str ''REQ-5''" for m
    by (simp add: halfDayRow_def)
  have s1: "checkForOverdueCheckIns (day0 + 42300000) ledgerH
      = ([(0, OverdueHalfDay_1)],
         [(PERMISSION_SHEET_NAME,
           [halfDayRow\<lparr>notificationSent := str ''OverdueHalfDay_1''\<rparr>, lateHalfDayRow]),
          (LEAVE_SHEET_NAME, []), (HOME_LEAVE_SHEET_NAME, [])])"
    by (simp add: ledgerH_def check_eval escalation_halfDay_example)
  have A: "snd (checkForOverdueCheckIns (day0 + 53100000)
         (snd (checkForOverdueCheckIns (day0 + 42300000) ledgerH)))
     = [(PERMISSION_SHEET_NAME,
         [halfDayRow\<lparr>notificationSent := str ''OverdueHalfDay_2''\<rparr>, lateHalfDayRow]),
        (LEAVE_SHEET_NAME, []), (HOME_LEAVE_SHEET_NAME, [])]"
    by (simp add: s1 check_eval escalation_halfDay_example)
  have e: "snd (updateLeaveRequest uploads1
              [(PERMISSION_SHEET_NAME,
                [halfDayRow\<lparr>notificationSent := str ''OverdueHalfDay_2''\<rparr>, lateHalfDayRow]),
               (LEAVE_SHEET_NAME, []), (HOME_LEAVE_SHEET_NAME, [])] edit5)
      = [(PERMISSION_SHEET_NAME,
          [halfDayRow\<lparr>notificationSent := str ''OverdueHalfDay_2'',
             leaveType := PERMISSION_SHEET_NAME, startDate := Some day0, endDate := Some day0,
             days := Num (Fin 1), reason := str ''clinic'', selfiePhoto := Some [], docPhoto := [],
             status := str ''Pending'', approver := [], approvalTimestamp := None,
             adminCheckinNote := []\<rparr>, lateHalfDayRow]),
         (LEAVE_SHEET_NAME, []), (HOME_LEAVE_SHEET_NAME, [])]"
    using ne img
    by (simp add: updateLeaveRequest_def edit5_def edit1_def findRequestRow_first id5 setRow_eval
        Let_def)
  have B: "snd (updateRequestStatus (day0 + 54000000)
           (snd (updateLeaveRequest uploads1
              [(PERMISSION_SHEET_NAME,
                [halfDayRow\<lparr>notificationSent := str ''OverdueHalfDay_2''\<rparr>, lateHalfDayRow]),
               (LEAVE_SHEET_NAME, []), (HOME_LEAVE_SHEET_NAME, [])] edit5))
           (str ''REQ-5'') (str ''Approved'') (str ''Admin'') [])
     = [(PERMISSION_SHEET_NAME, [editedRow, lateHalfDayRow]),
        (LEAVE_SHEET_NAME, []), (HOME_LEAVE_SHEET_NAME, [])]"
    unfolding e using ne
    by (simp add: updateRequestStatus_def findRequestRow_first halfDayRow_def getRow_first
        setRow_eval Let_def editedRow_def)
  have esc: "escalationFor (day0 + 108000000) editedRow = Some OverdueDay"
    using mark_distinct
    by (simp add: escalationFor_def editedRow_def halfDayRow_fields fullDay_example
        newNotificationStatus_full[where d=day0] clock_day0[of 0, simplified] msPerDay_def)
  have late: "escalationFor (day0 + 108000000) lateHalfDayRow = None"
    by (simp add: escalationFor_def halfDayRow_fields halfDay_example
        newNotificationStatus_half[where d=day0] clock_day0[of 0, simplified] msPerDay_def)
  have C: "fst (checkForOverdueCheckIns (day0 + 108000000)
           [(PERMISSION_SHEET_NAME, [editedRow, lateHalfDayRow]),
            (LEAVE_SHEET_NAME, []), (HOME_LEAVE_SHEET_NAME, [])])
     = [(0, OverdueDay)]"
    by (simp add: check_eval esc late)
  from A B C show ?thesis by simp
qed

end
